theory Spec2Isabelle
  imports Complex_Main "HOL-Library.Log_Nat"
begin

section \<open>Python values and errors\<close>

text \<open>
  The notebooks are Python. Exceptions are values of the type \<open>py_error\<close>; a call that
  may raise returns \<open>py_error + 'a\<close> with \<open>Inl\<close> for the exception. Python's unbounded
  integers are \<open>int\<close>. Python's floats are doubles, with their rounding, in
  \<open>expectation_value\<close>; the entries of the numpy matrix \<open>rho\<close> are idealised as
  \<open>complex\<close> numbers.
\<close>

datatype py_error = ZeroDivisionError | OverflowError | KeyError | CircuitError | NameError

text \<open>
  A \<open>dict\<close> with string keys is an association list in insertion order. A Python dict
  holds each key once: \<open>wf_dict\<close>.
\<close>

type_synonym 'v py_dict = "(string \<times> 'v) list"

definition wf_dict :: "'v py_dict \<Rightarrow> bool" where
  "wf_dict d = distinct (map fst d)"

definition dict_keys :: "'v py_dict \<Rightarrow> string list" where
  "dict_keys d = map fst d"

definition dict_values :: "'v py_dict \<Rightarrow> 'v list" where
  "dict_values d = map snd d"

definition dict_contains :: "string \<Rightarrow> 'v py_dict \<Rightarrow> bool" where
  "dict_contains k d = (map_of d k \<noteq> None)"

definition dict_getitem :: "'v py_dict \<Rightarrow> string \<Rightarrow> py_error + 'v" where
  "dict_getitem d k = (case map_of d k of None \<Rightarrow> Inl KeyError | Some v \<Rightarrow> Inr v)"

definition dict_get :: "'v py_dict \<Rightarrow> string \<Rightarrow> 'v \<Rightarrow> 'v" where
  "dict_get d k dflt = (case map_of d k of None \<Rightarrow> dflt | Some v \<Rightarrow> v)"

subsection \<open>Floats\<close>

text \<open>
  A Python float is an IEEE 754 binary64 double: a mantissa of 53 bits and a binary
  exponent from -1022 to 1023, with gradual underflow below. A finite double is modelled
  by its value, a real number, so the two zeros are one value. Arithmetic returns the
  double nearest to the exact result, a tie going to the even mantissa.

  \<open>round_half_even\<close> is the nearest integer, ties to even. \<open>exponent x\<close> is the binary
  exponent of \<open>x\<close>, the \<open>e\<close> with \<open>2 ^ e \<le> \<bar>x\<bar> < 2 ^ (e + 1)\<close>, read off the bit
  length of the integer part of \<open>\<bar>x\<bar>\<close>, or of its reciprocal when \<open>\<bar>x\<bar> < 1\<close>.
  \<open>ulp x\<close> is the spacing of the doubles around \<open>x\<close>: \<open>2 ^ (e - 52)\<close>, and
  \<open>2 ^ (- 1074)\<close> in the subnormal range. \<open>nearest_double x\<close> is then the multiple of
  \<open>ulp x\<close> nearest to \<open>x\<close>.
\<close>

definition round_half_even :: "real \<Rightarrow> int" where
  "round_half_even x =
     (let n = \<lfloor>x\<rfloor>; d = x - of_int n in
      if d < 1 / 2 then n else if 1 / 2 < d then n + 1 else if even n then n else n + 1)"

definition exponent :: "real \<Rightarrow> int" where
  "exponent x =
     (if 1 \<le> \<bar>x\<bar> then bitlen \<lfloor>\<bar>x\<bar>\<rfloor> - 1 else - bitlen (\<lceil>1 / \<bar>x\<bar>\<rceil> - 1))"

definition ulp :: "real \<Rightarrow> real" where
  "ulp x = 2 powi (max (exponent x) (- 1022) - 52)"

definition nearest_double :: "real \<Rightarrow> real" where
  "nearest_double x = of_int (round_half_even (x / ulp x)) * ulp x"

text \<open>
  A float is a finite double, an infinity or a NaN. A result whose nearest double would
  need an exponent above 1023 overflows to an infinity.
\<close>

datatype py_float = Finite real | PosInf | NegInf | NaN

definition to_float :: "real \<Rightarrow> py_float" where
  "to_float x =
     (let r = nearest_double x in
      if 2 powi 1024 \<le> r then PosInf else if r \<le> - (2 powi 1024) then NegInf else Finite r)"

fun float_neg :: "py_float \<Rightarrow> py_float" where
  "float_neg (Finite x) = Finite (- x)"
| "float_neg PosInf = NegInf"
| "float_neg NegInf = PosInf"
| "float_neg NaN = NaN"

text \<open>Python's \<open>x + y\<close> and \<open>x - y\<close> on floats; they raise nothing.\<close>

fun float_add :: "py_float \<Rightarrow> py_float \<Rightarrow> py_float" where
  "float_add (Finite x) (Finite y) = to_float (x + y)"
| "float_add NaN y = NaN"
| "float_add x NaN = NaN"
| "float_add PosInf NegInf = NaN"
| "float_add NegInf PosInf = NaN"
| "float_add PosInf y = PosInf"
| "float_add NegInf y = NegInf"
| "float_add x PosInf = PosInf"
| "float_add x NegInf = NegInf"

definition float_sub :: "py_float \<Rightarrow> py_float \<Rightarrow> py_float" where
  "float_sub x y = float_add x (float_neg y)"

text \<open>
  Python's \<open>a / b\<close> on integers, true division: \<open>ZeroDivisionError\<close> when \<open>b = 0\<close>;
  otherwise the double nearest to the exact quotient of the two integers, and
  \<open>OverflowError\<close> when that quotient is too large for a double.
\<close>

definition py_truediv :: "int \<Rightarrow> int \<Rightarrow> py_error + py_float" where
  "py_truediv a b =
     (if b = 0 then Inl ZeroDivisionError
      else case to_float (real_of_int a / real_of_int b) of
             Finite q \<Rightarrow> Inr (Finite q)
           | _ \<Rightarrow> Inl OverflowError)"

section \<open>Quantum state tomography: \<open>expectation_value\<close>\<close>

text \<open>
  \<^verbatim>\<open>
  def expectation_value(counts):
      shots = sum(counts.values())
      exp_value = 0
      if '0' in counts:
          exp_value += counts['0'] / shots
      if '1' in counts:
          exp_value -= counts['1'] / shots
      return exp_value
  \<close>
  The two conditional updates are \<open>add_if_zero\<close> and \<open>sub_if_one\<close>; each raises what
  the subscript or the division raises. \<open>exp_value\<close> starts as the integer 0, which
  Python converts to the float 0.0 when a float is added to it or subtracted from it:
  \<open>Finite 0\<close> stands for both.
\<close>

definition add_if_zero :: "int py_dict \<Rightarrow> int \<Rightarrow> py_float \<Rightarrow> py_error + py_float" where
  "add_if_zero counts shots exp_value =
     (if dict_contains ''0'' counts then
        (case dict_getitem counts ''0'' of
           Inl e \<Rightarrow> Inl e
         | Inr c \<Rightarrow> (case py_truediv c shots of
                       Inl e \<Rightarrow> Inl e
                     | Inr q \<Rightarrow> Inr (float_add exp_value q)))
      else Inr exp_value)"

definition sub_if_one :: "int py_dict \<Rightarrow> int \<Rightarrow> py_float \<Rightarrow> py_error + py_float" where
  "sub_if_one counts shots exp_value =
     (if dict_contains ''1'' counts then
        (case dict_getitem counts ''1'' of
           Inl e \<Rightarrow> Inl e
         | Inr c \<Rightarrow> (case py_truediv c shots of
                       Inl e \<Rightarrow> Inl e
                     | Inr q \<Rightarrow> Inr (float_sub exp_value q)))
      else Inr exp_value)"

definition expectation_value :: "int py_dict \<Rightarrow> py_error + py_float" where
  "expectation_value counts =
     (let shots = sum_list (dict_values counts) in
      case add_if_zero counts shots (Finite 0) of
        Inl e \<Rightarrow> Inl e
      | Inr exp_value \<Rightarrow> sub_if_one counts shots exp_value)"

section \<open>Quantum state tomography: the reconstructed density matrix\<close>

text \<open>
  \<^verbatim>\<open>
  rho = 0.5 * (np.eye(2) + r_x * np.array([[0, 1], [1, 0]])
               + r_y * np.array([[0, -1j], [1j, 0]])
               + r_z * np.array([[1, 0], [0, -1]]))
  \<close>
  A numpy matrix is a list of rows. Scalar times matrix and matrix plus matrix work
  entry by entry, as numpy's broadcasting does on operands of one shape.
\<close>

type_synonym matrix = "complex list list"

definition np_eye :: "nat \<Rightarrow> matrix" where
  "np_eye n = map (\<lambda>i. map (\<lambda>j. if i = j then 1 else 0) [0..<n]) [0..<n]"

definition np_scale :: "complex \<Rightarrow> matrix \<Rightarrow> matrix" where
  "np_scale a m = map (map (\<lambda>x. a * x)) m"

definition np_add :: "matrix \<Rightarrow> matrix \<Rightarrow> matrix" where
  "np_add m n = map2 (map2 (+)) m n"

definition pauli_x :: matrix where
  "pauli_x = [[0, 1], [1, 0]]"

definition pauli_y :: matrix where
  "pauli_y = [[0, - \<i>], [\<i>, 0]]"

definition pauli_z :: matrix where
  "pauli_z = [[1, 0], [0, - 1]]"

definition rho :: "real \<Rightarrow> real \<Rightarrow> real \<Rightarrow> matrix" where
  "rho r_x r_y r_z =
     np_scale (complex_of_real 0.5)
       (np_add (np_add (np_add (np_eye 2) (np_scale (complex_of_real r_x) pauli_x))
                       (np_scale (complex_of_real r_y) pauli_y))
               (np_scale (complex_of_real r_z) pauli_z))"

text \<open>The trace, the conjugate transpose and what it is to be Hermitian.\<close>

definition entry :: "matrix \<Rightarrow> nat \<Rightarrow> nat \<Rightarrow> complex" where
  "entry m i j = m ! i ! j"

definition trace :: "matrix \<Rightarrow> complex" where
  "trace m = sum_list (map (\<lambda>i. entry m i i) [0..<length m])"

definition dagger :: "matrix \<Rightarrow> matrix" where
  "dagger m = map (\<lambda>j. map (\<lambda>i. cnj (entry m i j)) [0..<length m]) [0..<length m]"

definition hermitian :: "matrix \<Rightarrow> bool" where
  "hermitian m = (dagger m = m)"

definition shape :: "matrix \<Rightarrow> nat list" where
  "shape m = length m # remdups (map length m)"

section \<open>The SDK's circuit object\<close>

text \<open>
  The notebooks build circuits with Qiskit's \<open>QuantumCircuit\<close>. The class is the
  SDK's, not the repository's; what the notebooks use of it is modelled here from its
  documented behaviour: a circuit has a number of qubits, a number of classical bits and
  a list of instructions, every method appends instructions and raises \<open>CircuitError\<close>
  on a bit index that is out of range. Rotation angles and initial amplitudes are not
  kept: no property below depends on them.
\<close>

datatype gate = HGate | XGate | ZGate | SGate | SdgGate | CXGate | CZGate | RXGate | RYGate | RZGate

datatype instruction =
    Gate gate "nat list"
  | Measure nat nat
  | Barrier "nat list"
  | Initialize "nat list"
  | SaveStatevector "nat list"
  | Library string "nat list"

record QuantumCircuit =
  num_qubits :: nat
  num_clbits :: nat
  data :: "instruction list"

text \<open>\<open>QuantumCircuit(n)\<close> and \<open>QuantumCircuit(n, m)\<close>.\<close>

definition new_circuit :: "nat \<Rightarrow> nat \<Rightarrow> QuantumCircuit" where
  "new_circuit n m = \<lparr>num_qubits = n, num_clbits = m, data = []\<rparr>"

definition qubits_ok :: "QuantumCircuit \<Rightarrow> nat list \<Rightarrow> bool" where
  "qubits_ok qc qs = list_all (\<lambda>q. q < num_qubits qc) qs"

definition clbits_ok :: "QuantumCircuit \<Rightarrow> nat list \<Rightarrow> bool" where
  "clbits_ok qc cs = list_all (\<lambda>c. c < num_clbits qc) cs"

definition emit :: "instruction list \<Rightarrow> QuantumCircuit \<Rightarrow> QuantumCircuit" where
  "emit ins qc = qc\<lparr>data := data qc @ ins\<rparr>"

text \<open>
  A one-qubit gate method (\<open>qc.h(0)\<close>, \<open>qc.h([0, 1])\<close>, \<open>qc.rx(theta, i)\<close>): one
  gate on each qubit given.
\<close>

definition gate1 :: "gate \<Rightarrow> nat list \<Rightarrow> QuantumCircuit \<Rightarrow> py_error + QuantumCircuit" where
  "gate1 g qs qc =
     (if qubits_ok qc qs then Inr (emit (map (\<lambda>q. Gate g [q]) qs) qc) else Inl CircuitError)"

text \<open>A two-qubit gate method (\<open>qc.cz(0, 1)\<close>, \<open>qc.cx(0, 1)\<close>): the two qubits differ.\<close>

definition gate2 :: "gate \<Rightarrow> nat \<Rightarrow> nat \<Rightarrow> QuantumCircuit \<Rightarrow> py_error + QuantumCircuit" where
  "gate2 g c t qc =
     (if qubits_ok qc [c, t] \<and> c \<noteq> t then Inr (emit [Gate g [c, t]] qc) else Inl CircuitError)"

text \<open>\<open>qc.measure(qubits, clbits)\<close>: qubit by qubit into the classical bit beside it.\<close>

definition measure :: "nat list \<Rightarrow> nat list \<Rightarrow> QuantumCircuit \<Rightarrow> py_error + QuantumCircuit" where
  "measure qs cs qc =
     (if qubits_ok qc qs \<and> clbits_ok qc cs \<and> length qs = length cs
      then Inr (emit (map2 Measure qs cs) qc) else Inl CircuitError)"

text \<open>
  \<open>qc.measure_all()\<close>: a new classical register with one bit per qubit, a barrier, and
  every qubit measured into its new bit. It raises nothing.
\<close>

definition measure_all :: "QuantumCircuit \<Rightarrow> py_error + QuantumCircuit" where
  "measure_all qc =
     (let n = num_qubits qc; m = num_clbits qc in
      Inr (qc\<lparr>num_clbits := m + n,
              data := data qc @ [Barrier [0..<n]] @ map (\<lambda>q. Measure q (m + q)) [0..<n]\<rparr>))"

text \<open>\<open>qc.initialize(vector, qubits)\<close>: the vector has \<open>2 ^ len(qubits)\<close> amplitudes.\<close>

definition initialize :: "nat \<Rightarrow> nat list \<Rightarrow> QuantumCircuit \<Rightarrow> py_error + QuantumCircuit" where
  "initialize len qs qc =
     (if qubits_ok qc qs \<and> distinct qs \<and> len = 2 ^ length qs
      then Inr (emit [Initialize qs] qc) else Inl CircuitError)"

text \<open>\<open>qc.barrier()\<close>: a barrier across all qubits.\<close>

definition barrier :: "QuantumCircuit \<Rightarrow> py_error + QuantumCircuit" where
  "barrier qc = Inr (emit [Barrier [0..<num_qubits qc]] qc)"

text \<open>\<open>qc.save_statevector()\<close> (added by qiskit_aer): a save instruction on all qubits.\<close>

definition save_statevector :: "QuantumCircuit \<Rightarrow> py_error + QuantumCircuit" where
  "save_statevector qc = Inr (emit [SaveStatevector [0..<num_qubits qc]] qc)"

text \<open>\<open>qc.append(other, qargs)\<close>: \<open>other\<close> as one instruction on the qubits \<open>qargs\<close>.\<close>

definition append_circuit ::
  "string \<Rightarrow> QuantumCircuit \<Rightarrow> nat list \<Rightarrow> QuantumCircuit \<Rightarrow> py_error + QuantumCircuit" where
  "append_circuit label other qargs qc =
     (if qubits_ok qc qargs \<and> distinct qargs \<and> length qargs = num_qubits other
      then Inr (emit [Library label qargs] qc) else Inl CircuitError)"

text \<open>
  Library circuits: \<open>EfficientSU2(n, ...)\<close> has \<open>n\<close> qubits, \<open>GroverOperator(oracle)\<close>
  has the oracle's qubits.
\<close>

definition EfficientSU2 :: "nat \<Rightarrow> QuantumCircuit" where
  "EfficientSU2 n = \<lparr>num_qubits = n, num_clbits = 0, data = [Library ''EfficientSU2'' [0..<n]]\<rparr>"

definition GroverOperator :: "QuantumCircuit \<Rightarrow> QuantumCircuit" where
  "GroverOperator oracle =
     \<lparr>num_qubits = num_qubits oracle, num_clbits = 0,
      data = [Library ''GroverOperator'' [0..<num_qubits oracle]]\<rparr>"

text \<open>
  Sequencing: \<open>and_then r f\<close> goes on with \<open>f\<close> on the value of \<open>r\<close>, unless \<open>r\<close> is an
  exception, which it passes on. \<open>calls\<close> is a sequence of method calls on one circuit
  object, as the cells of a notebook make them.
\<close>

definition and_then :: "py_error + 'a \<Rightarrow> ('a \<Rightarrow> py_error + 'b) \<Rightarrow> py_error + 'b" where
  "and_then r f = (case r of Inl e \<Rightarrow> Inl e | Inr a \<Rightarrow> f a)"

definition calls ::
  "(QuantumCircuit \<Rightarrow> py_error + QuantumCircuit) list \<Rightarrow> py_error + QuantumCircuit
   \<Rightarrow> py_error + QuantumCircuit" where
  "calls fs r = foldl and_then r fs"

text \<open>
  What the SDK returns from a circuit it is given. \<open>transpile(qc, simulator)\<close> returns a
  new circuit on the same bits (the simulator has no coupling map, so no qubit is
  added); its compiled instruction list is the SDK's and is kept as one opaque
  instruction. \<open>assign_parameters\<close> returns the circuit with its angles bound, and the
  evolved state of \<open>TrotterQRTE.evolve\<close> is the initial circuit followed by the
  evolution. A library operation on given wires (a PennyLane template, an observable)
  needs the wires to exist.
\<close>

definition transpile :: "QuantumCircuit \<Rightarrow> py_error + QuantumCircuit" where
  "transpile qc = Inr (qc\<lparr>data := [Library ''transpiled'' [0..<num_qubits qc]]\<rparr>)"

definition assign_parameters :: "QuantumCircuit \<Rightarrow> py_error + QuantumCircuit" where
  "assign_parameters qc = Inr qc"

definition evolved_state :: "QuantumCircuit \<Rightarrow> py_error + QuantumCircuit" where
  "evolved_state qc = Inr (emit [Library ''PauliEvolution'' [0..<num_qubits qc]] qc)"

definition library_op :: "string \<Rightarrow> nat list \<Rightarrow> QuantumCircuit \<Rightarrow> py_error + QuantumCircuit" where
  "library_op label wires qc =
     (if qubits_ok qc wires then Inr (emit [Library label wires] qc) else Inl CircuitError)"

definition append_result ::
  "string \<Rightarrow> py_error + QuantumCircuit \<Rightarrow> nat list \<Rightarrow> QuantumCircuit
   \<Rightarrow> py_error + QuantumCircuit" where
  "append_result label other qargs qc =
     and_then other (\<lambda>c. append_circuit label c qargs qc)"

section \<open>Quantum state tomography: \<open>prepare_state\<close> and \<open>measure_in_bases\<close>\<close>

text \<open>
  \<open>measure_in_bases\<close> copies its argument and mutates the copies, so objects and
  references are explicit here: the store is the list of the circuit objects that exist,
  a reference is an index into it, a new object goes to the end. A reference to no
  object cannot arise in Python, where a name in scope always refers to an object; the
  model gives it \<open>NameError\<close>.
\<close>

type_synonym store = "QuantumCircuit list"

definition alloc :: "QuantumCircuit \<Rightarrow> store \<Rightarrow> nat \<times> store" where
  "alloc qc st = (length st, st @ [qc])"

text \<open>\<open>circuit.copy()\<close>: a new object with the same contents.\<close>

definition copy :: "nat \<Rightarrow> store \<Rightarrow> py_error + nat \<times> store" where
  "copy r st = (if r < length st then Inr (alloc (st ! r) st) else Inl NameError)"

text \<open>A method call \<open>r.f(...)\<close>: it mutates the object that \<open>r\<close> refers to.\<close>

definition invoke ::
  "nat \<Rightarrow> (QuantumCircuit \<Rightarrow> py_error + QuantumCircuit) \<Rightarrow> store \<Rightarrow> py_error + store" where
  "invoke r f st =
     (if r < length st
      then and_then (f (st ! r)) (\<lambda>qc. Inr (st[r := qc]))
      else Inl NameError)"

text \<open>
  \<^verbatim>\<open>
  def prepare_state():
      qc = QuantumCircuit(1)
      qc.h(0)
      qc.s(0)
      return qc
  \<close>
\<close>

definition prepare_state :: "store \<Rightarrow> py_error + nat \<times> store" where
  "prepare_state st0 =
     (case alloc (new_circuit 1 0) st0 of (qc, st1) \<Rightarrow>
      and_then (invoke qc (gate1 HGate [0]) st1) (\<lambda>st2.
      and_then (invoke qc (gate1 SGate [0]) st2) (\<lambda>st3.
      Inr (qc, st3))))"

text \<open>
  \<^verbatim>\<open>
  def measure_in_bases(circuit):
      circuits = []
      qc_x = circuit.copy()
      qc_x.h(0)
      qc_x.measure_all()
      circuits.append(qc_x)
      qc_y = circuit.copy()
      qc_y.sdg(0)
      qc_y.h(0)
      qc_y.measure_all()
      circuits.append(qc_y)
      qc_z = circuit.copy()
      qc_z.measure_all()
      circuits.append(qc_z)
      return circuits
  \<close>
  The list \<open>circuits\<close> is local to the call; it holds references.
\<close>

definition measure_in_bases :: "nat \<Rightarrow> store \<Rightarrow> py_error + nat list \<times> store" where
  "measure_in_bases circuit st0 =
     (let circuits0 = [] in
      and_then (copy circuit st0) (\<lambda>(qc_x, st1).
      and_then (invoke qc_x (gate1 HGate [0]) st1) (\<lambda>st2.
      and_then (invoke qc_x measure_all st2) (\<lambda>st3.
      let circuits1 = circuits0 @ [qc_x] in
      and_then (copy circuit st3) (\<lambda>(qc_y, st4).
      and_then (invoke qc_y (gate1 SdgGate [0]) st4) (\<lambda>st5.
      and_then (invoke qc_y (gate1 HGate [0]) st5) (\<lambda>st6.
      and_then (invoke qc_y measure_all st6) (\<lambda>st7.
      let circuits2 = circuits1 @ [qc_y] in
      and_then (copy circuit st7) (\<lambda>(qc_z, st8).
      and_then (invoke qc_z measure_all st8) (\<lambda>st9.
      let circuits3 = circuits2 @ [qc_z] in
      Inr (circuits3, st9)))))))))))"

text \<open>
  The measurement part that \<open>measure_all\<close> appends to a circuit of \<open>n\<close> qubits and \<open>m\<close>
  classical bits, and the three bases: what is appended to the prepared circuit to
  measure along X, along Y and along Z.
\<close>

definition all_measured :: "nat \<Rightarrow> nat \<Rightarrow> instruction list" where
  "all_measured n m = Barrier [0..<n] # map (\<lambda>q. Measure q (m + q)) [0..<n]"

definition x_basis :: "nat \<Rightarrow> nat \<Rightarrow> instruction list" where
  "x_basis n m = Gate HGate [0] # all_measured n m"

definition y_basis :: "nat \<Rightarrow> nat \<Rightarrow> instruction list" where
  "y_basis n m = Gate SdgGate [0] # Gate HGate [0] # all_measured n m"

definition z_basis :: "nat \<Rightarrow> nat \<Rightarrow> instruction list" where
  "z_basis n m = all_measured n m"

definition measured_in ::
  "(nat \<Rightarrow> nat \<Rightarrow> instruction list) \<Rightarrow> QuantumCircuit \<Rightarrow> QuantumCircuit" where
  "measured_in basis qc =
     \<lparr>num_qubits = num_qubits qc, num_clbits = num_clbits qc + num_qubits qc,
      data = data qc @ basis (num_qubits qc) (num_clbits qc)\<rparr>"

section \<open>The circuits that the notebooks construct\<close>

text \<open>
  Every circuit object of every notebook, as the notebook makes it: what a constructor
  returns (\<open>start\<close>: a circuit, or the exception of the call that was to supply its
  argument) and the calls that then build on it, in the order of the cells
  (\<open>steps\<close>). A loop over the qubits is the list of its calls. A circuit that the SDK
  derives from another one (\<open>transpile\<close>, \<open>assign_parameters\<close>, the evolved state) is
  the other one's build followed by that call.
\<close>

record build =
  start :: "py_error + QuantumCircuit"
  steps :: "(QuantumCircuit \<Rightarrow> py_error + QuantumCircuit) list"

definition built :: "build \<Rightarrow> py_error + QuantumCircuit" where
  "built b = calls (steps b) (start b)"

text \<open>The circuit after each number of steps: the stages of a build.\<close>

definition stages :: "build \<Rightarrow> (py_error + QuantumCircuit) list" where
  "stages b = map (\<lambda>k. calls (take k (steps b)) (start b)) [0..<Suc (length (steps b))]"

text \<open>
  0001 (basic circuit), 0014 (random number generator) and the superposition notebook:
  \<open>qc = QuantumCircuit(1, 1); qc.h(0); qc.measure(0, 0)\<close>, then
  \<open>compiled_circuit = transpile(qc, simulator)\<close>.
\<close>

definition hadamard_measure :: build where
  "hadamard_measure = \<lparr>start = Inr (new_circuit 1 1), steps = [gate1 HGate [0], measure [0] [0]]\<rparr>"

definition nb_0001_qc :: build where
  "nb_0001_qc = hadamard_measure"

definition nb_0001_compiled :: build where
  "nb_0001_compiled = nb_0001_qc\<lparr>steps := steps nb_0001_qc @ [transpile]\<rparr>"

definition nb_0014_qc :: build where
  "nb_0014_qc = hadamard_measure"

definition nb_0014_compiled :: build where
  "nb_0014_compiled = nb_0014_qc\<lparr>steps := steps nb_0014_qc @ [transpile]\<rparr>"

text \<open>
  0005 (gates): \<open>QuantumCircuit(1, 1)\<close>, \<open>x(0)\<close>, \<open>h(0)\<close>, \<open>z(0)\<close>, \<open>measure(0, 0)\<close>.
\<close>

definition nb_0005_qc :: build where
  "nb_0005_qc =
     \<lparr>start = Inr (new_circuit 1 1),
      steps = [gate1 XGate [0], gate1 HGate [0], gate1 ZGate [0], measure [0] [0]]\<rparr>"

definition nb_0005_compiled :: build where
  "nb_0005_compiled = nb_0005_qc\<lparr>steps := steps nb_0005_qc @ [transpile]\<rparr>"

text \<open>
  The annealing notebook (second document of the file of 0005):
  \<open>num_qubits = qubo.get_num_binary_vars()\<close>, \<open>qaoa_ansatz = QuantumCircuit(num_qubits)\<close>,
  \<open>h(range(num_qubits))\<close>, a barrier, \<open>rz\<close> on every qubit, a barrier, \<open>rx\<close> on every
  qubit, a barrier, transpiled. The number of variables of the QUBO is the SDK's: the
  program has the binary variables \<open>x1\<close> and \<open>x2\<close> and the constraint \<open>x1 + x2 <= 1\<close>,
  which \<open>QuadraticProgramToQubo\<close> turns into a penalty term, with no new variable, or,
  in the versions of qiskit_optimization that first make it an equality, with one
  slack bit.
\<close>

definition qubo_binary_vars :: "nat \<Rightarrow> nat" where
  "qubo_binary_vars slack_bits = length [''x1'', ''x2''] + slack_bits"

definition nb_0005_annealing_qaoa_ansatz :: "nat \<Rightarrow> build" where
  "nb_0005_annealing_qaoa_ansatz slack_bits =
     (let num_qubits = qubo_binary_vars slack_bits in
      \<lparr>start = Inr (new_circuit num_qubits 0),
       steps = [gate1 HGate [0..<num_qubits], barrier]
               @ map (\<lambda>i. gate1 RZGate [i]) [0..<num_qubits] @ [barrier]
               @ map (\<lambda>i. gate1 RXGate [i]) [0..<num_qubits] @ [barrier]
               @ [transpile]\<rparr>)"

text \<open>
  0012 (VQE): \<open>ansatz = EfficientSU2(num_qubits, ...)\<close> with \<open>num_qubits = 2\<close>; the
  objective function binds its parameters and transpiles the result.
\<close>

definition nb_0012_ansatz :: build where
  "nb_0012_ansatz = \<lparr>start = Inr (EfficientSU2 2), steps = []\<rparr>"

definition nb_0012_compiled :: build where
  "nb_0012_compiled = \<lparr>start = Inr (EfficientSU2 2), steps = [assign_parameters, transpile]\<rparr>"

definition nb_0012_optimized :: build where
  "nb_0012_optimized = \<lparr>start = Inr (EfficientSU2 2), steps = [assign_parameters]\<rparr>"

text \<open>
  0018 (image): \<open>QuantumCircuit(2)\<close>, \<open>initialize(image_vector, [0, 1])\<close> with the four
  pixels, \<open>save_statevector()\<close>, later \<open>measure_all()\<close>; transpiled before and after the
  measurement.
\<close>

definition nb_0018_qc :: build where
  "nb_0018_qc =
     \<lparr>start = Inr (new_circuit 2 0),
      steps = [initialize 4 [0, 1], save_statevector, measure_all]\<rparr>"

definition nb_0018_transpiled :: build where
  "nb_0018_transpiled = nb_0018_qc\<lparr>steps := take 2 (steps nb_0018_qc) @ [transpile]\<rparr>"

definition nb_0018_transpiled_with_measurement :: build where
  "nb_0018_transpiled_with_measurement = nb_0018_qc\<lparr>steps := steps nb_0018_qc @ [transpile]\<rparr>"

text \<open>
  0019 (qPCA): \<open>QuantumCircuit(2)\<close>, each qubit initialised with an eigenvector of two
  components, \<open>save_statevector()\<close> in between, later \<open>measure_all()\<close>.
\<close>

definition nb_0019_qc :: build where
  "nb_0019_qc =
     \<lparr>start = Inr (new_circuit 2 0),
      steps = [initialize 2 [0], save_statevector, initialize 2 [1], measure_all]\<rparr>"

definition nb_0019_transpiled :: build where
  "nb_0019_transpiled = nb_0019_qc\<lparr>steps := take 3 (steps nb_0019_qc) @ [transpile]\<rparr>"

definition nb_0019_transpiled_with_measurement :: build where
  "nb_0019_transpiled_with_measurement = nb_0019_qc\<lparr>steps := steps nb_0019_qc @ [transpile]\<rparr>"

text \<open>
  0021 (amplitude amplification): \<open>oracle()\<close> and \<open>diffusion_operator()\<close> return circuits
  on two qubits; the main circuit has two qubits and two classical bits, takes the
  Grover operator of the oracle and the diffusion circuit on \<open>[0, 1]\<close>, and is
  measured and transpiled.
\<close>

definition nb_0021_oracle :: build where
  "nb_0021_oracle = \<lparr>start = Inr (new_circuit 2 0), steps = [gate2 CZGate 0 1]\<rparr>"

definition nb_0021_diffusion_operator :: build where
  "nb_0021_diffusion_operator =
     \<lparr>start = Inr (new_circuit 2 0),
      steps = [gate1 HGate [0, 1], gate1 ZGate [0, 1], gate2 CZGate 0 1, gate1 HGate [0, 1]]\<rparr>"

definition nb_0021_grover_operator :: build where
  "nb_0021_grover_operator =
     \<lparr>start = and_then (built nb_0021_oracle) (\<lambda>c. Inr (GroverOperator c)),
      steps = []\<rparr>"

definition nb_0021_qc :: build where
  "nb_0021_qc =
     \<lparr>start = Inr (new_circuit 2 2),
      steps = [gate1 HGate [0, 1],
               append_result ''GroverOperator'' (built nb_0021_grover_operator) [0, 1],
               append_result ''diffusion_operator'' (built nb_0021_diffusion_operator) [0, 1],
               measure [0, 1] [0, 1],
               transpile]\<rparr>"

text \<open>
  0023 (tomography): the prepared state, its transpiled form, and the three
  measurement circuits of \<open>measure_in_bases\<close>.
\<close>

definition nb_0023_qc :: build where
  "nb_0023_qc = \<lparr>start = Inr (new_circuit 1 0), steps = [gate1 HGate [0], gate1 SGate [0]]\<rparr>"

definition nb_0023_transpiled :: build where
  "nb_0023_transpiled = nb_0023_qc\<lparr>steps := steps nb_0023_qc @ [transpile]\<rparr>"

definition nb_0023_qc_x :: build where
  "nb_0023_qc_x = nb_0023_qc\<lparr>steps := steps nb_0023_qc @ [gate1 HGate [0], measure_all]\<rparr>"

definition nb_0023_qc_y :: build where
  "nb_0023_qc_y =
     nb_0023_qc\<lparr>steps := steps nb_0023_qc @ [gate1 SdgGate [0], gate1 HGate [0], measure_all]\<rparr>"

definition nb_0023_qc_z :: build where
  "nb_0023_qc_z = nb_0023_qc\<lparr>steps := steps nb_0023_qc @ [measure_all]\<rparr>"

text \<open>
  0027 (PennyLane): the device has \<open>wires=2\<close>; the QNode applies two templates on
  \<open>range(2)\<close> and returns the expectation of \<open>PauliZ(0)\<close>.
\<close>

definition nb_0027_circuit :: build where
  "nb_0027_circuit =
     \<lparr>start = Inr (new_circuit 2 0),
      steps = [library_op ''AngleEmbedding'' [0..<2],
               library_op ''StronglyEntanglingLayers'' [0..<2],
               library_op ''expval(PauliZ)'' [0]]\<rparr>"

text \<open>
  0050 (QNN): \<open>num_qubits = 4\<close>, \<open>qc = QuantumCircuit(num_qubits)\<close> and
  \<open>for i in range(num_qubits): qc.rx(params[i], i)\<close>.
\<close>

definition nb_0050_num_qubits :: nat where
  "nb_0050_num_qubits = 4"

definition nb_0050_qc :: build where
  "nb_0050_qc =
     \<lparr>start = Inr (new_circuit nb_0050_num_qubits 0),
      steps = map (\<lambda>i. gate1 RXGate [i]) [0..<nb_0050_num_qubits]\<rparr>"

text \<open>0055 (chemistry): \<open>EfficientSU2(num_qubits, reps=2)\<close> with \<open>num_qubits = 2\<close>, transpiled.\<close>

definition nb_0055_ansatz :: build where
  "nb_0055_ansatz = \<lparr>start = Inr (EfficientSU2 2), steps = []\<rparr>"

definition nb_0055_qc :: build where
  "nb_0055_qc = \<lparr>start = Inr (EfficientSU2 2), steps = [transpile]\<rparr>"

text \<open>
  0065 (symmetry-adapted circuit): \<open>create_symmetry_adapted_circuit(2, params)\<close>, called
  twice; the first result is transpiled, the second measured. The ansatz is
  \<open>EfficientSU2(num_qubits=2, ...)\<close>.
\<close>

definition create_symmetry_adapted_circuit :: "nat \<Rightarrow> build" where
  "create_symmetry_adapted_circuit n =
     \<lparr>start = Inr (new_circuit n 0),
      steps = [gate1 HGate [0], gate2 CXGate 0 1, gate1 RYGate [0], gate1 RYGate [1],
               gate2 CXGate 0 1]\<rparr>"

definition nb_0065_symmetry_circuit :: build where
  "nb_0065_symmetry_circuit =
     (create_symmetry_adapted_circuit 2)
       \<lparr>steps := steps (create_symmetry_adapted_circuit 2) @ [transpile]\<rparr>"

definition nb_0065_measured_circuit :: build where
  "nb_0065_measured_circuit =
     (create_symmetry_adapted_circuit 2)
       \<lparr>steps := steps (create_symmetry_adapted_circuit 2) @ [measure_all]\<rparr>"

definition nb_0065_ansatz :: build where
  "nb_0065_ansatz = \<lparr>start = Inr (EfficientSU2 2), steps = []\<rparr>"

text \<open>
  The sensing notebook (second document of the file of 0065):
  \<open>magnetic_field_sensor(theta)\<close> makes \<open>QuantumCircuit(1, 1)\<close>, \<open>h(0)\<close>, \<open>ry(theta, 0)\<close>,
  \<open>h(0)\<close>, \<open>measure(0, 0)\<close>; the result is transpiled. The superposition notebook
  (third document): the Hadamard-and-measure circuit again.
\<close>

definition magnetic_field_sensor :: build where
  "magnetic_field_sensor =
     \<lparr>start = Inr (new_circuit 1 1),
      steps = [gate1 HGate [0], gate1 RYGate [0], gate1 HGate [0], measure [0] [0]]\<rparr>"

definition nb_0065_sensing_qc :: build where
  "nb_0065_sensing_qc = magnetic_field_sensor"

definition nb_0065_sensing_compiled :: build where
  "nb_0065_sensing_compiled = nb_0065_sensing_qc\<lparr>steps := steps nb_0065_sensing_qc @ [transpile]\<rparr>"

definition nb_0065_superposition_qc :: build where
  "nb_0065_superposition_qc = hadamard_measure"

definition nb_0065_superposition_compiled :: build where
  "nb_0065_superposition_compiled =
     nb_0065_superposition_qc\<lparr>steps := steps nb_0065_superposition_qc @ [transpile]\<rparr>"

text \<open>
  The first unnamed notebook (molecule in a cavity): \<open>QuantumCircuit(2)\<close>, \<open>x(0)\<close>, and
  the evolved state. The second (Grover): \<open>QuantumCircuit(2, 2)\<close>, \<open>h([0, 1])\<close>, the
  oracle's \<open>cz(0, 1)\<close> on the same object, \<open>h([0, 1])\<close>, the measurement, transpiled.
\<close>

definition nb_part_000_qc :: build where
  "nb_part_000_qc = \<lparr>start = Inr (new_circuit 2 0), steps = [gate1 XGate [0], evolved_state]\<rparr>"

definition nb_part_001_qc :: build where
  "nb_part_001_qc =
     \<lparr>start = Inr (new_circuit 2 2),
      steps = [gate1 HGate [0, 1], gate2 CZGate 0 1, gate1 HGate [0, 1],
               measure [0, 1] [0, 1], transpile]\<rparr>"

definition notebook_circuits :: "build list" where
  "notebook_circuits =
     [nb_0001_qc, nb_0001_compiled, nb_0005_qc, nb_0005_compiled,
      nb_0005_annealing_qaoa_ansatz 0, nb_0005_annealing_qaoa_ansatz 1,
      nb_0012_ansatz, nb_0012_compiled, nb_0012_optimized,
      nb_0014_qc, nb_0014_compiled,
      nb_0018_qc, nb_0018_transpiled, nb_0018_transpiled_with_measurement,
      nb_0019_qc, nb_0019_transpiled, nb_0019_transpiled_with_measurement,
      nb_0021_oracle, nb_0021_diffusion_operator, nb_0021_grover_operator, nb_0021_qc,
      nb_0023_qc, nb_0023_transpiled, nb_0023_qc_x, nb_0023_qc_y, nb_0023_qc_z,
      nb_0027_circuit, nb_0050_qc, nb_0055_ansatz, nb_0055_qc,
      nb_0065_symmetry_circuit, nb_0065_measured_circuit, nb_0065_ansatz,
      nb_0065_sensing_qc, nb_0065_sensing_compiled,
      nb_0065_superposition_qc, nb_0065_superposition_compiled,
      nb_part_000_qc, nb_part_001_qc]"

text \<open>A circuit-building step keeps the number of qubits when it succeeds.\<close>

definition keeps_qubits :: "(QuantumCircuit \<Rightarrow> py_error + QuantumCircuit) \<Rightarrow> bool" where
  "keeps_qubits f = (\<forall>qc qc'. f qc = Inr qc' \<longrightarrow> num_qubits qc' = num_qubits qc)"

definition small :: "QuantumCircuit \<Rightarrow> bool" where
  "small qc = (1 \<le> num_qubits qc \<and> num_qubits qc \<le> 4)"

section \<open>The ideal simulator on one qubit\<close>

text \<open>
  What the simulator computes for a circuit of one qubit and one classical bit, without
  noise: the state is a pair of complex amplitudes, at first \<open>(1, 0)\<close>; a gate
  multiplies it by the gate's matrix; the measurement at the end gives outcome \<open>0\<close>
  with probability \<open>|a|\<^sup>2\<close> and outcome \<open>1\<close> with probability \<open>|b|\<^sup>2\<close>. This is the
  SDK's documented semantics, not code of the repository.
\<close>

type_synonym qubit_state = "complex \<times> complex"

fun unitary :: "gate \<Rightarrow> (qubit_state \<Rightarrow> qubit_state) option" where
  "unitary HGate = Some (\<lambda>(a, b). ((a + b) / complex_of_real (sqrt 2), (a - b) / complex_of_real (sqrt 2)))"
| "unitary XGate = Some (\<lambda>(a, b). (b, a))"
| "unitary ZGate = Some (\<lambda>(a, b). (a, - b))"
| "unitary SGate = Some (\<lambda>(a, b). (a, \<i> * b))"
| "unitary SdgGate = Some (\<lambda>(a, b). (a, - \<i> * b))"
| "unitary g = None"

fun outcome_probabilities :: "instruction list \<Rightarrow> qubit_state \<Rightarrow> (real \<times> real) option" where
  "outcome_probabilities [Measure q c] (a, b) =
     (if q = 0 \<and> c = 0 then Some ((cmod a)\<^sup>2, (cmod b)\<^sup>2) else None)"
| "outcome_probabilities (Gate g qs # rest) st =
     (case unitary g of
        None \<Rightarrow> None
      | Some u \<Rightarrow> if qs = [0] then outcome_probabilities rest (u st) else None)"
| "outcome_probabilities ins st = None"

definition ideal_run :: "py_error + QuantumCircuit \<Rightarrow> (real \<times> real) option" where
  "ideal_run r =
     (case r of
        Inl e \<Rightarrow> None
      | Inr qc \<Rightarrow> if num_qubits qc = 1 \<and> num_clbits qc = 1
                  then outcome_probabilities (data qc) (1, 0) else None)"

text \<open>
  Repeated measurement: each of \<open>n\<close> shots gives \<open>0\<close> with probability \<open>p\<close>,
  independently, so \<open>k\<close> of them give \<open>0\<close> with the binomial probability. The
  probability that the fraction of \<open>0\<close>s is \<open>eps\<close> or more away from \<open>p\<close>:
\<close>

definition zeros_probability :: "real \<Rightarrow> nat \<Rightarrow> nat \<Rightarrow> real" where
  "zeros_probability p n k = real (n choose k) * p ^ k * (1 - p) ^ (n - k)"

definition off_by :: "real \<Rightarrow> nat \<Rightarrow> real \<Rightarrow> real" where
  "off_by p n eps =
     (\<Sum>k \<leftarrow> [0..<Suc n]. if eps \<le> \<bar>real k / real n - p\<bar> then zeros_probability p n k else 0)"

section \<open>The notebooks as programs\<close>

text \<open>
  Several claims are about how the notebooks are written: which statements they
  contain, what they import, what they call and where. For these the code cells of every
  notebook are kept as syntax trees, cell by cell and statement by statement, in the
  order of the file. An expression is kept as the calls it makes: \<open>Call c es\<close> is a call
  whose callee is written \<open>c\<close> (the arguments of a call inside the callee are elided as
  \<open>(...)\<close>) and whose receiver and arguments make the calls \<open>es\<close>; \<open>Ref f\<close> is the name of
  a function or class that the notebook defines, used as a value; comprehensions, lambdas
  and conditional expressions are kept with the calls inside them. Literals, operators
  and plain variables are dropped. The statement forms are Python's; the notebooks use
  only some of them.
\<close>

datatype expr =
    Call string "expr list"
  | Ref string
  | Lambda "expr list"
  | Comp "expr list"
  | IfExp "expr list"

datatype stmt =
    Import string
  | Magic string
  | Assign string "expr list"
  | AugAssign string "expr list"
  | Expr "expr list"
  | Return "expr list"
  | Raise "expr list"
  | FunDef string "expr list" "stmt list"
  | ClassDef string "string list" "stmt list"
  | For "expr list" "stmt list"
  | While "expr list" "stmt list"
  | If "expr list" "stmt list" "stmt list"
  | With "expr list" "stmt list"
  | Try "stmt list" "stmt list"

text \<open>
  A notebook: the file it is in, which JSON document of the file it is (two files of
  the repository hold more than one notebook), and its code cells.
\<close>

record notebook =
  nb_file :: string
  nb_part :: nat
  nb_cells :: "stmt list list"

definition nb_0001 :: notebook where
  "nb_0001 =
     \<lparr>nb_file = ''src/0001-basic-quantum-circuit.ipynb'', nb_part = 1, nb_cells = [
    [Import ''qiskit'',
     Import ''qiskit_aer'',
     Import ''qiskit.visualization'',
     Import ''matplotlib.pyplot'',
     Magic ''matplotlib inline''],
    [Assign ''qc'' [Call ''QuantumCircuit'' []]],
    [Expr [Call ''qc.h'' []]],
    [Expr [Call ''qc.measure'' []]],
    [Assign ''simulator'' [Call ''AerSimulator'' []],
     Assign ''compiled_circuit'' [Call ''transpile'' []],
     Assign ''result'' [Call ''simulator.run(...).result'' [Call ''simulator.run'' []]]],
    [Assign ''counts'' [Call ''result.get_counts'' []],
     Expr [Call ''print'' []]],
    [Expr [Call ''print'' []]],
    [Expr [Call ''qc.draw'' []],
     Expr [Call ''plt.show'' []]],
    [Expr [Call ''plot_histogram'' []],
     Expr [Call ''plt.show'' []]]]\<rparr>"

definition nb_0005 :: notebook where
  "nb_0005 =
     \<lparr>nb_file = ''src/0005-quantum-gates.ipynb'', nb_part = 1, nb_cells = [
    [Import ''qiskit'',
     Import ''qiskit_aer'',
     Import ''qiskit.visualization'',
     Import ''matplotlib.pyplot''],
    [Assign ''qc'' [Call ''QuantumCircuit'' []]],
    [Expr [Call ''qc.x'' []]],
    [Expr [Call ''qc.h'' []]],
    [Expr [Call ''qc.z'' []]],
    [Expr [Call ''qc.measure'' []]],
    [Assign ''simulator'' [Call ''AerSimulator'' []],
     Assign ''compiled_circuit'' [Call ''transpile'' []],
     Assign ''result'' [Call ''simulator.run(...).result'' [Call ''simulator.run'' []]]],
    [Assign ''counts'' [Call ''result.get_counts'' []],
     Expr [Call ''print'' []]],
    [Expr [Call ''plot_histogram'' []],
     Expr [Call ''plt.show'' []],
     Expr [Call ''qc.draw'' []]]]\<rparr>"

definition nb_0005_annealing :: notebook where
  "nb_0005_annealing =
     \<lparr>nb_file = ''src/0005-quantum-gates.ipynb'', nb_part = 2, nb_cells = [
    [Import ''numpy'',
     Import ''qiskit'',
     Import ''qiskit_aer'',
     Import ''qiskit_optimization'',
     Import ''qiskit_optimization.algorithms'',
     Import ''qiskit_optimization.converters'',
     Import ''qiskit_algorithms'',
     Import ''qiskit_algorithms.optimizers'',
     Import ''qiskit.primitives'',
     Import ''qiskit.visualization'',
     Import ''matplotlib.pyplot'',
     Magic ''matplotlib inline''],
    [Assign ''qp'' [Call ''QuadraticProgram'' []],
     Expr [Call ''qp.binary_var'' []],
     Expr [Call ''qp.binary_var'' []],
     Expr [Call ''qp.maximize'' []],
     Expr [Call ''qp.linear_constraint'' []]],
    [Assign ''conv'' [Call ''QuadraticProgramToQubo'' []],
     Assign ''qubo'' [Call ''conv.convert'' []]],
    [Assign ''simulator'' [Call ''AerSimulator'' []]],
    [Assign ''optimizer'' [Call ''COBYLA'' []],
     Assign ''sampler'' [Call ''Sampler'' []],
     Assign ''qaoa'' [Call ''QAOA'' []]],
    [Assign ''qaoa_optimizer'' [Call ''MinimumEigenOptimizer'' []]],
    [Assign ''result'' [Call ''qaoa_optimizer.solve'' []],
     Expr [Call ''print'' []]],
    [Assign ''optimal_solution'' [],
     Expr [Call ''print'' []]],
    [Assign ''optimal_params'' []],
    [Assign ''num_qubits'' [Call ''qubo.get_num_binary_vars'' []],
     Assign ''qaoa_ansatz'' [Call ''QuantumCircuit'' []],
     Expr [Call ''qaoa_ansatz.h'' [Call ''range'' []]],
     Expr [Call ''qaoa_ansatz.barrier'' []]],
    [For [Call ''range'' []] [
        Expr [Call ''qaoa_ansatz.rz'' []]],
     Expr [Call ''qaoa_ansatz.barrier'' []]],
    [For [Call ''range'' []] [
        Expr [Call ''qaoa_ansatz.rx'' []]],
     Expr [Call ''qaoa_ansatz.barrier'' []]],
    [Assign ''qaoa_ansatz'' [Call ''transpile'' []],
     Expr [Call ''qaoa_ansatz.draw'' []],
     Expr [Call ''plt.show'' []]],
    []]\<rparr>"

definition nb_0012 :: notebook where
  "nb_0012 =
     \<lparr>nb_file = ''src/0012-varitional-quantum-eigensolver.ipynb'', nb_part = 1, nb_cells = [
    [Import ''qiskit'',
     Import ''qiskit_aer'',
     Import ''qiskit.primitives'',
     Import ''qiskit.circuit.library'',
     Import ''qiskit_algorithms.optimizers'',
     Import ''qiskit.quantum_info'',
     Import ''numpy'',
     Import ''matplotlib.pyplot'',
     Magic ''matplotlib inline''],
    [Assign ''pauli_list'' [Call ''Pauli'' [], Call ''Pauli'' [], Call ''Pauli'' []],
     Assign ''coefficients'' [],
     Assign ''H'' [Call ''SparsePauliOp'' []]],
    [Assign ''num_qubits'' [],
     Assign ''ansatz'' [Call ''EfficientSU2'' []]],
    [Assign ''simulator'' [Call ''AerSimulator'' []]],
    [Assign ''optimizer'' [Call ''COBYLA'' []]],
    [FunDef ''objective_function'' [] [
        Assign ''bound_circuit'' [Call ''ansatz.assign_parameters'' []],
        Assign ''compiled_circuit'' [Call ''transpile'' []],
        Assign ''estimator'' [Call ''Estimator'' []],
        Assign ''result'' [Call ''estimator.run(...).result'' [Call ''estimator.run'' []]],
        Return [Call ''np.real'' []]]],
    [Assign ''initial_params'' [Call ''np.random.random'' []]],
    [Assign ''result'' [Call ''optimizer.minimize'' [Ref ''objective_function'']]],
    [Assign ''optimized_params, minimum_energy'' []],
    [Expr [Call ''print'' []],
     Expr [Call ''print'' []]],
    [Assign ''optimized_circuit'' [Call ''ansatz.assign_parameters'' []],
     Expr [Call ''optimized_circuit.draw'' []],
     Expr [Call ''plt.show'' []]]]\<rparr>"

definition nb_0014 :: notebook where
  "nb_0014 =
     \<lparr>nb_file = ''src/0014-quantum-random-number-generator.ipynb'', nb_part = 1, nb_cells = [
    [Import ''qiskit'',
     Import ''qiskit_aer'',
     Import ''qiskit.visualization'',
     Import ''matplotlib.pyplot'',
     Magic ''matplotlib inline''],
    [Assign ''qc'' [Call ''QuantumCircuit'' []]],
    [Expr [Call ''qc.h'' []]],
    [Expr [Call ''qc.measure'' []]],
    [Expr [Call ''qc.draw'' []],
     Expr [Call ''plt.show'' []]],
    [Assign ''simulator'' [Call ''AerSimulator'' []]],
    [Assign ''compiled_circuit'' [Call ''transpile'' []]],
    [Expr [Call ''compiled_circuit.draw'' []],
     Expr [Call ''plt.show'' []]],
    [Assign ''result'' [Call ''simulator.run(...).result'' [Call ''simulator.run'' []]]],
    [Assign ''counts'' [Call ''result.get_counts'' []],
     Expr [Call ''plot_histogram'' []],
     Expr [Call ''plt.show'' []]]]\<rparr>"

definition nb_0018 :: notebook where
  "nb_0018 =
     \<lparr>nb_file = ''src/0018-quantum-image-processing.ipynb'', nb_part = 1, nb_cells = [
    [Import ''numpy'',
     Import ''qiskit'',
     Import ''qiskit_aer'',
     Import ''qiskit.visualization'',
     Import ''matplotlib.pyplot'',
     Magic ''matplotlib inline''],
    [Assign ''image'' [Call ''np.array'' []]],
    [Assign ''image_normalized'' []],
    [Assign ''image_vector'' [Call ''image_normalized.flatten'' []]],
    [Assign ''norm'' [Call ''np.linalg.norm'' []],
     Assign ''image_vector'' []],
    [Assign ''qc'' [Call ''QuantumCircuit'' []]],
    [Expr [Call ''qc.initialize'' []]],
    [Expr [Call ''qc.save_statevector'' []]],
    [Expr [Call ''qc.draw'' []],
     Expr [Call ''plt.show'' []]],
    [Assign ''simulator'' [Call ''AerSimulator'' []],
     Assign ''transpiled_circuit'' [Call ''transpile'' []]],
    [Assign ''result'' [Call ''simulator.run(...).result'' [Call ''simulator.run'' []]]],
    [Assign ''statevector'' [Call ''result.data'' []]],
    [Expr [Call ''print'' [Call ''array_to_latex'' []]]],
    [Expr [Call ''qc.measure_all'' []]],
    [Assign ''transpiled_circuit_with_measurement'' [Call ''transpile'' []],
     Assign ''result_with_measurement'' [Call ''simulator.run(...).result'' [Call ''simulator.run'' []]]],
    [Assign ''counts'' [Call ''result_with_measurement.get_counts'' []],
     Expr [Call ''plot_histogram'' []],
     Expr [Call ''plt.show'' []]]]\<rparr>"

definition nb_0019 :: notebook where
  "nb_0019 =
     \<lparr>nb_file = ''src/0019-quantum-principal-component-analysis.ipynb'', nb_part = 1, nb_cells = [
    [Import ''numpy'',
     Import ''qiskit'',
     Import ''qiskit_aer'',
     Import ''matplotlib.pyplot'',
     Import ''qiskit.visualization'',
     Magic ''matplotlib inline''],
    [Assign ''cov_matrix'' [Call ''np.array'' []]],
    [Assign ''eigvals, eigvecs'' [Call ''np.linalg.eigh'' []]],
    [Assign ''eigvecs'' [Call ''np.linalg.norm'' []]],
    [Assign ''qc'' [Call ''QuantumCircuit'' []]],
    [Expr [Call ''qc.initialize'' []],
     Expr [Call ''qc.save_statevector'' []],
     Expr [Call ''qc.initialize'' []]],
    [Expr [Call ''qc.draw'' []],
     Expr [Call ''plt.show'' []]],
    [Assign ''simulator'' [Call ''AerSimulator'' []],
     Assign ''transpiled_circuit'' [Call ''transpile'' []]],
    [Assign ''result'' [Call ''simulator.run(...).result'' [Call ''simulator.run'' []]]],
    [Assign ''statevector'' [Call ''result.data'' []]],
    [Expr [Call ''print'' []]],
    [Expr [Call ''qc.measure_all'' []]],
    [Assign ''transpiled_circuit_with_measurement'' [Call ''transpile'' []],
     Assign ''result_with_measurement'' [Call ''simulator.run(...).result'' [Call ''simulator.run'' []]]],
    [Assign ''counts'' [Call ''result_with_measurement.get_counts'' []],
     Expr [Call ''plot_histogram'' []],
     Expr [Call ''plt.show'' []]]]\<rparr>"

definition nb_0021 :: notebook where
  "nb_0021 =
     \<lparr>nb_file = ''src/0021-quantum-amplitude-amplification.ipynb'', nb_part = 1, nb_cells = [
    [Import ''numpy'',
     Import ''qiskit'',
     Import ''qiskit.circuit.library'',
     Import ''qiskit.visualization'',
     Import ''qiskit_aer'',
     Import ''matplotlib.pyplot'',
     Magic ''matplotlib inline''],
    [FunDef ''oracle'' [] [
        Assign ''qc'' [Call ''QuantumCircuit'' []],
        Expr [Call ''qc.cz'' []],
        Return []]],
    [FunDef ''diffusion_operator'' [] [
        Assign ''qc'' [Call ''QuantumCircuit'' []],
        Expr [Call ''qc.h'' []],
        Expr [Call ''qc.z'' []],
        Expr [Call ''qc.cz'' []],
        Expr [Call ''qc.h'' []],
        Return []]],
    [Assign ''qc'' [Call ''QuantumCircuit'' []],
     Expr [Call ''qc.h'' []]],
    [Assign ''oracle_circuit'' [Call ''oracle'' []],
     Assign ''diffusion_circuit'' [Call ''diffusion_operator'' []],
     Assign ''grover_operator'' [Call ''GroverOperator'' []],
     Expr [Call ''qc.append'' []],
     Expr [Call ''qc.append'' []]],
    [Expr [Call ''qc.measure'' []]],
    [Expr [Call ''qc.draw'' []],
     Expr [Call ''plt.show'' []]],
    [Assign ''simulator'' [Call ''AerSimulator'' []],
     Assign ''qc'' [Call ''transpile'' []],
     Assign ''result'' [Call ''simulator.run(...).result'' [Call ''simulator.run'' []]]],
    [Assign ''counts'' [Call ''result.get_counts'' []],
     Expr [Call ''plot_histogram'' []],
     Expr [Call ''plt.show'' []]]]\<rparr>"

definition nb_0023 :: notebook where
  "nb_0023 =
     \<lparr>nb_file = ''src/0023-quantum-state-tomography.ipynb'', nb_part = 1, nb_cells = [
    [Import ''qiskit'',
     Import ''qiskit.visualization'',
     Import ''numpy'',
     Import ''matplotlib.pyplot'',
     Import ''qiskit.quantum_info'',
     Import ''qiskit.result'',
     Import ''qiskit.quantum_info'',
     Import ''qiskit_aer'',
     Magic ''matplotlib inline'',
     Import ''warnings'',
     Expr [Call ''warnings.filterwarnings'' []]],
    [FunDef ''prepare_state'' [] [
        Assign ''qc'' [Call ''QuantumCircuit'' []],
        Expr [Call ''qc.h'' []],
        Expr [Call ''qc.s'' []],
        Return []]],
    [FunDef ''measure_in_bases'' [] [
        Assign ''circuits'' [],
        Assign ''qc_x'' [Call ''circuit.copy'' []],
        Expr [Call ''qc_x.h'' []],
        Expr [Call ''qc_x.measure_all'' []],
        Expr [Call ''circuits.append'' []],
        Assign ''qc_y'' [Call ''circuit.copy'' []],
        Expr [Call ''qc_y.sdg'' []],
        Expr [Call ''qc_y.h'' []],
        Expr [Call ''qc_y.measure_all'' []],
        Expr [Call ''circuits.append'' []],
        Assign ''qc_z'' [Call ''circuit.copy'' []],
        Expr [Call ''qc_z.measure_all'' []],
        Expr [Call ''circuits.append'' []],
        Return []]],
    [Assign ''qc'' [Call ''prepare_state'' []]],
    [Expr [Call ''print'' []],
     Expr [Call ''circuit_drawer'' []],
     Expr [Call ''plt.show'' []]],
    [Assign ''transpiled_qc'' [Call ''transpile'' [Call ''AerSimulator'' []]]],
    [Expr [Call ''print'' []],
     Expr [Call ''circuit_drawer'' []],
     Expr [Call ''plt.show'' []]],
    [Assign ''measurement_circuits'' [Call ''measure_in_bases'' []]],
    [Assign ''simulator'' [Call ''AerSimulator'' []]],
    [Assign ''results'' [Call ''simulator.run(...).result'' [Call ''simulator.run'' []]]],
    [Assign ''counts_x'' [Call ''results.get_counts'' []],
     Assign ''counts_y'' [Call ''results.get_counts'' []],
     Assign ''counts_z'' [Call ''results.get_counts'' []]],
    [FunDef ''expectation_value'' [] [
        Assign ''shots'' [Call ''sum'' [Call ''counts.values'' []]],
        Assign ''exp_value'' [],
        If [] [
           AugAssign ''exp_value'' []] [],
        If [] [
           AugAssign ''exp_value'' []] [],
        Return []]],
    [Assign ''r_x'' [Call ''expectation_value'' []],
     Assign ''r_y'' [Call ''expectation_value'' []],
     Assign ''r_z'' [Call ''expectation_value'' []]],
    [Assign ''rho'' [Call ''np.eye'' [], Call ''np.array'' [], Call ''np.array'' [], Call ''np.array'' []]],
    [Expr [Call ''print'' []],
     Expr [Call ''print'' []]],
    [Expr [Call ''plot_histogram'' []],
     Expr [Call ''plt.show'' []]]]\<rparr>"

definition nb_0027 :: notebook where
  "nb_0027 =
     \<lparr>nb_file = ''src/0027-quantum-ml-with-pennylane.ipynb'', nb_part = 1, nb_cells = [
    [Import ''pennylane'',
     Import ''pennylane'',
     Import ''pennylane.optimize'',
     Import ''qiskit_aer'',
     Import ''matplotlib.pyplot'',
     Magic ''matplotlib inline''],
    [Assign ''dev'' [Call ''qml.device'' []]],
    [FunDef ''circuit'' [Call ''qml.qnode'' []] [
        Expr [Call ''qml.AngleEmbedding'' [Call ''range'' []]],
        Expr [Call ''qml.StronglyEntanglingLayers'' [Call ''range'' []]],
        Return [Call ''qml.expval'' [Call ''qml.PauliZ'' []]]]],
    [FunDef ''cost'' [] [
        Assign ''predictions'' [Call ''np.array'' [Comp [Call ''circuit'' []]]],
        Return [Call ''np.mean'' []]]],
    [Expr [Call ''np.random.seed'' []],
     Assign ''X'' [Call ''np.random.rand'' []],
     Assign ''Y'' [Call ''np.array'' [Comp [IfExp []]]]],
    [Assign ''weights'' [Call ''np.random.randn'' []]],
    [Assign ''opt'' [Call ''NesterovMomentumOptimizer'' []],
     Assign ''steps'' [],
     For [Call ''range'' []] [
        Assign ''weights'' [Call ''opt.step'' [Lambda [Call ''cost'' []]]],
        If [] [
           Expr [Call ''print'' [Call ''cost'' []]]] []],
     Expr [Call ''print'' []]],
    [Expr [Call ''print'' [Call ''qml.draw(...)'' [Call ''qml.draw'' [Ref ''circuit'']]]]]]\<rparr>"

definition nb_0050 :: notebook where
  "nb_0050 =
     \<lparr>nb_file = ''src/0050-qnn-econophysics-economic-forecasting.ipynb'', nb_part = 1, nb_cells = [
    [Import ''numpy'',
     Import ''torch'',
     Import ''torch.nn'',
     Import ''torch.optim'',
     Import ''qiskit'',
     Import ''qiskit_aer'',
     Import ''qiskit.circuit'',
     Import ''qiskit.primitives'',
     Import ''qiskit_machine_learning.neural_networks'',
     Import ''qiskit_machine_learning.connectors'',
     Import ''matplotlib.pyplot'',
     Magic ''matplotlib inline'',
     Import ''warnings'',
     Expr [Call ''warnings.filterwarnings'' []]],
    [Assign ''num_qubits'' [],
     Assign ''params'' [Comp [Call ''range'' [], Call ''Parameter'' []]],
     Assign ''qc'' [Call ''QuantumCircuit'' []],
     For [Call ''range'' []] [
        Expr [Call ''qc.rx'' []]]],
    [Expr [Call ''qc.draw'' []],
     Expr [Call ''plt.show'' []]],
    [Assign ''simulator'' [Call ''AerSimulator'' []],
     Assign ''sampler'' [Call ''Sampler'' []]],
    [Assign ''qnn'' [Call ''SamplerQNN'' []]],
    [ClassDef ''QuantumNeuralNetwork'' [''nn.Module''] [
        FunDef ''__init__'' [] [
           Expr [Call ''super(...).__init__'' [Call ''super'' [Ref ''QuantumNeuralNetwork'']]],
           Assign ''self.qnn'' [Call ''TorchConnector'' []]],
        FunDef ''forward'' [] [
           Return [Call ''self.qnn'' []]]]],
    [Assign ''model'' [Call ''QuantumNeuralNetwork'' []]],
    [Assign ''X_train'' [Call ''torch.rand'' []],
     Assign ''y_train'' [Call ''torch.rand'' []]],
    [Assign ''criterion'' [Call ''nn.MSELoss'' []],
     Assign ''optimizer'' [Call ''optim.Adam'' [Call ''model.parameters'' []]]],
    [Assign ''epochs'' [],
     For [Call ''range'' []] [
        Expr [Call ''optimizer.zero_grad'' []],
        Assign ''outputs'' [Call ''model'' []],
        Assign ''loss'' [Call ''criterion'' []],
        Expr [Call ''loss.backward'' []],
        Expr [Call ''optimizer.step'' []],
        Expr [Call ''print'' [Call ''loss.item'' []]]]]]\<rparr>"

definition nb_0055 :: notebook where
  "nb_0055 =
     \<lparr>nb_file = ''src/0055-chemistry-ccsd.ipynb'', nb_part = 1, nb_cells = [
    [Import ''qiskit'',
     Import ''qiskit.quantum_info'',
     Import ''qiskit_aer'',
     Import ''qiskit_algorithms'',
     Import ''qiskit.primitives'',
     Import ''qiskit.circuit.library'',
     Import ''qiskit_algorithms.optimizers'',
     Import ''matplotlib.pyplot'',
     Magic ''matplotlib inline''],
    [Assign ''pauli_dict'' []],
    [Assign ''hamiltonian'' [Call ''SparsePauliOp.from_list'' [Comp [Call ''pauli_dict.items'' []]]]],
    [Assign ''num_qubits'' [],
     Assign ''ansatz'' [Call ''EfficientSU2'' []]],
    [Assign ''optimizer'' [Call ''COBYLA'' []],
     Assign ''backend'' [Call ''AerSimulator'' []]],
    [Assign ''estimator'' [Call ''Estimator'' []]],
    [Assign ''vqe'' [Call ''VQE'' []]],
    [Assign ''result'' [Call ''vqe.compute_minimum_eigenvalue'' []],
     Expr [Call ''print'' []]],
    [Assign ''qc'' [Call ''transpile'' []]],
    [Expr [Call ''qc.draw'' []],
     Expr [Call ''plt.show'' []]]]\<rparr>"

definition nb_0065 :: notebook where
  "nb_0065 =
     \<lparr>nb_file = ''src/0065-quantum-chemistry-simulation-symmetry-adapted-circuit.ipynb'', nb_part = 1, nb_cells = [
    [Import ''numpy'',
     Import ''qiskit'',
     Import ''qiskit.quantum_info'',
     Import ''qiskit_aer'',
     Import ''qiskit.circuit.library'',
     Import ''qiskit.primitives'',
     Import ''qiskit.visualization'',
     Import ''qiskit_algorithms.optimizers'',
     Import ''matplotlib.pyplot'',
     Magic ''matplotlib inline''],
    [Assign ''h_pauli_terms'' []],
    [Assign ''pauli_op_list'' [Comp [Call ''h_pauli_terms.items'' []]],
     Assign ''hamiltonian'' [Call ''SparsePauliOp.from_list'' []]],
    [FunDef ''create_symmetry_adapted_circuit'' [] [
        Assign ''qc'' [Call ''QuantumCircuit'' []],
        Expr [Call ''qc.h'' []],
        Expr [Call ''qc.cx'' []],
        Expr [Call ''qc.ry'' []],
        Expr [Call ''qc.ry'' []],
        Expr [Call ''qc.cx'' []],
        Return []]],
    [Assign ''params'' [Call ''np.random.random'' []]],
    [Assign ''symmetry_circuit'' [Call ''create_symmetry_adapted_circuit'' []]],
    [Expr [Call ''symmetry_circuit.draw'' []],
     Expr [Call ''plt.show'' []]],
    [Assign ''estimator'' [Call ''Estimator'' []],
     Assign ''ansatz'' [Call ''EfficientSU2'' []]],
    [Assign ''optimizer'' [Call ''COBYLA'' []]],
    [Assign ''simulator'' [Call ''AerSimulator'' []]],
    [Assign ''symmetry_circuit'' [Call ''transpile'' []]],
    [Assign ''measured_circuit'' [Call ''create_symmetry_adapted_circuit'' []],
     Expr [Call ''measured_circuit.measure_all'' []]],
    [Assign ''measured_job'' [Call ''simulator.run'' []],
     Assign ''measured_result'' [Call ''measured_job.result'' []]],
    [Assign ''counts'' [Call ''measured_result.get_counts'' []],
     Expr [Call ''plot_histogram'' []],
     Expr [Call ''plt.show'' []]]]\<rparr>"

definition nb_0065_sensing :: notebook where
  "nb_0065_sensing =
     \<lparr>nb_file = ''src/0065-quantum-chemistry-simulation-symmetry-adapted-circuit.ipynb'', nb_part = 2, nb_cells = [
    [Import ''qiskit'',
     Import ''qiskit_aer'',
     Import ''qiskit.visualization'',
     Import ''matplotlib.pyplot'',
     Import ''numpy'',
     Magic ''matplotlib inline''],
    [FunDef ''magnetic_field_sensor'' [] [
        Assign ''qc'' [Call ''QuantumCircuit'' []],
        Expr [Call ''qc.h'' []],
        Expr [Call ''qc.ry'' []],
        Expr [Call ''qc.h'' []],
        Expr [Call ''qc.measure'' []],
        Return []]],
    [Assign ''theta'' []],
    [Assign ''qc'' [Call ''magnetic_field_sensor'' []]],
    [Expr [Call ''print'' []],
     Expr [Call ''qc.draw'' []],
     Expr [Call ''plt.show'' []]],
    [Assign ''simulator'' [Call ''AerSimulator'' []]],
    [Assign ''compiled_circuit'' [Call ''transpile'' []]],
    [Expr [Call ''print'' []],
     Expr [Call ''compiled_circuit.draw'' []],
     Expr [Call ''plt.show'' []]],
    [Assign ''result'' [Call ''simulator.run(...).result'' [Call ''simulator.run'' []]]],
    [Assign ''counts'' [Call ''result.get_counts'' []],
     Expr [Call ''print'' []],
     Expr [Call ''print'' []]],
    [Expr [Call ''plot_histogram'' []],
     Expr [Call ''plt.show'' []]]]\<rparr>"

definition nb_0065_superposition :: notebook where
  "nb_0065_superposition =
     \<lparr>nb_file = ''src/0065-quantum-chemistry-simulation-symmetry-adapted-circuit.ipynb'', nb_part = 3, nb_cells = [
    [Import ''qiskit'',
     Import ''qiskit_aer'',
     Import ''qiskit.visualization'',
     Import ''matplotlib.pyplot'',
     Assign ''qc'' [Call ''QuantumCircuit'' []],
     Expr [Call ''qc.h'' []],
     Expr [Call ''qc.measure'' []],
     Assign ''simulator'' [Call ''AerSimulator'' []],
     Assign ''compiled_circuit'' [Call ''transpile'' []],
     Assign ''result'' [Call ''simulator.run(...).result'' [Call ''simulator.run'' []]],
     Assign ''counts'' [Call ''result.get_counts'' []],
     Expr [Call ''print'' []],
     Expr [Call ''plot_histogram'' []],
     Expr [Call ''plt.show'' []],
     Expr [Call ''qc.draw'' []]]]\<rparr>"

definition nb_part_000 :: notebook where
  "nb_part_000 =
     \<lparr>nb_file = ''src/unnamed/part_000'', nb_part = 1, nb_cells = [
    [Import ''qiskit'',
     Import ''qiskit.quantum_info'',
     Import ''qiskit_algorithms.time_evolvers'',
     Import ''qiskit.primitives'',
     Import ''qiskit_aer'',
     Import ''qiskit_algorithms.time_evolvers'',
     Import ''matplotlib.pyplot'',
     Import ''qiskit.visualization'',
     Import ''numpy'',
     Import ''warnings'',
     Expr [Call ''warnings.filterwarnings'' []]],
    [Assign ''omega_m'' [],
     Assign ''omega_c'' [],
     Assign ''g'' [],
     Assign ''time'' []],
    [Assign ''Z_molecule'' [Call ''SparsePauliOp'' []],
     Assign ''Z_cavity'' [Call ''SparsePauliOp'' []],
     Assign ''X_molecule_cavity'' [Call ''SparsePauliOp'' []],
     Assign ''Y_molecule_cavity'' [Call ''SparsePauliOp'' []]],
    [Assign ''H_molecule'' [],
     Assign ''H_cavity'' [],
     Assign ''H_interaction'' [],
     Assign ''H_total'' []],
    [Assign ''qc'' [Call ''QuantumCircuit'' []],
     Expr [Call ''qc.x'' []]],
    [Expr [Call ''qc.draw'' []]],
    [Assign ''trotter'' [Call ''TrotterQRTE'' []]],
    [Assign ''evolution_problem'' [Call ''TimeEvolutionProblem'' []]],
    [Assign ''simulator'' [Call ''AerSimulator'' []],
     Assign ''trotter_result'' [Call ''trotter.evolve'' []]],
    [Assign ''statevector'' []],
    [Assign ''estimator'' [Call ''Estimator'' []],
     Assign ''energy'' [Call ''estimator.run(...).result'' [Call ''estimator.run'' []]]],
    [Expr [Call ''print'' []],
     Expr [Call ''print'' []],
     Expr [Call ''print'' []],
     Expr [Call ''print'' []]]]\<rparr>"

definition nb_part_001 :: notebook where
  "nb_part_001 =
     \<lparr>nb_file = ''src/unnamed/part_001'', nb_part = 1, nb_cells = [
    [Import ''qiskit'',
     Import ''qiskit_aer'',
     Import ''qiskit.visualization'',
     Import ''matplotlib.pyplot'',
     FunDef ''grover_oracle'' [] [
        Expr [Call ''qc.cz'' []]],
     Assign ''qc'' [Call ''QuantumCircuit'' []],
     Expr [Call ''qc.h'' []],
     Expr [Call ''grover_oracle'' []],
     Expr [Call ''qc.h'' []],
     Expr [Call ''qc.measure'' []],
     Assign ''simulator'' [Call ''AerSimulator'' []],
     Assign ''compiled_circuit'' [Call ''transpile'' []],
     Assign ''result'' [Call ''simulator.run(...).result'' [Call ''simulator.run'' []]],
     Assign ''counts'' [Call ''result.get_counts'' []],
     Expr [Call ''print'' []],
     Expr [Call ''plot_histogram'' []],
     Expr [Call ''plt.show'' []],
     Expr [Call ''qc.draw'' []]]]\<rparr>"


definition notebooks :: "notebook list" where
  "notebooks =
     [nb_0001, nb_0005, nb_0005_annealing, nb_0012, nb_0014, nb_0018, nb_0019, nb_0021,
      nb_0023, nb_0027, nb_0050, nb_0055, nb_0065, nb_0065_sensing, nb_0065_superposition,
      nb_part_000, nb_part_001]"

text \<open>The cells run from top to bottom: the program of a notebook.\<close>

definition source :: "notebook \<Rightarrow> stmt list" where
  "source nb = concat (nb_cells nb)"

subsection \<open>Traversal\<close>

text \<open>An expression with all the expressions inside it, and a statement with all the
  statements inside it.\<close>

fun sub_exprs :: "expr \<Rightarrow> expr list" where
  "sub_exprs (Call c es) = Call c es # concat (map sub_exprs es)"
| "sub_exprs (Ref f) = [Ref f]"
| "sub_exprs (Lambda es) = Lambda es # concat (map sub_exprs es)"
| "sub_exprs (Comp es) = Comp es # concat (map sub_exprs es)"
| "sub_exprs (IfExp es) = IfExp es # concat (map sub_exprs es)"

fun sub_stmts :: "stmt \<Rightarrow> stmt list" where
  "sub_stmts (FunDef f ds body) = FunDef f ds body # concat (map sub_stmts body)"
| "sub_stmts (ClassDef k bs body) = ClassDef k bs body # concat (map sub_stmts body)"
| "sub_stmts (For es body) = For es body # concat (map sub_stmts body)"
| "sub_stmts (While es body) = While es body # concat (map sub_stmts body)"
| "sub_stmts (If es body orelse) =
     If es body orelse # concat (map sub_stmts body) @ concat (map sub_stmts orelse)"
| "sub_stmts (With es body) = With es body # concat (map sub_stmts body)"
| "sub_stmts (Try body handlers) =
     Try body handlers # concat (map sub_stmts body) @ concat (map sub_stmts handlers)"
| "sub_stmts s = [s]"

definition all_stmts :: "notebook \<Rightarrow> stmt list" where
  "all_stmts nb = concat (map sub_stmts (source nb))"

text \<open>The expressions written in a statement itself, not in the statements of its body.\<close>

fun own_exprs :: "stmt \<Rightarrow> expr list" where
  "own_exprs (Assign t es) = es"
| "own_exprs (AugAssign t es) = es"
| "own_exprs (Expr es) = es"
| "own_exprs (Return es) = es"
| "own_exprs (Raise es) = es"
| "own_exprs (FunDef f ds body) = ds"
| "own_exprs (For es body) = es"
| "own_exprs (While es body) = es"
| "own_exprs (If es body orelse) = es"
| "own_exprs (With es body) = es"
| "own_exprs s = []"

definition all_exprs :: "notebook \<Rightarrow> expr list" where
  "all_exprs nb = concat (map sub_exprs (concat (map own_exprs (all_stmts nb))))"

subsection \<open>What the authors wrote beyond calls\<close>

datatype construct =
    Function string
  | Class string
  | ForLoop
  | WhileLoop
  | Branch
  | Comprehension
  | LambdaExpr
  | ConditionalExpr
  | TryExcept
  | RaiseStmt
  | WithBlock

fun expr_construct :: "expr \<Rightarrow> construct list" where
  "expr_construct (Lambda es) = [LambdaExpr]"
| "expr_construct (Comp es) = [Comprehension]"
| "expr_construct (IfExp es) = [ConditionalExpr]"
| "expr_construct e = []"

fun stmt_construct :: "stmt \<Rightarrow> construct list" where
  "stmt_construct (FunDef f ds body) = [Function f]"
| "stmt_construct (ClassDef k bs body) = [Class k]"
| "stmt_construct (For es body) = [ForLoop]"
| "stmt_construct (While es body) = [WhileLoop]"
| "stmt_construct (If es body orelse) = [Branch]"
| "stmt_construct (With es body) = [WithBlock]"
| "stmt_construct (Try body handlers) = [TryExcept]"
| "stmt_construct (Raise es) = [RaiseStmt]"
| "stmt_construct s = []"

definition constructs :: "notebook \<Rightarrow> construct list" where
  "constructs nb =
     remdups (concat (map stmt_construct (all_stmts nb)) @ concat (map expr_construct (all_exprs nb)))"

text \<open>A thin sequence of library calls: imports, assignments and calls, nothing else.\<close>

definition thin_sequence :: "notebook \<Rightarrow> bool" where
  "thin_sequence nb = (constructs nb = [])"

subsection \<open>Failure handling\<close>

text \<open>
  Code that catches, wraps or re-raises an exception is a \<open>try\<close> statement, a \<open>raise\<close>
  statement or a \<open>with\<close> block (a context manager may swallow an exception); a custom
  error type is a class with an exception class among its bases.
\<close>

definition ends_with :: "string \<Rightarrow> string \<Rightarrow> bool" where
  "ends_with suffix s = (drop (length s - length suffix) s = suffix)"

definition exception_base :: "string \<Rightarrow> bool" where
  "exception_base b = (ends_with ''Exception'' b \<or> ends_with ''Error'' b \<or> ends_with ''Warning'' b)"

fun error_type :: "stmt \<Rightarrow> string list" where
  "error_type (ClassDef k bs body) = (if list_ex exception_base bs then [k] else [])"
| "error_type s = []"

definition custom_error_types :: "notebook \<Rightarrow> string list" where
  "custom_error_types nb = concat (map error_type (all_stmts nb))"

definition handles_failures :: "notebook \<Rightarrow> bool" where
  "handles_failures nb =
     (TryExcept \<in> set (constructs nb) \<or> RaiseStmt \<in> set (constructs nb)
      \<or> WithBlock \<in> set (constructs nb) \<or> custom_error_types nb \<noteq> [])"

text \<open>
  Running a sequence of statements, given which statements raise (\<open>raises s\<close> is the
  exception that escapes statement \<open>s\<close>, if one does): the first exception that escapes a
  statement ends the run and is its outcome, unless the statement stands in the body of
  a \<open>try\<close>, whose handlers then run.
\<close>

fun run :: "(stmt \<Rightarrow> py_error option) \<Rightarrow> stmt list \<Rightarrow> py_error option" where
  "run raises [] = None"
| "run raises (Try body handlers # rest) =
     (case run raises body of
        None \<Rightarrow> run raises rest
      | Some e \<Rightarrow> (case run raises handlers of None \<Rightarrow> run raises rest | Some e' \<Rightarrow> Some e'))"
| "run raises (s # rest) = (case raises s of None \<Rightarrow> run raises rest | Some e \<Rightarrow> Some e)"

subsection \<open>Imports\<close>

fun imported :: "stmt \<Rightarrow> string list" where
  "imported (Import m) = [m]"
| "imported s = []"

definition imported_modules :: "notebook \<Rightarrow> string list" where
  "imported_modules nb = concat (map imported (all_stmts nb))"

text \<open>The top-level package of a dotted module path.\<close>

definition package :: "string \<Rightarrow> string" where
  "package m = takeWhile (\<lambda>c. c \<noteq> CHR ''.'') m"

text \<open>
  The packages that the notebooks may import from outside the repository: the SDKs and
  numerical libraries named in the repository's README and installed with \<open>pip\<close>, and
  \<open>warnings\<close> of Python's standard library.
\<close>

definition external_packages :: "string list" where
  "external_packages =
     [''qiskit'', ''qiskit_aer'', ''qiskit_algorithms'', ''qiskit_machine_learning'',
      ''qiskit_optimization'', ''pennylane'', ''torch'', ''numpy'', ''matplotlib'', ''warnings'']"

text \<open>
  The files of the repository. A module that the repository defined would be one of them;
  \<open>import m\<close> finds a file \<open>m.py\<close> or, with a notebook importer, \<open>m.ipynb\<close>, so the
  modules that the repository could provide are the names of its files without
  directory and extension.
\<close>

definition repository_files :: "string list" where
  "repository_files =
     [''src/0001-basic-quantum-circuit.ipynb'',
      ''src/0005-quantum-gates.ipynb'',
      ''src/0012-varitional-quantum-eigensolver.ipynb'',
      ''src/0014-quantum-random-number-generator.ipynb'',
      ''src/0018-quantum-image-processing.ipynb'',
      ''src/0019-quantum-principal-component-analysis.ipynb'',
      ''src/0021-quantum-amplitude-amplification.ipynb'',
      ''src/0023-quantum-state-tomography.ipynb'',
      ''src/0027-quantum-ml-with-pennylane.ipynb'',
      ''src/0050-qnn-econophysics-economic-forecasting.ipynb'',
      ''src/0055-chemistry-ccsd.ipynb'',
      ''src/0065-quantum-chemistry-simulation-symmetry-adapted-circuit.ipynb'',
      ''src/README.md'',
      ''src/unnamed/part_000'',
      ''src/unnamed/part_001'']"

definition basename :: "string \<Rightarrow> string" where
  "basename path = rev (takeWhile (\<lambda>c. c \<noteq> CHR ''/'') (rev path))"

definition stem :: "string \<Rightarrow> string" where
  "stem path = takeWhile (\<lambda>c. c \<noteq> CHR ''.'') (basename path)"

definition repository_modules :: "string list" where
  "repository_modules = remdups (map stem repository_files)"

text \<open>
  Data could pass from one notebook to another through a file, through IPython's
  \<open>%run\<close> and \<open>%store\<close>, or through an import. These are the calls that read or write
  a file in the libraries that the notebooks use, and the magics that the notebooks use.
\<close>

definition file_callees :: "string list" where
  "file_callees =
     [''open'', ''np.save'', ''np.savez'', ''np.savetxt'', ''np.load'', ''np.loadtxt'',
      ''np.genfromtxt'', ''np.fromfile'', ''plt.savefig'', ''plt.imread'', ''plt.imsave'',
      ''torch.save'', ''torch.load'', ''pickle.dump'', ''pickle.load'', ''json.dump'',
      ''json.load'', ''qc.qasm'', ''QuantumCircuit.from_qasm_file'', ''exec'', ''eval'',
      ''__import__'']"

fun magic :: "stmt \<Rightarrow> string list" where
  "magic (Magic m) = [m]"
| "magic s = []"

definition magics :: "notebook \<Rightarrow> string list" where
  "magics nb = remdups (concat (map magic (all_stmts nb)))"

fun callee :: "expr \<Rightarrow> string list" where
  "callee (Call c es) = [c]"
| "callee (Ref f) = [f]"
| "callee e = []"

definition callees :: "notebook \<Rightarrow> string list" where
  "callees nb = concat (map callee (all_exprs nb))"

subsection \<open>Phases: building, simulating, plotting\<close>

text \<open>
  What running a statement evaluates: the names that its expressions call and the names
  of the notebook's own functions that they pass on as values, in the statement and in
  the statements of its body. A function definition runs its decorators only, a class
  definition the statements of the class body.
\<close>

datatype use = Called string | Passed string

fun use_of :: "expr \<Rightarrow> use list" where
  "use_of (Call c es) = [Called c]"
| "use_of (Ref f) = [Passed f]"
| "use_of e = []"

definition uses :: "expr list \<Rightarrow> use list" where
  "uses es = concat (map use_of (concat (map sub_exprs es)))"

fun run_uses :: "stmt \<Rightarrow> use list" where
  "run_uses (Assign t es) = uses es"
| "run_uses (AugAssign t es) = uses es"
| "run_uses (Expr es) = uses es"
| "run_uses (Return es) = uses es"
| "run_uses (Raise es) = uses es"
| "run_uses (FunDef f ds body) = uses ds"
| "run_uses (ClassDef k bs body) = concat (map run_uses body)"
| "run_uses (For es body) = uses es @ concat (map run_uses body)"
| "run_uses (While es body) = uses es @ concat (map run_uses body)"
| "run_uses (If es body orelse) =
     uses es @ concat (map run_uses body) @ concat (map run_uses orelse)"
| "run_uses (With es body) = uses es @ concat (map run_uses body)"
| "run_uses (Try body handlers) =
     concat (map run_uses body) @ concat (map run_uses handlers)"
| "run_uses s = []"

text \<open>
  What a name of the notebook stands for when it is called: a function runs its body; a
  class runs its \<open>__init__\<close>; a variable bound to an instance of a class of the notebook
  runs the class's \<open>forward\<close> (the one class of the notebooks is a \<open>torch.nn.Module\<close>,
  whose call operator is \<open>forward\<close>).
\<close>

fun method_uses :: "string \<Rightarrow> stmt \<Rightarrow> use list" where
  "method_uses m (FunDef f ds body) = (if f = m then concat (map run_uses body) else [])"
| "method_uses m s = []"

fun class_entries :: "stmt \<Rightarrow> (string \<times> stmt list) list" where
  "class_entries (ClassDef k bs body) = [(k, body)]"
| "class_entries s = []"

fun def_entries :: "(string \<times> stmt list) list \<Rightarrow> stmt \<Rightarrow> (string \<times> use list) list" where
  "def_entries cls (FunDef f ds body) = [(f, concat (map run_uses body))]"
| "def_entries cls (ClassDef k bs body) = [(k, concat (map (method_uses ''__init__'') body))]"
| "def_entries cls (Assign v [Call k es]) =
     (case map_of cls k of
        None \<Rightarrow> []
      | Some body \<Rightarrow> [(v, concat (map (method_uses ''forward'') body))])"
| "def_entries cls s = []"

definition def_table :: "notebook \<Rightarrow> (string \<times> use list) list" where
  "def_table nb =
     concat (map (def_entries (concat (map class_entries (source nb)))) (source nb))"

text \<open>
  What is reached from given uses through what the notebook defines: \<open>k\<close> rounds of
  adding what the reached definitions evaluate. A function that is passed on as a value
  counts as run by the call that receives it (the SDK's optimizers call the function
  they are given). There are no more rounds to make than there are definitions.
\<close>

fun name_of :: "use \<Rightarrow> string" where
  "name_of (Called c) = c"
| "name_of (Passed f) = f"

definition evaluated :: "(string \<times> use list) list \<Rightarrow> use \<Rightarrow> use list" where
  "evaluated table u = (case map_of table (name_of u) of None \<Rightarrow> [] | Some us \<Rightarrow> us)"

fun follow :: "(string \<times> use list) list \<Rightarrow> nat \<Rightarrow> use list \<Rightarrow> use list" where
  "follow table 0 us = us"
| "follow table (Suc k) us = follow table k (remdups (us @ concat (map (evaluated table) us)))"

fun call_of :: "use \<Rightarrow> string list" where
  "call_of (Called c) = [c]"
| "call_of (Passed f) = []"

text \<open>The calls that are made, in the end, when the given uses are evaluated.\<close>

definition reach :: "(string \<times> use list) list \<Rightarrow> use list \<Rightarrow> string list" where
  "reach table us = concat (map call_of (follow table (length table) us))"

text \<open>
  Every SDK call that the notebooks write, by what it does.

  Building: the calls that make a circuit (the constructors \<open>QuantumCircuit\<close>,
  \<open>EfficientSU2\<close>, \<open>GroverOperator\<close>), that derive a circuit from another one
  (\<open>transpile\<close>, \<open>assign_parameters\<close>, \<open>copy\<close>, and \<open>TrotterQRTE.evolve\<close>, which
  without an estimator only returns the evolved circuit), and that add gates,
  measurements and other instructions to a circuit; in PennyLane, the templates and the
  measurement that the body of a QNode queues.

  Simulating: \<open>run\<close> of a simulator or of a primitive, which submits circuits and
  returns a job; the algorithms that run circuits themselves and return the result
  (\<open>VQE\<close>, and QAOA inside \<open>MinimumEigenOptimizer\<close>); the call of a \<open>TorchConnector\<close>
  around a \<open>SamplerQNN\<close>; and the call of a PennyLane QNode, a function decorated with
  \<open>qml.qnode\<close>.

  Waiting: \<open>result\<close> of a job.

  Plotting: the calls that draw a figure or a circuit diagram: \<open>plot_histogram\<close>,
  \<open>plt.show\<close>, \<open>circuit_drawer\<close>, the \<open>draw\<close> method of a circuit, and PennyLane's
  \<open>qml.draw\<close> with the call of the drawing function that it returns.

  The other calls make none of these: they construct simulators, primitives,
  optimizers, algorithms, optimization problems and operators, run an optimizer, read
  results, compute with numpy and torch, format an array as text (\<open>array_to_latex\<close>),
  or print.
\<close>

definition build_callees :: "string list" where
  "build_callees =
     [''QuantumCircuit'', ''EfficientSU2'', ''GroverOperator'',
      ''transpile'', ''ansatz.assign_parameters'', ''circuit.copy'', ''trotter.evolve'',
      ''qc.h'', ''qc.x'', ''qc.z'', ''qc.s'', ''qc.cx'', ''qc.cz'', ''qc.rx'', ''qc.ry'',
      ''qc.measure'', ''qc.measure_all'', ''qc.initialize'', ''qc.save_statevector'',
      ''qc.append'', ''qc_x.h'', ''qc_x.measure_all'', ''qc_y.sdg'',
      ''qc_y.h'', ''qc_y.measure_all'', ''qc_z.measure_all'', ''measured_circuit.measure_all'',
      ''qaoa_ansatz.h'', ''qaoa_ansatz.barrier'', ''qaoa_ansatz.rz'', ''qaoa_ansatz.rx'',
      ''qml.AngleEmbedding'', ''qml.StronglyEntanglingLayers'', ''qml.expval'']"

definition job_callees :: "string list" where
  "job_callees = [''simulator.run'', ''estimator.run'']"

definition backend_callees :: "string list" where
  "backend_callees =
     job_callees @ [''vqe.compute_minimum_eigenvalue'', ''qaoa_optimizer.solve'', ''self.qnn'']"

definition result_callees :: "string list" where
  "result_callees =
     [''simulator.run(...).result'', ''estimator.run(...).result'', ''measured_job.result'']"

definition plot_callees :: "string list" where
  "plot_callees =
     [''plot_histogram'', ''plt.show'', ''circuit_drawer'', ''qc.draw'',
      ''compiled_circuit.draw'', ''optimized_circuit.draw'', ''symmetry_circuit.draw'',
      ''qaoa_ansatz.draw'', ''qml.draw'', ''qml.draw(...)'']"

definition other_callees :: "string list" where
  "other_callees =
     [''AerSimulator'', ''Estimator'', ''Sampler'', ''qml.device'', ''qml.qnode'',
      ''COBYLA'', ''NesterovMomentumOptimizer'', ''optim.Adam'', ''QAOA'', ''VQE'',
      ''MinimumEigenOptimizer'', ''TrotterQRTE'', ''TimeEvolutionProblem'', ''SamplerQNN'',
      ''TorchConnector'', ''nn.MSELoss'', ''optimizer.minimize'', ''opt.step'',
      ''optimizer.zero_grad'', ''optimizer.step'', ''loss.backward'', ''loss.item'',
      ''model.parameters'', ''criterion'', ''torch.rand'', ''super'', ''super(...).__init__'',
      ''QuadraticProgram'', ''qp.binary_var'', ''qp.maximize'', ''qp.linear_constraint'',
      ''QuadraticProgramToQubo'', ''conv.convert'', ''qubo.get_num_binary_vars'',
      ''Pauli'', ''SparsePauliOp'', ''SparsePauliOp.from_list'', ''qml.PauliZ'', ''Parameter'',
      ''result.get_counts'', ''result.data'', ''result_with_measurement.get_counts'',
      ''results.get_counts'', ''measured_result.get_counts'', ''counts.values'',
      ''np.array'', ''np.eye'', ''np.real'', ''np.mean'', ''np.linalg.norm'', ''np.linalg.eigh'',
      ''np.random.random'', ''np.random.seed'', ''np.random.rand'', ''np.random.randn'',
      ''image_normalized.flatten'', ''array_to_latex'', ''warnings.filterwarnings'',
      ''circuits.append'', ''pauli_dict.items'', ''h_pauli_terms.items'',
      ''print'', ''range'', ''sum'']"

definition sdk_callees :: "string list" where
  "sdk_callees =
     build_callees @ backend_callees @ result_callees @ plot_callees @ other_callees"

text \<open>
  The calls of a notebook that are in none of the lists and are not of a name that the
  notebook defines itself (its functions and classes, and the instances of its
  classes).
\<close>

definition unclassified :: "notebook \<Rightarrow> string list" where
  "unclassified nb =
     (let own = map fst (def_table nb) in
      filter (\<lambda>c. c \<notin> set sdk_callees \<and> c \<notin> set own) (callees nb))"

fun qnode :: "stmt \<Rightarrow> string list" where
  "qnode (FunDef f ds body) = (if Called ''qml.qnode'' \<in> set (uses ds) then [f] else [])"
| "qnode s = []"

definition qnodes :: "notebook \<Rightarrow> string list" where
  "qnodes nb = concat (map qnode (all_stmts nb))"

definition is_backend :: "string list \<Rightarrow> string \<Rightarrow> bool" where
  "is_backend qns c = (c \<in> set backend_callees \<or> c \<in> set qns)"

datatype phase = Build | Simulate | Plot

definition phases_of :: "string list \<Rightarrow> string list \<Rightarrow> phase list" where
  "phases_of qns cs =
     (if list_ex (\<lambda>c. c \<in> set build_callees) cs then [Build] else [])
     @ (if list_ex (is_backend qns) cs then [Simulate] else [])
     @ (if list_ex (\<lambda>c. c \<in> set plot_callees) cs then [Plot] else [])"

text \<open>
  What each top-level statement does when it runs: the phases that it reaches, itself or
  through the functions of the notebook that it calls, and whether it plots a histogram.
\<close>

definition statement_marks :: "notebook \<Rightarrow> (phase list \<times> bool) list" where
  "statement_marks nb =
     (let table = def_table nb; qns = qnodes nb in
      map (\<lambda>s. let cs = reach table (run_uses s)
               in (phases_of qns cs, ''plot_histogram'' \<in> set cs))
          (source nb))"

text \<open>The phases of the top-level statements in order, a repeated phase written once.\<close>

definition phase_trace :: "notebook \<Rightarrow> phase list" where
  "phase_trace nb = remdups_adj (concat (map fst (statement_marks nb)))"

text \<open>
  Author-written iteration: the body of a \<open>for\<close> or \<open>while\<close> loop and the parts of a
  comprehension, anywhere in the notebook.
\<close>

fun stmt_iteration :: "stmt \<Rightarrow> use list list" where
  "stmt_iteration (For es body) = [concat (map run_uses body)]"
| "stmt_iteration (While es body) = [uses es @ concat (map run_uses body)]"
| "stmt_iteration s = []"

fun expr_iteration :: "expr \<Rightarrow> use list list" where
  "expr_iteration (Comp es) = [uses es]"
| "expr_iteration e = []"

definition iterations :: "notebook \<Rightarrow> use list list" where
  "iterations nb =
     concat (map stmt_iteration (all_stmts nb)) @ concat (map expr_iteration (all_exprs nb))"

definition backend_in_iteration :: "notebook \<Rightarrow> bool" where
  "backend_in_iteration nb =
     (let table = def_table nb; qns = qnodes nb in
      list_ex (\<lambda>us. list_ex (is_backend qns) (reach table us)) (iterations nb))"

text \<open>
  Callbacks: the functions of the notebook and the lambdas that a call receives as
  arguments. The SDK that receives one decides how often it runs.
\<close>

fun callback :: "expr \<Rightarrow> use list list" where
  "callback (Ref f) = [[Passed f]]"
| "callback (Lambda es) = [uses es]"
| "callback e = []"

fun expr_callbacks :: "expr \<Rightarrow> use list list" where
  "expr_callbacks (Call c es) = concat (map callback es)"
| "expr_callbacks e = []"

definition callbacks :: "notebook \<Rightarrow> use list list" where
  "callbacks nb = concat (map expr_callbacks (all_exprs nb))"

definition backend_in_callback :: "notebook \<Rightarrow> bool" where
  "backend_in_callback nb =
     (let table = def_table nb; qns = qnodes nb in
      list_ex (\<lambda>us. list_ex (is_backend qns) (reach table us)) (callbacks nb))"

text \<open>The functions of the notebook whose own body calls a backend.\<close>

fun function_body :: "stmt \<Rightarrow> (string \<times> string list) list" where
  "function_body (FunDef f ds body) = [(f, concat (map call_of (concat (map run_uses body))))]"
| "function_body s = []"

definition functions_with_backend :: "notebook \<Rightarrow> string list" where
  "functions_with_backend nb =
     (let qns = qnodes nb in
      map fst (filter (\<lambda>(f, cs). list_ex (is_backend qns) cs)
                 (concat (map function_body (all_stmts nb)))))"

text \<open>
  The positions of the top-level statements that reach a backend call, and of those that
  plot a histogram: every histogram comes after every backend call.
\<close>

definition positions :: "('a \<Rightarrow> bool) \<Rightarrow> 'a list \<Rightarrow> nat list" where
  "positions P xs = filter (\<lambda>i. P (xs ! i)) [0..<length xs]"

definition backend_positions :: "notebook \<Rightarrow> nat list" where
  "backend_positions nb = positions (\<lambda>m. Simulate \<in> set (fst m)) (statement_marks nb)"

definition histogram_positions :: "notebook \<Rightarrow> nat list" where
  "histogram_positions nb = positions snd (statement_marks nb)"

definition histogram_after_backend :: "notebook \<Rightarrow> bool" where
  "histogram_after_backend nb =
     list_all (\<lambda>i. list_all (\<lambda>j. j < i) (backend_positions nb)) (histogram_positions nb)"

text \<open>
  The claim that a notebook is three phases in order, with no simulation reached from
  inside author-written iteration and none from a callback that the SDK runs as often as
  it chooses.
\<close>

definition three_phases :: "notebook \<Rightarrow> bool" where
  "three_phases nb =
     (phase_trace nb = [Build, Simulate, Plot] \<and> \<not> backend_in_iteration nb
      \<and> \<not> backend_in_callback nb)"

subsection \<open>Simulation calls\<close>













section \<open>Properties of \<open>expectation_value\<close>\<close>

lemma and_then_Inl [simp]: "and_then (Inl e) f = Inl e"
  by (simp add: and_then_def)

lemma and_then_Inr [simp]: "and_then (Inr a) f = f a"
  by (simp add: and_then_def)

subsection \<open>Rounding to the nearest double\<close>

lemma round_half_even_error: "\<bar>of_int (round_half_even x) - x\<bar> \<le> 1 / 2"
  unfolding round_half_even_def Let_def by (auto; linarith)

lemma round_half_even_le: "x \<le> of_int N \<Longrightarrow> round_half_even x \<le> N"
  unfolding round_half_even_def Let_def by (auto; linarith)

lemma round_half_even_ge: "of_int N \<le> x \<Longrightarrow> N \<le> round_half_even x"
  unfolding round_half_even_def Let_def by (auto; linarith)

lemma round_half_even_int: "round_half_even (of_int n) = n"
  unfolding round_half_even_def Let_def by simp

lemma exponent_bounds:
  assumes "x \<noteq> 0"
  shows "2 powi exponent x \<le> \<bar>x\<bar>" and "\<bar>x\<bar> < 2 powi (exponent x + 1)"
proof -
  have "2 powi exponent x \<le> \<bar>x\<bar> \<and> \<bar>x\<bar> < 2 powi (exponent x + 1)"
  proof (cases "1 \<le> \<bar>x\<bar>")
    case True
    define n where "n = \<lfloor>\<bar>x\<bar>\<rfloor>"
    have n: "0 < n" using True by (simp add: n_def)
    have e: "exponent x = bitlen n - 1" using True by (simp add: exponent_def n_def)
    have b: "1 \<le> bitlen n" using n by (simp add: bitlen_alt_def)
    from bitlen_bounds[OF n] have lo: "2 ^ nat (bitlen n - 1) \<le> n" and hi: "n < 2 ^ nat (bitlen n)"
      by auto
    have "(2::real) powi (bitlen n - 1) = 2 ^ nat (bitlen n - 1)"
      using b by (simp add: power_int_def)
    also have "\<dots> \<le> of_int n" using lo by (metis of_int_le_iff of_int_numeral of_int_power)
    also have "\<dots> \<le> \<bar>x\<bar>" by (simp add: n_def)
    finally have 1: "2 powi exponent x \<le> \<bar>x\<bar>" by (simp add: e)
    have "n + 1 \<le> 2 ^ nat (bitlen n)" using hi by simp
    then have "real_of_int (n + 1) \<le> 2 ^ nat (bitlen n)"
      by (metis of_int_le_iff of_int_numeral of_int_power)
    moreover have "\<bar>x\<bar> < real_of_int (n + 1)" by (simp add: n_def)
    moreover have "(2::real) powi (bitlen n) = 2 ^ nat (bitlen n)"
      using b by (simp add: power_int_def)
    ultimately have "\<bar>x\<bar> < 2 powi (exponent x + 1)" by (simp add: e)
    with 1 show ?thesis by simp
  next
    case False
    define y where "y = 1 / \<bar>x\<bar>"
    have y: "1 < y" using False assms by (simp add: y_def)
    define n where "n = \<lceil>y\<rceil> - 1"
    have n: "0 < n" using y by (simp add: n_def)
    have ny: "of_int n < y" "y \<le> of_int n + 1" by (simp_all add: n_def) linarith+
    have e: "exponent x = - bitlen n" using False by (simp add: exponent_def n_def y_def)
    have b: "1 \<le> bitlen n" using n by (simp add: bitlen_alt_def)
    from bitlen_bounds[OF n] have lo: "2 ^ nat (bitlen n - 1) \<le> n" and hi: "n < 2 ^ nat (bitlen n)"
      by auto
    have x: "\<bar>x\<bar> = 1 / y" "0 < y" using assms by (simp_all add: y_def)
    have "n + 1 \<le> 2 ^ nat (bitlen n)" using hi by simp
    then have "real_of_int (n + 1) \<le> 2 ^ nat (bitlen n)"
      by (metis of_int_le_iff of_int_numeral of_int_power)
    then have "y \<le> 2 ^ nat (bitlen n)" using ny by simp
    then have "1 / 2 ^ nat (bitlen n) \<le> 1 / y" using x(2) by (simp add: frac_le)
    moreover have "(2::real) powi (- bitlen n) = 1 / 2 ^ nat (bitlen n)"
      using b by (simp add: power_int_def field_simps)
    ultimately have 1: "2 powi exponent x \<le> \<bar>x\<bar>" by (simp add: e x)
    have "(2::real) ^ nat (bitlen n - 1) \<le> of_int n"
      using lo by (metis of_int_le_iff of_int_numeral of_int_power)
    then have "2 ^ nat (bitlen n - 1) < y" using ny by linarith
    then have "1 / y < 1 / 2 ^ nat (bitlen n - 1)" using x(2) by (simp add: frac_less2)
    moreover have "(2::real) powi (- bitlen n + 1) = 1 / 2 ^ nat (bitlen n - 1)"
    proof -
      have "- bitlen n + 1 = - int (nat (bitlen n - 1))" using b by simp
      then show ?thesis by (simp only: power_int_minus power_int_of_nat) (simp add: field_simps)
    qed
    ultimately have "\<bar>x\<bar> < 2 powi (exponent x + 1)" by (simp add: e x)
    with 1 show ?thesis by simp
  qed
  then show "2 powi exponent x \<le> \<bar>x\<bar>" and "\<bar>x\<bar> < 2 powi (exponent x + 1)" by auto
qed

text \<open>The exponent is the integer part of the binary logarithm.\<close>

lemma exponent_floor_log:
  assumes "x \<noteq> 0"
  shows "exponent x = \<lfloor>log 2 \<bar>x\<bar>\<rfloor>"
proof -
  have p: "(2::real) powr real_of_int k = 2 powi k" for k
    by (simp add: powr_real_of_int')
  have "2 powr real_of_int (exponent x) \<le> \<bar>x\<bar>"
    using exponent_bounds(1)[OF assms] by (simp only: p)
  moreover have "\<bar>x\<bar> < 2 powr (real_of_int (exponent x) + 1)"
    using exponent_bounds(2)[OF assms] p[of "exponent x + 1"] by simp
  ultimately show ?thesis
    using floor_log_eq_powr_iff[of "\<bar>x\<bar>" 2 "exponent x"] assms by simp
qed


lemma ulp_pos: "0 < ulp x"
  by (simp add: ulp_def)

lemma nearest_double_error: "\<bar>nearest_double x - x\<bar> \<le> ulp x / 2"
proof -
  have "\<bar>of_int (round_half_even (x / ulp x)) - x / ulp x\<bar> * ulp x \<le> 1 / 2 * ulp x"
    using round_half_even_error[of "x / ulp x"] ulp_pos[of x] by (intro mult_right_mono) auto
  moreover have "nearest_double x - x = (of_int (round_half_even (x / ulp x)) - x / ulp x) * ulp x"
    using ulp_pos[of x] by (simp add: nearest_double_def left_diff_distrib)
  then have "\<bar>nearest_double x - x\<bar> = \<bar>of_int (round_half_even (x / ulp x)) - x / ulp x\<bar> * ulp x"
    using ulp_pos[of x] by (simp add: abs_mult)
  ultimately show ?thesis by simp
qed

lemma exponent_unit: "\<bar>x\<bar> \<le> 1 \<Longrightarrow> exponent x \<le> 0"
  by (auto simp: exponent_def bitlen_nonneg bitlen_alt_def)

text \<open>Up to 1 in magnitude, the doubles are the multiples of \<open>ulp\<close>, and 1 is one of them.\<close>

lemma ulp_unit:
  assumes "\<bar>x\<bar> \<le> 1"
  shows "\<exists>n. 52 \<le> n \<and> ulp x = 1 / 2 ^ n"
proof -
  define k where "k = 52 - max (exponent x) (- 1022)"
  have k: "52 \<le> k" using exponent_unit[OF assms] by (simp add: k_def)
  have "ulp x = 2 powi (- k)" by (simp add: ulp_def k_def)
  also have "\<dots> = 1 / 2 ^ nat k"
    using k by (simp add: power_int_minus_divide power_int_nonneg_exp)
  finally show ?thesis using k by (intro exI[of _ "nat k"]) simp
qed

lemma nearest_double_unit:
  assumes "\<bar>x\<bar> \<le> 1"
  shows "\<bar>nearest_double x\<bar> \<le> 1"
proof -
  obtain n where u: "ulp x = 1 / 2 ^ n" using ulp_unit[OF assms] by blast
  have q: "x / ulp x = x * 2 ^ n" by (simp add: u)
  have "x * 2 ^ n \<le> of_int (2 ^ n)" using assms by simp
  then have hi: "round_half_even (x / ulp x) \<le> 2 ^ n"
    unfolding q by (rule round_half_even_le)
  have "- 1 * 2 ^ n \<le> x * 2 ^ n" using assms by (intro mult_right_mono) auto
  then have "of_int (- (2 ^ n)) \<le> x * 2 ^ n" by simp
  then have lo: "- (2 ^ n) \<le> round_half_even (x / ulp x)"
    unfolding q by (rule round_half_even_ge)
  have "\<bar>real_of_int (round_half_even (x / ulp x))\<bar> \<le> 2 ^ n"
    using hi lo by (metis abs_le_iff minus_le_iff of_int_le_iff of_int_minus of_int_numeral of_int_power)
  then show ?thesis by (simp add: nearest_double_def u abs_mult)
qed

lemma nearest_double_nonneg: "0 \<le> x \<Longrightarrow> 0 \<le> nearest_double x"
  using round_half_even_ge[of 0 "x / ulp x"] ulp_pos[of x] by (simp add: nearest_double_def)

lemma nearest_double_unit_error:
  assumes "\<bar>x\<bar> \<le> 1"
  shows "\<bar>nearest_double x - x\<bar> \<le> 1 / 2 ^ 53"
proof -
  obtain n where n: "52 \<le> n" and u: "ulp x = 1 / 2 ^ n" using ulp_unit[OF assms] by blast
  have "(2::real) ^ 52 \<le> 2 ^ n" using n by (intro power_increasing) auto
  then have "ulp x \<le> 1 / 2 ^ 52" unfolding u by (intro divide_left_mono) auto
  then show ?thesis using nearest_double_error[of x] by simp
qed

lemma nearest_double_0: "nearest_double 0 = 0"
  by (simp add: nearest_double_def round_half_even_def)

text \<open>A double is its own nearest double.\<close>

lemma nearest_double_idem: "nearest_double (nearest_double x) = nearest_double x"
proof (cases "nearest_double x = 0")
  case True
  then show ?thesis by (simp add: nearest_double_0)
next
  case False
  define y where "y = nearest_double x"
  define k where "k = max (exponent x) (- 1022) - 52"
  define k' where "k' = max (exponent y) (- 1022) - 52"
  define m where "m = round_half_even (x / ulp x)"
  have ux: "ulp x = 2 powi k" by (simp add: ulp_def k_def)
  have uy: "ulp y = 2 powi k'" by (simp add: ulp_def k'_def)
  have y: "y = of_int m * 2 powi k" by (simp add: y_def nearest_double_def m_def ux)
  have y0: "y \<noteq> 0" using False by (simp add: y_def)
  then have x0: "x \<noteq> 0" using nearest_double_0 by (auto simp: y_def)
  have p: "(0::real) < 2 powi i" for i by simp
  text \<open>The mantissa has at most 53 bits, or is \<open>2 ^ 53\<close>.\<close>
  have "\<bar>x\<bar> < 2 powi (exponent x + 1)" using exponent_bounds(2)[OF x0] .
  also have "\<dots> \<le> 2 powi (k + 53)" by (intro power_int_increasing) (auto simp: k_def)
  also have "\<dots> = 2 ^ 53 * 2 powi k" by (simp add: power_int_add mult.commute)
  finally have "\<bar>x\<bar> / 2 powi k < 2 ^ 53" by (simp add: pos_divide_less_eq)
  then have "\<bar>x / ulp x\<bar> < 2 ^ 53" by (simp add: ux)
  then have "x / ulp x \<le> 2 ^ 53" "- (2 ^ 53) \<le> x / ulp x" by linarith+
  then have "x / ulp x \<le> of_int (2 ^ 53)" "of_int (- (2 ^ 53)) \<le> x / ulp x" by simp_all
  then have m: "m \<le> 2 ^ 53" "- (2 ^ 53) \<le> m"
    unfolding m_def by (auto intro: round_half_even_le round_half_even_ge)
  then have "real_of_int m \<le> real_of_int (2 ^ 53)" "real_of_int (- (2 ^ 53)) \<le> real_of_int m"
    by (simp_all only: of_int_le_iff)
  then have am: "\<bar>real_of_int m\<bar> \<le> 2 ^ 53" by simp
  text \<open>So the exponent of the result is at most one more than that of the argument.\<close>
  have "2 powi exponent y \<le> \<bar>y\<bar>" using exponent_bounds(1)[OF y0] .
  also have "\<dots> = \<bar>real_of_int m\<bar> * 2 powi k" by (simp add: y abs_mult)
  also have "\<dots> \<le> 2 ^ 53 * 2 powi k" using am by (intro mult_right_mono) auto
  also have "\<dots> = 2 powi (k + 53)" by (simp add: power_int_add mult.commute)
  finally have "(2::real) powi exponent y \<le> 2 powi (k + 53)" .
  then have ey: "exponent y \<le> k + 53"
    using power_int_strict_increasing[of "k + 53" "exponent y" "2::real"] by force
  have kk: "k' \<le> k + 1" using ey by (simp add: k'_def k_def)
  have "\<exists>j. y / ulp y = of_int j"
  proof (cases "k' \<le> k")
    case True
    have "y / ulp y = of_int m * (2 powi k / 2 powi k')" unfolding uy by (simp add: y)
    also have "2 powi k / 2 powi k' = (2::real) powi (k - k')" by (simp add: power_int_diff)
    also have "\<dots> = 2 ^ nat (k - k')" using True by (simp add: power_int_nonneg_exp)
    finally have "y / ulp y = of_int (m * 2 ^ nat (k - k'))" by simp
    then show ?thesis by blast
  next
    case False
    then have k1: "k' = k + 1" using kk by simp
    then have e1: "exponent y = k + 53" using ey by (simp add: k'_def k_def)
    have "2 powi (k + 53) \<le> \<bar>y\<bar>"
      using exponent_bounds(1)[OF y0] by (simp only: e1)
    also have "\<bar>y\<bar> = \<bar>real_of_int m\<bar> * 2 powi k" by (simp add: y abs_mult)
    finally have "2 powi (k + 53) \<le> \<bar>real_of_int m\<bar> * 2 powi k" .
    then have "2 ^ 53 * 2 powi k \<le> \<bar>real_of_int m\<bar> * 2 powi k"
      by (simp add: power_int_add mult.commute)
    then have "2 ^ 53 \<le> \<bar>real_of_int m\<bar>" using p[of k] by simp
    then have "real_of_int (2 ^ 53) \<le> real_of_int \<bar>m\<bar>" by simp
    then have "2 ^ 53 \<le> \<bar>m\<bar>" by (simp only: of_int_le_iff)
    then have "m = 2 ^ 53 \<or> m = - (2 ^ 53)" using m by linarith
    then have "even m" by auto
    moreover have "y / ulp y = of_int m / 2"
      unfolding uy by (simp add: y k1 power_int_add)
    ultimately have "y / ulp y = of_int (m div 2)" by (simp add: real_of_int_div)
    then show ?thesis by blast
  qed
  then obtain j where j: "y / ulp y = of_int j" ..
  have "nearest_double y = of_int j * ulp y"
    by (simp add: nearest_double_def j round_half_even_int)
  also have "\<dots> = y" using j ulp_pos[of y] by (simp add: field_simps)
  finally show ?thesis by (simp add: y_def)
qed

subsection \<open>The counts and the result\<close>

text \<open>A dict whose keys are among two given keys: its values sum to the two entries.\<close>

lemma two_key_sum:
  assumes "wf_dict d" "set (dict_keys d) \<subseteq> {a, b}" "a \<noteq> b"
  shows "sum_list (dict_values d) = dict_get d a (0::int) + dict_get d b 0"
proof -
  have len: "length d \<le> 2"
  proof -
    have "card (set (dict_keys d)) \<le> card {a, b}"
      using assms(2) by (intro card_mono) auto
    moreover have "card (set (dict_keys d)) = length d"
      using assms(1) distinct_card[of "map fst d"] by (simp add: wf_dict_def dict_keys_def)
    ultimately show ?thesis using assms(3) by simp
  qed
  show ?thesis
  proof (cases d)
    case Nil
    then show ?thesis by (simp add: dict_values_def dict_get_def)
  next
    case (Cons p d1)
    show ?thesis
    proof (cases d1)
      case Nil
      then show ?thesis
        using Cons assms by (cases p) (auto simp: dict_values_def dict_get_def dict_keys_def)
    next
      case (Cons q d2)
      then have "d2 = []" using len \<open>d = p # d1\<close> by simp
      then show ?thesis
        using Cons \<open>d = p # d1\<close> assms
        by (cases p; cases q) (auto simp: dict_values_def dict_get_def dict_keys_def wf_dict_def)
    qed
  qed
qed

lemma dict_get_nonneg:
  assumes "\<forall>v \<in> set (dict_values d). (0::int) \<le> v"
  shows "0 \<le> dict_get d k 0"
proof (cases "map_of d k")
  case None
  then show ?thesis by (simp add: dict_get_def)
next
  case (Some v)
  then have "(k, v) \<in> set d" by (rule map_of_SomeD)
  then have "v \<in> set (dict_values d)" by (force simp: dict_values_def)
  then show ?thesis using assms Some by (simp add: dict_get_def)
qed

lemma nonempty_has_key:
  assumes "counts \<noteq> []" "set (dict_keys counts) \<subseteq> {''0'', ''1''}"
  shows "dict_contains ''0'' counts \<or> dict_contains ''1'' counts"
proof -
  obtain k v rest where c: "counts = (k, v) # rest"
    using assms(1) by (cases counts) auto
  then have "k = ''0'' \<or> k = ''1''" using assms(2) by (simp add: dict_keys_def)
  then show ?thesis using c by (auto simp: dict_contains_def)
qed

lemma to_float_unit:
  assumes "\<bar>x\<bar> \<le> 1"
  shows "to_float x = Finite (nearest_double x)"
proof -
  have "(1::real) < 2 powi 1024" by simp
  then have "\<not> 2 powi 1024 \<le> nearest_double x" "\<not> nearest_double x \<le> - (2 powi 1024)"
    using nearest_double_unit[OF assms] by linarith+
  then show ?thesis by (simp only: to_float_def Let_def if_False)
qed

lemma py_truediv_fraction:
  assumes "0 < shots" "0 \<le> c" "c \<le> shots"
  shows "py_truediv c shots = Inr (Finite (nearest_double (real_of_int c / real_of_int shots)))"
proof -
  have "\<bar>real_of_int c / real_of_int shots\<bar> \<le> 1" using assms by simp
  then show ?thesis using assms(1) by (simp add: py_truediv_def to_float_unit)
qed

lemma fraction_unit:
  assumes "0 < shots" "0 \<le> c" "c \<le> shots"
  shows "0 \<le> nearest_double (real_of_int c / real_of_int shots)"
    and "nearest_double (real_of_int c / real_of_int shots) \<le> 1"
proof -
  have "0 \<le> real_of_int c / real_of_int shots" using assms by simp
  then show "0 \<le> nearest_double (real_of_int c / real_of_int shots)"
    by (rule nearest_double_nonneg)
  have "\<bar>real_of_int c / real_of_int shots\<bar> \<le> 1" using assms by simp
  then show "nearest_double (real_of_int c / real_of_int shots) \<le> 1"
    using nearest_double_unit[of "real_of_int c / real_of_int shots"] by simp
qed

lemma add_if_zero_fraction:
  assumes "0 < shots" "0 \<le> dict_get counts ''0'' 0" "dict_get counts ''0'' 0 \<le> shots"
  shows "add_if_zero counts shots (Finite 0) =
    Inr (Finite (nearest_double (real_of_int (dict_get counts ''0'' 0) / real_of_int shots)))"
proof (cases "map_of counts ''0''")
  case None
  then show ?thesis
    by (simp add: add_if_zero_def dict_contains_def dict_get_def nearest_double_0)
next
  case (Some c)
  then have c: "dict_get counts ''0'' 0 = c" by (simp add: dict_get_def)
  have u: "\<bar>nearest_double (real_of_int c / real_of_int shots)\<bar> \<le> 1"
    using fraction_unit[of shots c] assms c by simp
  show ?thesis
    using Some py_truediv_fraction[of shots c] assms c
    by (simp add: add_if_zero_def dict_contains_def dict_getitem_def to_float_unit[OF u]
        nearest_double_idem)
qed

lemma sub_if_one_fraction:
  assumes "0 < shots" "0 \<le> dict_get counts ''1'' 0" "dict_get counts ''1'' 0 \<le> shots"
    and "0 \<le> a" "a \<le> 1" "nearest_double a = a"
  shows "sub_if_one counts shots (Finite a) =
    Inr (Finite (nearest_double
                   (a - nearest_double (real_of_int (dict_get counts ''1'' 0) / real_of_int shots))))"
proof (cases "map_of counts ''1''")
  case None
  then show ?thesis
    using assms(6) by (simp add: sub_if_one_def dict_contains_def dict_get_def nearest_double_0)
next
  case (Some c)
  then have c: "dict_get counts ''1'' 0 = c" by (simp add: dict_get_def)
  have "\<bar>a - nearest_double (real_of_int c / real_of_int shots)\<bar> \<le> 1"
    using fraction_unit[of shots c] assms c by simp
  then show ?thesis
    using Some py_truediv_fraction[of shots c] assms c
    by (simp add: sub_if_one_def dict_contains_def dict_getitem_def float_sub_def to_float_unit)
qed

lemma expectation_value_zero_shots:
  assumes "sum_list (dict_values counts) = 0"
    and "dict_contains ''0'' counts \<or> dict_contains ''1'' counts"
  shows "expectation_value counts = Inl ZeroDivisionError"
  using assms
  by (auto simp: expectation_value_def Let_def add_if_zero_def sub_if_one_def dict_contains_def
      dict_getitem_def py_truediv_def split: option.splits)

lemmas double_defs = nearest_double_def ulp_def exponent_def round_half_even_def compute_bitlen
  to_float_def Let_def

lemmas expectation_value_defs = expectation_value_def add_if_zero_def sub_if_one_def
  dict_contains_def dict_getitem_def dict_values_def py_truediv_def float_sub_def

text \<open>
  True division at the ends of the range of the doubles: a quotient that needs the
  exponent 1024 overflows, and one below half of the least subnormal is 0.
\<close>

lemma py_truediv_examples:
  "py_truediv 1 5 = Inr (Finite (7205759403792794 / 2 ^ 55))"
  "py_truediv 4 5 = Inr (Finite (7205759403792794 / 2 ^ 53))"
  "py_truediv 1 0 = Inl ZeroDivisionError"
  "py_truediv (2 ^ 1024) 1 = Inl OverflowError"
  "py_truediv 1 (2 ^ 1075) = Inr (Finite 0)"
  by (simp_all add: py_truediv_def double_defs)

text \<open>
  C8, as the code has it. For a counts dict with keys among \<open>'0'\<close> and \<open>'1'\<close> and
  non-negative values: when the values sum to a positive total, \<open>expectation_value\<close>
  returns a finite float, the double nearest to the difference of the two quotients
  count of \<open>'0'\<close> by total and count of \<open>'1'\<close> by total, each rounded to its nearest
  double (a missing key counting as 0); it is within \<open>3 / 2 ^ 53\<close> of count of \<open>'0'\<close>
  minus count of \<open>'1'\<close>, divided by the total, and lies between -1 and 1. When the dict
  is not empty and its values are all zero, the division raises \<open>ZeroDivisionError\<close>;
  on the empty dict no division is made and the result is 0.
\<close>

theorem expectation_value_counts:
  assumes wf: "wf_dict counts"
    and keys: "set (dict_keys counts) \<subseteq> {''0'', ''1''}"
    and nonneg: "\<forall>v \<in> set (dict_values counts). 0 \<le> v"
  shows "(0 < sum_list (dict_values counts) \<longrightarrow>
            (\<exists>v. expectation_value counts = Inr (Finite v)
               \<and> v = nearest_double
                       (nearest_double (real_of_int (dict_get counts ''0'' 0)
                                        / real_of_int (sum_list (dict_values counts)))
                        - nearest_double (real_of_int (dict_get counts ''1'' 0)
                                          / real_of_int (sum_list (dict_values counts))))
               \<and> \<bar>v - (real_of_int (dict_get counts ''0'' 0) - real_of_int (dict_get counts ''1'' 0))
                        / real_of_int (sum_list (dict_values counts))\<bar> \<le> 3 / 2 ^ 53
               \<and> - 1 \<le> v \<and> v \<le> 1))
       \<and> (counts \<noteq> [] \<and> sum_list (dict_values counts) = 0 \<longrightarrow>
            expectation_value counts = Inl ZeroDivisionError)
       \<and> (counts = [] \<longrightarrow> expectation_value counts = Inr (Finite 0))"
proof (intro conjI impI)
  let ?a = "dict_get counts ''0'' 0" and ?b = "dict_get counts ''1'' 0"
  let ?s = "sum_list (dict_values counts)"
  let ?x = "real_of_int ?a / real_of_int ?s" and ?y = "real_of_int ?b / real_of_int ?s"
  let ?v = "nearest_double (nearest_double ?x - nearest_double ?y)"
  assume pos: "0 < ?s"
  have s: "?s = ?a + ?b" using two_key_sum[OF wf keys] by simp
  have a: "0 \<le> ?a" "?a \<le> ?s" and b: "0 \<le> ?b" "?b \<le> ?s"
    using dict_get_nonneg[OF nonneg] s by auto
  have ux: "\<bar>?x\<bar> \<le> 1" and uy: "\<bar>?y\<bar> \<le> 1" using pos a b by simp_all
  have qx: "0 \<le> nearest_double ?x" "nearest_double ?x \<le> 1"
    using fraction_unit[OF pos a] by simp_all
  have qy: "0 \<le> nearest_double ?y" "nearest_double ?y \<le> 1"
    using fraction_unit[OF pos b] by simp_all
  have ud: "\<bar>nearest_double ?x - nearest_double ?y\<bar> \<le> 1" using qx qy by simp
  have eq: "expectation_value counts = Inr (Finite ?v)"
    using add_if_zero_fraction[OF pos a]
      sub_if_one_fraction[OF pos b qx nearest_double_idem]
    by (simp add: expectation_value_def Let_def)
  have "\<bar>?v - (nearest_double ?x - nearest_double ?y)\<bar> \<le> 1 / 2 ^ 53"
    using nearest_double_unit_error[OF ud] .
  moreover have "\<bar>nearest_double ?x - ?x\<bar> \<le> 1 / 2 ^ 53"
    using nearest_double_unit_error[OF ux] .
  moreover have "\<bar>nearest_double ?y - ?y\<bar> \<le> 1 / 2 ^ 53"
    using nearest_double_unit_error[OF uy] .
  moreover have "(real_of_int ?a - real_of_int ?b) / real_of_int ?s = ?x - ?y"
    by (simp add: diff_divide_distrib)
  ultimately have err: "\<bar>?v - (real_of_int ?a - real_of_int ?b) / real_of_int ?s\<bar> \<le> 3 / 2 ^ 53"
    by linarith
  have "\<bar>?v\<bar> \<le> 1" using nearest_double_unit[OF ud] .
  then have "- 1 \<le> ?v" "?v \<le> 1" by linarith+
  with eq err show "\<exists>v. expectation_value counts = Inr (Finite v)
      \<and> v = ?v \<and> \<bar>v - (real_of_int ?a - real_of_int ?b) / real_of_int ?s\<bar> \<le> 3 / 2 ^ 53
      \<and> - 1 \<le> v \<and> v \<le> 1"
    by blast
next
  assume "counts \<noteq> [] \<and> sum_list (dict_values counts) = 0"
  then show "expectation_value counts = Inl ZeroDivisionError"
    using nonempty_has_key[OF _ keys] expectation_value_zero_shots by blast
next
  assume "counts = []"
  then show "expectation_value counts = Inr (Finite 0)"
    by (simp add: expectation_value_def add_if_zero_def sub_if_one_def dict_contains_def
        dict_values_def)
qed

theorem expectation_value_counts_witness:
  "expectation_value [(''0'', 3), (''1'', 1)] = Inr (Finite (1 / 2))
   \<and> expectation_value [(''1'', 5)] = Inr (Finite (- 1))
   \<and> expectation_value [(''0'', 0), (''1'', 0)] = Inl ZeroDivisionError
   \<and> expectation_value [] = Inr (Finite 0)"
  using expectation_value_counts[of "[(''0'', 3), (''1'', 1)]"]
        expectation_value_counts[of "[(''1'', 5)]"]
        expectation_value_counts[of "[(''0'', 0), (''1'', 0)]"]
        expectation_value_counts[of "[]"]
  by (simp add: wf_dict_def dict_keys_def dict_get_def expectation_value_defs double_defs)

text \<open>
  The result is not always the exact quotient: on one \<open>'0'\<close> and four \<open>'1'\<close> it is
  \<open>-0.6000000000000001\<close>, the double next to the one nearest to \<open>-3/5\<close>. And the empty
  dict has total 0, but the call does not fail on it: neither membership test holds, so
  no division is evaluated.
\<close>

theorem expectation_value_counterexample:
  "expectation_value [(''0'', 1), (''1'', 4)] = Inr (Finite (- 5404319552844596 / 2 ^ 53))
   \<and> expectation_value [(''0'', 1), (''1'', 4)] \<noteq> Inr (Finite ((1 - 4) / (1 + 4)))
   \<and> sum_list (dict_values ([] :: int py_dict)) = 0
   \<and> expectation_value [] = Inr (Finite 0)
   \<and> expectation_value [] \<noteq> Inl ZeroDivisionError"
  by (simp add: expectation_value_defs double_defs)

section \<open>Properties of the reconstructed density matrix\<close>

lemmas rho_unfold = rho_def np_scale_def np_add_def np_eye_def pauli_x_def pauli_y_def
  pauli_z_def upt_rec numeral_2_eq_2

text \<open>
  C10. For all real \<open>r_x\<close>, \<open>r_y\<close>, \<open>r_z\<close> the matrix \<open>rho\<close> is a 2 by 2 matrix that
  equals its conjugate transpose and has trace 1 (in exact arithmetic).
\<close>

theorem rho_hermitian_trace_one:
  "hermitian (rho r_x r_y r_z) \<and> trace (rho r_x r_y r_z) = 1 \<and> shape (rho r_x r_y r_z) = [2, 2]"
proof (intro conjI)
  show "hermitian (rho r_x r_y r_z)"
    by (simp add: hermitian_def dagger_def entry_def rho_unfold algebra_simps)
  show "trace (rho r_x r_y r_z) = 1"
    by (simp add: trace_def entry_def rho_unfold add_divide_distrib[symmetric])
  show "shape (rho r_x r_y r_z) = [2, 2]"
    by (simp add: shape_def rho_unfold)
qed

theorem rho_hermitian_trace_one_witness:
  "rho 0 0 1 = [[1, 0], [0, 0]] \<and> rho 1 0 0 = [[1 / 2, 1 / 2], [1 / 2, 1 / 2]]
   \<and> hermitian (rho 0 1 0) \<and> trace (rho 0 1 0) = 1"
  using rho_hermitian_trace_one[of 0 1 0]
  by (simp add: rho_unfold)

section \<open>Properties of \<open>measure_in_bases\<close>\<close>

lemma prepare_state_empty:
  "prepare_state [] =
     Inr (0, [\<lparr>num_qubits = 1, num_clbits = 0, data = [Gate HGate [0], Gate SGate [0]]\<rparr>])"
  by (simp add: prepare_state_def alloc_def new_circuit_def invoke_def gate1_def qubits_ok_def
      emit_def)

lemma copy_ok: "r < length st \<Longrightarrow> copy r st = Inr (length st, st @ [st ! r])"
  by (simp add: copy_def alloc_def)

lemma invoke_gate1_last:
  "1 \<le> num_qubits qc \<Longrightarrow>
   invoke (length st) (gate1 g [0]) (st @ [qc]) = Inr (st @ [emit [Gate g [0]] qc])"
  by (simp add: invoke_def gate1_def qubits_ok_def)

lemma invoke_measure_all_last:
  "measure_all qc = Inr qc' \<Longrightarrow>
   invoke (length st) measure_all (st @ [qc]) = Inr (st @ [qc'])"
  by (simp add: invoke_def)

text \<open>The call appends three objects to the store and returns their references.\<close>

lemma measure_in_bases_result:
  assumes r: "circuit < length st" and q: "1 \<le> num_qubits (st ! circuit)"
  shows "measure_in_bases circuit st =
     Inr ([length st, length st + 1, length st + 2],
          st @ [measured_in x_basis (st ! circuit), measured_in y_basis (st ! circuit),
                measured_in z_basis (st ! circuit)])"
proof -
  let ?c = "st ! circuit"
  have x: "measure_all (emit [Gate HGate [0]] ?c) = Inr (measured_in x_basis ?c)"
    by (simp add: measure_all_def emit_def measured_in_def x_basis_def all_measured_def Let_def)
  have y: "measure_all (emit [Gate HGate [0]] (emit [Gate SdgGate [0]] ?c))
             = Inr (measured_in y_basis ?c)"
    by (simp add: measure_all_def emit_def measured_in_def y_basis_def all_measured_def Let_def)
  have z: "measure_all ?c = Inr (measured_in z_basis ?c)"
    by (simp add: measure_all_def emit_def measured_in_def z_basis_def all_measured_def Let_def)
  have q': "1 \<le> num_qubits (emit [Gate g [0]] ?c)" for g
    using q by (simp add: emit_def)
  let ?s1 = "st @ [measured_in x_basis ?c]"
  let ?s2 = "?s1 @ [measured_in y_basis ?c]"
  have c1: "circuit < length ?s1" "?s1 ! circuit = ?c"
    using r by (simp_all add: nth_append)
  have c2: "circuit < length ?s2" "?s2 ! circuit = ?c"
    using r by (simp_all add: nth_append)
  show ?thesis
    unfolding measure_in_bases_def Let_def
    apply (simp only: copy_ok[OF r] and_then_Inr prod.case)
    apply (simp only: invoke_gate1_last[OF q] and_then_Inr)
    apply (simp only: invoke_measure_all_last[OF x] and_then_Inr)
    apply (simp only: copy_ok[OF c1(1)] c1(2) and_then_Inr prod.case)
    apply (simp only: invoke_gate1_last[OF q] and_then_Inr)
    apply (simp only: invoke_gate1_last[OF q'] and_then_Inr)
    apply (simp only: invoke_measure_all_last[OF y] and_then_Inr)
    apply (simp only: copy_ok[OF c2(1)] c2(2) and_then_Inr prod.case)
    apply (simp only: invoke_measure_all_last[OF z] and_then_Inr)
    apply simp
    done
qed

text \<open>
  C9. Called on a reference to a circuit that has qubit 0, \<open>measure_in_bases\<close> returns
  a list of exactly three references, to the X-basis, the Y-basis and the Z-basis
  measurement circuit in this order; the three are new objects, different from the
  input and from each other, and the input object and every other object that existed
  before the call are unchanged.
\<close>

theorem measure_in_bases_three_copies:
  assumes "circuit < length st" and "1 \<le> num_qubits (st ! circuit)"
  shows "\<exists>qc_x qc_y qc_z st'.
           measure_in_bases circuit st = Inr ([qc_x, qc_y, qc_z], st')
         \<and> st' ! qc_x = measured_in x_basis (st ! circuit)
         \<and> st' ! qc_y = measured_in y_basis (st ! circuit)
         \<and> st' ! qc_z = measured_in z_basis (st ! circuit)
         \<and> distinct [circuit, qc_x, qc_y, qc_z]
         \<and> st' ! circuit = st ! circuit
         \<and> take (length st) st' = st"
proof -
  let ?st' = "st @ [measured_in x_basis (st ! circuit), measured_in y_basis (st ! circuit),
                measured_in z_basis (st ! circuit)]"
  have "measure_in_bases circuit st = Inr ([length st, length st + 1, length st + 2], ?st')"
    using measure_in_bases_result[OF assms] .
  moreover have "?st' ! length st = measured_in x_basis (st ! circuit)"
    by simp
  moreover have "?st' ! (length st + 1) = measured_in y_basis (st ! circuit)"
    by (simp add: nth_append)
  moreover have "?st' ! (length st + 2) = measured_in z_basis (st ! circuit)"
    by (simp add: nth_append)
  moreover have "distinct [circuit, length st, length st + 1, length st + 2]"
    using assms(1) by simp
  moreover have "?st' ! circuit = st ! circuit"
    using assms(1) by (simp add: nth_append)
  moreover have "take (length st) ?st' = st"
    by simp
  ultimately show ?thesis by blast
qed

text \<open>The notebook's own call: \<open>measure_in_bases(qc)\<close> with \<open>qc = prepare_state()\<close>.\<close>

theorem measure_in_bases_three_copies_witness:
  "prepare_state [] =
     Inr (0, [\<lparr>num_qubits = 1, num_clbits = 0, data = [Gate HGate [0], Gate SGate [0]]\<rparr>])
   \<and> (\<exists>qc_x qc_y qc_z st'.
         measure_in_bases 0
           [\<lparr>num_qubits = 1, num_clbits = 0, data = [Gate HGate [0], Gate SGate [0]]\<rparr>]
           = Inr ([qc_x, qc_y, qc_z], st')
       \<and> st' ! qc_x = \<lparr>num_qubits = 1, num_clbits = 1,
                        data = [Gate HGate [0], Gate SGate [0], Gate HGate [0],
                                Barrier [0], Measure 0 0]\<rparr>
       \<and> st' ! qc_y = \<lparr>num_qubits = 1, num_clbits = 1,
                        data = [Gate HGate [0], Gate SGate [0], Gate SdgGate [0], Gate HGate [0],
                                Barrier [0], Measure 0 0]\<rparr>
       \<and> st' ! qc_z = \<lparr>num_qubits = 1, num_clbits = 1,
                        data = [Gate HGate [0], Gate SGate [0], Barrier [0], Measure 0 0]\<rparr>
       \<and> st' ! 0 = \<lparr>num_qubits = 1, num_clbits = 0,
                      data = [Gate HGate [0], Gate SGate [0]]\<rparr>)"
  using measure_in_bases_three_copies
    [of 0 "[\<lparr>num_qubits = 1, num_clbits = 0, data = [Gate HGate [0], Gate SGate [0]]\<rparr>]"]
  by (simp add: prepare_state_empty measured_in_def x_basis_def y_basis_def z_basis_def
      all_measured_def) blast

section \<open>Properties of the circuits that the notebooks construct\<close>

lemma calls_snoc: "calls (fs @ [f]) r = and_then (calls fs r) f"
  by (simp add: calls_def)

text \<open>A sequence of calls that succeeds has succeeded after each of its calls.\<close>

lemma calls_take:
  assumes "calls fs r = Inr qc'"
  shows "\<exists>c. calls (take k fs) r = Inr c"
  using assms
proof (induction fs arbitrary: qc' rule: rev_induct)
  case Nil
  then show ?case by (simp add: calls_def)
next
  case (snoc f fs)
  from snoc.prems obtain c where c: "calls fs r = Inr c"
    by (cases "calls fs r") (simp_all add: calls_snoc)
  show ?case
  proof (cases "k \<le> length fs")
    case True
    then show ?thesis using snoc.IH[OF c] by simp
  next
    case False
    then show ?thesis using snoc.prems by simp
  qed
qed

lemma calls_keeps:
  assumes "\<forall>f \<in> set fs. keeps_qubits f" "calls fs (Inr qc) = Inr qc'"
  shows "num_qubits qc' = num_qubits qc"
  using assms
proof (induction fs arbitrary: qc' rule: rev_induct)
  case Nil
  then show ?case by (simp add: calls_def)
next
  case (snoc f fs)
  from snoc.prems(2) obtain c where c: "calls fs (Inr qc) = Inr c" and f: "f c = Inr qc'"
    by (cases "calls fs (Inr qc)") (simp_all add: calls_snoc)
  have "num_qubits c = num_qubits qc"
    using snoc.IH[OF _ c] snoc.prems(1) by simp
  moreover have "num_qubits qc' = num_qubits c"
    using snoc.prems(1) f by (simp add: keeps_qubits_def)
  ultimately show ?case by simp
qed

text \<open>Every method of the circuit model keeps the number of qubits, on every circuit.\<close>

lemma keeps_gate1: "keeps_qubits (gate1 g qs)"
  by (auto simp: keeps_qubits_def gate1_def emit_def split: if_splits)

lemma keeps_gate2: "keeps_qubits (gate2 g c t)"
  by (auto simp: keeps_qubits_def gate2_def emit_def split: if_splits)

lemma keeps_measure: "keeps_qubits (measure qs cs)"
  by (auto simp: keeps_qubits_def measure_def emit_def split: if_splits)

lemma keeps_measure_all: "keeps_qubits measure_all"
  by (auto simp: keeps_qubits_def measure_all_def Let_def)

lemma keeps_initialize: "keeps_qubits (initialize n qs)"
  by (auto simp: keeps_qubits_def initialize_def emit_def split: if_splits)

lemma keeps_barrier: "keeps_qubits barrier"
  by (auto simp: keeps_qubits_def barrier_def emit_def)

lemma keeps_save_statevector: "keeps_qubits save_statevector"
  by (auto simp: keeps_qubits_def save_statevector_def emit_def)

lemma keeps_append_result: "keeps_qubits (append_result l other qargs)"
  by (cases other)
     (auto simp: keeps_qubits_def append_result_def append_circuit_def emit_def split: if_splits)

lemma keeps_transpile: "keeps_qubits transpile"
  by (auto simp: keeps_qubits_def transpile_def)

lemma keeps_assign_parameters: "keeps_qubits assign_parameters"
  by (auto simp: keeps_qubits_def assign_parameters_def)

lemma keeps_evolved_state: "keeps_qubits evolved_state"
  by (auto simp: keeps_qubits_def evolved_state_def emit_def)

lemma keeps_library_op: "keeps_qubits (library_op l ws)"
  by (auto simp: keeps_qubits_def library_op_def emit_def split: if_splits)

lemmas keeps = keeps_gate1 keeps_gate2 keeps_measure keeps_measure_all keeps_initialize
  keeps_barrier keeps_save_statevector keeps_append_result keeps_transpile keeps_assign_parameters
  keeps_evolved_state keeps_library_op

lemmas build_defs = nb_0001_qc_def nb_0001_compiled_def nb_0005_qc_def nb_0005_compiled_def
  nb_0012_ansatz_def nb_0012_compiled_def nb_0012_optimized_def
  nb_0014_qc_def nb_0014_compiled_def
  nb_0018_qc_def nb_0018_transpiled_def nb_0018_transpiled_with_measurement_def
  nb_0019_qc_def nb_0019_transpiled_def nb_0019_transpiled_with_measurement_def
  nb_0021_oracle_def nb_0021_diffusion_operator_def nb_0021_grover_operator_def nb_0021_qc_def
  nb_0023_qc_def nb_0023_transpiled_def nb_0023_qc_x_def nb_0023_qc_y_def nb_0023_qc_z_def
  nb_0027_circuit_def nb_0050_qc_def nb_0055_ansatz_def nb_0055_qc_def
  nb_0065_symmetry_circuit_def nb_0065_measured_circuit_def nb_0065_ansatz_def
  nb_part_000_qc_def nb_part_001_qc_def hadamard_measure_def create_symmetry_adapted_circuit_def
  nb_0050_num_qubits_def nb_0005_annealing_qaoa_ansatz_def qubo_binary_vars_def
  magnetic_field_sensor_def nb_0065_sensing_qc_def nb_0065_sensing_compiled_def
  nb_0065_superposition_qc_def nb_0065_superposition_compiled_def

lemmas method_defs = gate1_def gate2_def measure_def measure_all_def initialize_def
  barrier_def save_statevector_def append_result_def append_circuit_def transpile_def assign_parameters_def
  evolved_state_def library_op_def emit_def qubits_ok_def clbits_ok_def new_circuit_def
  EfficientSU2_def GroverOperator_def

lemma steps_keep: "\<forall>b \<in> set notebook_circuits. \<forall>f \<in> set (steps b). keeps_qubits f"
  by (auto simp: notebook_circuits_def build_defs keeps Let_def)

lemma built_ok: "\<forall>b \<in> set notebook_circuits. \<exists>qc. built b = Inr qc"
  by (simp add: notebook_circuits_def build_defs built_def calls_def method_defs Let_def upt_rec
      numeral_eq_Suc)

lemma start_small: "\<forall>b \<in> set notebook_circuits. \<exists>qc. start b = Inr qc \<and> small qc"
  by (simp add: notebook_circuits_def build_defs small_def method_defs built_def calls_def
      Let_def)

lemma stages_small:
  assumes "\<forall>f \<in> set (steps b). keeps_qubits f" "built b = Inr qc'" "start b = Inr qc" "small qc"
  shows "\<forall>r \<in> set (stages b). \<exists>c. r = Inr c \<and> small c"
proof
  fix r assume "r \<in> set (stages b)"
  then obtain k where r: "r = calls (take k (steps b)) (start b)"
    by (auto simp: stages_def simp del: upt_Suc)
  obtain c where c: "calls (take k (steps b)) (start b) = Inr c"
    using calls_take[of "steps b" "start b" qc' k] assms(2) by (auto simp: built_def)
  have "\<forall>f \<in> set (take k (steps b)). keeps_qubits f"
    using assms(1) by (meson in_set_takeD)
  then have "num_qubits c = num_qubits qc"
    using calls_keeps c assms(3) by metis
  then show "\<exists>c. r = Inr c \<and> small c"
    using r c assms(4) by (simp add: small_def)
qed

text \<open>
  C2. For every circuit that a notebook constructs: at every stage of its construction
  (after the constructor and after each further call) the circuit exists, no call
  having raised, and has between 1 and 4 qubits; and every call of its construction
  keeps the number of qubits of whatever circuit it is applied to.
\<close>

theorem circuits_small:
  "\<forall>b \<in> set notebook_circuits.
      (\<forall>r \<in> set (stages b). \<exists>qc. r = Inr qc \<and> 1 \<le> num_qubits qc \<and> num_qubits qc \<le> 4)
    \<and> (\<forall>f \<in> set (steps b). \<forall>qc qc'. f qc = Inr qc' \<longrightarrow> num_qubits qc' = num_qubits qc)"
proof
  fix b assume b: "b \<in> set notebook_circuits"
  have k: "\<forall>f \<in> set (steps b). keeps_qubits f"
    using steps_keep b by blast
  obtain qc' where f: "built b = Inr qc'"
    using built_ok b by blast
  obtain qc where s: "start b = Inr qc" "small qc"
    using start_small b by blast
  have "\<forall>r \<in> set (stages b). \<exists>c. r = Inr c \<and> small c"
    using stages_small[OF k f s] .
  then show "(\<forall>r \<in> set (stages b). \<exists>qc. r = Inr qc \<and> 1 \<le> num_qubits qc \<and> num_qubits qc \<le> 4)
    \<and> (\<forall>f \<in> set (steps b). \<forall>qc qc'. f qc = Inr qc' \<longrightarrow> num_qubits qc' = num_qubits qc)"
    using k by (simp add: small_def keeps_qubits_def)
qed

text \<open>The largest circuit of the repository, the four-qubit circuit of notebook 0050.\<close>

theorem circuits_small_witness:
  "built nb_0050_qc =
     Inr \<lparr>num_qubits = 4, num_clbits = 0,
          data = [Gate RXGate [0], Gate RXGate [1], Gate RXGate [2], Gate RXGate [3]]\<rparr>
   \<and> (\<exists>qc. built nb_0050_qc = Inr qc \<and> 1 \<le> num_qubits qc \<and> num_qubits qc \<le> 4)
   \<and> gate1 RXGate [4] \<lparr>num_qubits = 4, num_clbits = 0, data = []\<rparr> = Inl CircuitError"
proof -
  have m: "nb_0050_qc \<in> set notebook_circuits"
    by (simp add: notebook_circuits_def)
  have v: "built nb_0050_qc =
     Inr \<lparr>num_qubits = 4, num_clbits = 0,
          data = [Gate RXGate [0], Gate RXGate [1], Gate RXGate [2], Gate RXGate [3]]\<rparr>"
    by (simp add: nb_0050_qc_def nb_0050_num_qubits_def built_def calls_def method_defs upt_rec
        numeral_eq_Suc)
  have "built nb_0050_qc \<in> set (stages nb_0050_qc)"
    by (simp add: stages_def built_def)
  then have "\<exists>qc. built nb_0050_qc = Inr qc \<and> 1 \<le> num_qubits qc \<and> num_qubits qc \<le> 4"
    using circuits_small m by blast
  moreover have "gate1 RXGate [4] \<lparr>num_qubits = 4, num_clbits = 0, data = []\<rparr> = Inl CircuitError"
    by (simp add: gate1_def qubits_ok_def)
  ultimately show ?thesis using v by blast
qed

section \<open>Properties of the Hadamard-and-measure circuit\<close>

lemma hadamard_measure_probabilities:
  "ideal_run (built hadamard_measure) = Some (1 / 2, 1 / 2)"
  by (simp add: ideal_run_def built_def calls_def hadamard_measure_def method_defs norm_divide
      power_divide)

text \<open>
  The spread of the binomial distribution with \<open>p = 1/2\<close>, by Pascal's rule, and
  Chebyshev's inequality for it.
\<close>

lemma pascal_sum:
  fixes g :: "nat \<Rightarrow> real"
  shows "(\<Sum>k\<le>Suc n. real (Suc n choose k) * g k)
       = (\<Sum>k\<le>n. real (n choose k) * g k) + (\<Sum>k\<le>n. real (n choose k) * g (Suc k))"
proof -
  have up: "(\<Sum>k\<le>Suc n. real (Suc n choose k) * g k)
      = g 0 + (\<Sum>k\<le>n. real (Suc n choose Suc k) * g (Suc k))"
    using sum.atMost_Suc_shift[of "\<lambda>k. real (Suc n choose k) * g k" n] by simp
  have split: "(\<Sum>k\<le>n. real (Suc n choose Suc k) * g (Suc k))
      = (\<Sum>k\<le>n. real (n choose k) * g (Suc k)) + (\<Sum>k\<le>n. real (n choose Suc k) * g (Suc k))"
    by (simp add: sum.distrib[symmetric] algebra_simps)
  have down: "(\<Sum>k\<le>n. real (n choose k) * g k)
      = g 0 + (\<Sum>k\<le>n. real (n choose Suc k) * g (Suc k))"
    using sum.atMost_Suc_shift[of "\<lambda>k. real (n choose k) * g k" n] by (simp add: binomial_eq_0)
  show ?thesis using up split down by simp
qed

lemma row_sum: "(\<Sum>k\<le>n. real (n choose k)) = 2 ^ n"
proof -
  have "real (\<Sum>k\<le>n. n choose k) = real (2 ^ n)" by (simp only: choose_row_sum)
  then show ?thesis by simp
qed

lemma spread_sum: "(\<Sum>k\<le>n. real (n choose k) * (2 * real k - real n)\<^sup>2) = real n * 2 ^ n"
proof (induction n)
  case 0
  show ?case by simp
next
  case (Suc n)
  have "(\<Sum>k\<le>Suc n. real (Suc n choose k) * (2 * real k - real (Suc n))\<^sup>2)
      = (\<Sum>k\<le>n. real (n choose k) * (2 * real k - real (Suc n))\<^sup>2)
      + (\<Sum>k\<le>n. real (n choose k) * (2 * real (Suc k) - real (Suc n))\<^sup>2)"
    by (rule pascal_sum)
  also have "\<dots> = (\<Sum>k\<le>n. real (n choose k) * ((2 * real k - real (Suc n))\<^sup>2 + (2 * real (Suc k) - real (Suc n))\<^sup>2))"
    by (simp add: sum.distrib[symmetric] algebra_simps)
  also have "\<dots> = (\<Sum>k\<le>n. 2 * (real (n choose k) * (2 * real k - real n)\<^sup>2) + 2 * real (n choose k))"
    by (rule sum.cong) (simp_all add: power2_eq_square algebra_simps)
  also have "\<dots> = 2 * (\<Sum>k\<le>n. real (n choose k) * (2 * real k - real n)\<^sup>2) + 2 * (\<Sum>k\<le>n. real (n choose k))"
    by (simp add: sum.distrib sum_distrib_left)
  also have "\<dots> = 2 * (real n * 2 ^ n) + 2 * 2 ^ n"
    by (simp only: Suc.IH row_sum)
  also have "\<dots> = real (Suc n) * 2 ^ Suc n"
    by (simp add: algebra_simps)
  finally show ?case .
qed

lemma zeros_half: "zeros_probability (1 / 2) n k = real (n choose k) / 2 ^ n" if "k \<le> n"
proof -
  have h: "(1 / 2 :: real) ^ k * (1 / 2) ^ (n - k) = (1 / 2) ^ n"
    using that by (simp add: power_add[symmetric])
  have a: "(1 - 1 / 2 :: real) = 1 / 2" by simp
  have "zeros_probability (1 / 2) n k = real (n choose k) * ((1 / 2) ^ k * (1 / 2) ^ (n - k))"
    by (simp only: zeros_probability_def a mult.assoc)
  also have "\<dots> = real (n choose k) * (1 / 2) ^ n"
    by (simp only: h)
  also have "\<dots> = real (n choose k) / 2 ^ n"
    by (simp add: power_one_over)
  finally show ?thesis .
qed

lemma off_by_sum:
  "off_by p n eps = (\<Sum>k\<le>n. if eps \<le> \<bar>real k / real n - p\<bar> then zeros_probability p n k else 0)"
  unfolding off_by_def
  by (simp only: interv_sum_list_conv_sum_set_nat set_upt atLeastLessThanSuc_atLeastAtMost atMost_atLeast0)

lemma off_by_nonneg: "0 \<le> off_by (1 / 2) n eps"
  unfolding off_by_sum by (intro sum_nonneg) (simp add: zeros_probability_def)

lemma chebyshev_half:
  assumes "0 < eps" "0 < n"
  shows "off_by (1 / 2) n eps \<le> 1 / (4 * eps\<^sup>2) * (1 / real n)"
proof -
  have each: "(if eps \<le> \<bar>real k / real n - 1 / 2\<bar> then zeros_probability (1 / 2) n k else 0)
        \<le> real (n choose k) * (2 * real k - real n)\<^sup>2 / (2 ^ n * (4 * (real n)\<^sup>2 * eps\<^sup>2))"
    if "k \<le> n" for k
  proof (cases "eps \<le> \<bar>real k / real n - 1 / 2\<bar>")
    case False
    then show ?thesis by simp
  next
    case True
    have "real k / real n - 1 / 2 = (2 * real k - real n) / (2 * real n)"
      using assms(2) by (simp add: field_simps)
    then have "eps\<^sup>2 \<le> ((2 * real k - real n) / (2 * real n))\<^sup>2"
      using True assms(1) by (metis abs_le_square_iff abs_of_pos)
    then have "eps\<^sup>2 * (4 * (real n)\<^sup>2) \<le> (2 * real k - real n)\<^sup>2"
      using assms(2) by (simp add: power_divide field_simps power2_eq_square)
    then have "1 \<le> (2 * real k - real n)\<^sup>2 / (4 * (real n)\<^sup>2 * eps\<^sup>2)"
      using assms by (simp add: field_simps)
    then have "real (n choose k) / 2 ^ n * 1
          \<le> real (n choose k) / 2 ^ n * ((2 * real k - real n)\<^sup>2 / (4 * (real n)\<^sup>2 * eps\<^sup>2))"
      by (intro mult_left_mono) simp_all
    then show ?thesis using True that by (simp add: zeros_half)
  qed
  have "off_by (1 / 2) n eps
      \<le> (\<Sum>k\<le>n. real (n choose k) * (2 * real k - real n)\<^sup>2 / (2 ^ n * (4 * (real n)\<^sup>2 * eps\<^sup>2)))"
    unfolding off_by_sum by (intro sum_mono each) simp
  also have "\<dots> = (\<Sum>k\<le>n. real (n choose k) * (2 * real k - real n)\<^sup>2) / (2 ^ n * (4 * (real n)\<^sup>2 * eps\<^sup>2))"
    by (simp add: sum_divide_distrib)
  also have "\<dots> = real n * 2 ^ n / (2 ^ n * (4 * (real n)\<^sup>2 * eps\<^sup>2))"
    by (simp only: spread_sum)
  also have "\<dots> = 1 / (4 * eps\<^sup>2) * (1 / real n)"
    using assms by (simp add: power2_eq_square)
  finally show ?thesis .
qed

lemma off_by_tends:
  assumes "0 < eps"
  shows "(\<lambda>n. off_by (1 / 2) n eps) \<longlonglongrightarrow> 0"
proof (rule real_tendsto_sandwich)
  show "\<forall>\<^sub>F n in sequentially. 0 \<le> off_by (1 / 2) n eps"
    by (simp add: off_by_nonneg)
  show "\<forall>\<^sub>F n in sequentially. off_by (1 / 2) n eps \<le> 1 / (4 * eps\<^sup>2) * (1 / real n)"
    using eventually_gt_at_top[of 0] by eventually_elim (rule chebyshev_half[OF assms])
  show "(\<lambda>n. 0 :: real) \<longlonglongrightarrow> 0" by simp
  have "(\<lambda>n. 1 / (4 * eps\<^sup>2) * (1 / real n)) \<longlonglongrightarrow> 1 / (4 * eps\<^sup>2) * 0"
    by (intro tendsto_mult_left lim_1_over_n)
  then show "(\<lambda>n. 1 / (4 * eps\<^sup>2) * (1 / real n)) \<longlonglongrightarrow> 0" by simp
qed

text \<open>
  C4. On the ideal simulator the circuit of notebooks 0001 and 0014 and of the
  superposition notebook (a Hadamard gate on one qubit, then its measurement) gives outcome 0 with probability 1/2 and outcome
  1 with probability 1/2; and with outcome probability 1/2, for every positive \<open>eps\<close>
  the probability that the fraction of an outcome among the shots is \<open>eps\<close> or more away
  from 1/2 tends to 0 as the number of shots grows.
\<close>

theorem hadamard_outcomes_half:
  "ideal_run (built nb_0001_qc) = Some (1 / 2, 1 / 2)
   \<and> ideal_run (built nb_0014_qc) = Some (1 / 2, 1 / 2)
   \<and> ideal_run (built nb_0065_superposition_qc) = Some (1 / 2, 1 / 2)
   \<and> (\<forall>eps > 0. (\<lambda>shots. off_by (1 / 2) shots eps) \<longlonglongrightarrow> 0)"
  by (simp add: nb_0001_qc_def nb_0014_qc_def nb_0065_superposition_qc_def
      hadamard_measure_probabilities off_by_tends)

theorem hadamard_outcomes_half_witness:
  "(\<lambda>shots. off_by (1 / 2) shots (1 / 10)) \<longlonglongrightarrow> 0
   \<and> off_by (1 / 2) 4 (1 / 2) = 1 / 8
   \<and> ideal_run (built nb_0001_qc) = Some (1 / 2, 1 / 2)"
proof -
  have "(\<lambda>shots. off_by (1 / 2) shots (1 / 10)) \<longlonglongrightarrow> 0"
    using hadamard_outcomes_half by simp
  moreover have "off_by (1 / 2) 4 (1 / 2) = 1 / 8"
    by (simp add: off_by_def zeros_probability_def upt_rec binomial_eq_0 numeral_eq_Suc)
  moreover have "ideal_run (built nb_0001_qc) = Some (1 / 2, 1 / 2)"
    using hadamard_outcomes_half by simp
  ultimately show ?thesis by simp
qed

section \<open>What each notebook contains\<close>

text \<open>
  The summaries of each notebook, computed from its cells: the constructs beyond calls,
  the custom error types, the magics, the packages of the imports, the calls that touch
  a file, the calls that are in none of the lists of SDK calls and are not the
  notebook's own, the marks of the top-level statements, whether a backend call is
  reached from inside author-written iteration or from a callback, the functions whose
  body calls a backend, the backend calls, and whether each job is waited for at once.
\<close>

lemma constructs_0001:
  "constructs nb_0001 = []"
  by code_simp

lemma plain_0001:
  "custom_error_types nb_0001 = [] \<and> magics nb_0001 = [''matplotlib inline'']
   \<and> filter (\<lambda>c. c \<in> set file_callees) (callees nb_0001) = []"
  by code_simp

lemma packages_0001:
  "remdups (map package (imported_modules nb_0001)) = [''qiskit_aer'', ''qiskit'', ''matplotlib'']"
  by code_simp

lemma classified_0001:
  "unclassified nb_0001 = []"
  by code_simp

lemma marks_0001:
  "statement_marks nb_0001 = [([], False), ([], False), ([], False), ([], False), ([], False),
   ([Build], False), ([Build], False), ([Build], False), ([], False), ([Build], False),
   ([Simulate], False), ([], False), ([], False), ([], False), ([Plot], False),
   ([Plot], False), ([Plot], True), ([Plot], False)]"
  by code_simp

lemma iteration_0001:
  "\<not> backend_in_iteration nb_0001"
  by code_simp

lemma callback_0001:
  "\<not> backend_in_callback nb_0001"
  by code_simp

lemma functions_0001:
  "functions_with_backend nb_0001 = []"
  by code_simp



lemma constructs_0005:
  "constructs nb_0005 = []"
  by code_simp

lemma plain_0005:
  "custom_error_types nb_0005 = [] \<and> magics nb_0005 = []
   \<and> filter (\<lambda>c. c \<in> set file_callees) (callees nb_0005) = []"
  by code_simp

lemma packages_0005:
  "remdups (map package (imported_modules nb_0005)) = [''qiskit_aer'', ''qiskit'', ''matplotlib'']"
  by code_simp

lemma classified_0005:
  "unclassified nb_0005 = []"
  by code_simp

lemma marks_0005:
  "statement_marks nb_0005 = [([], False), ([], False), ([], False), ([], False),
   ([Build], False), ([Build], False), ([Build], False), ([Build], False), ([Build], False),
   ([], False), ([Build], False), ([Simulate], False), ([], False), ([], False),
   ([Plot], True), ([Plot], False), ([Plot], False)]"
  by code_simp

lemma iteration_0005:
  "\<not> backend_in_iteration nb_0005"
  by code_simp

lemma callback_0005:
  "\<not> backend_in_callback nb_0005"
  by code_simp

lemma functions_0005:
  "functions_with_backend nb_0005 = []"
  by code_simp



lemma constructs_0005_annealing:
  "constructs nb_0005_annealing = [ForLoop]"
  by code_simp

lemma plain_0005_annealing:
  "custom_error_types nb_0005_annealing = [] \<and> magics nb_0005_annealing = [''matplotlib inline'']
   \<and> filter (\<lambda>c. c \<in> set file_callees) (callees nb_0005_annealing) = []"
  by code_simp

lemma packages_0005_annealing:
  "remdups (map package (imported_modules nb_0005_annealing)) = [''numpy'', ''qiskit_aer'',
   ''qiskit_optimization'', ''qiskit_algorithms'', ''qiskit'', ''matplotlib'']"
  by code_simp

lemma classified_0005_annealing:
  "unclassified nb_0005_annealing = []"
  by code_simp

lemma marks_0005_annealing:
  "statement_marks nb_0005_annealing = [([], False), ([], False), ([], False), ([], False),
   ([], False), ([], False), ([], False), ([], False), ([], False), ([], False), ([], False),
   ([], False), ([], False), ([], False), ([], False), ([], False), ([], False), ([], False),
   ([], False), ([], False), ([], False), ([], False), ([], False), ([], False),
   ([Simulate], False), ([], False), ([], False), ([], False), ([], False), ([], False),
   ([Build], False), ([Build], False), ([Build], False), ([Build], False), ([Build], False),
   ([Build], False), ([Build], False), ([Build], False), ([Plot], False), ([Plot], False)]"
  by code_simp

lemma iteration_0005_annealing:
  "\<not> backend_in_iteration nb_0005_annealing"
  by code_simp

lemma callback_0005_annealing:
  "\<not> backend_in_callback nb_0005_annealing"
  by code_simp

lemma functions_0005_annealing:
  "functions_with_backend nb_0005_annealing = []"
  by code_simp



lemma constructs_0012:
  "constructs nb_0012 = [Function ''objective_function'']"
  by code_simp

lemma plain_0012:
  "custom_error_types nb_0012 = [] \<and> magics nb_0012 = [''matplotlib inline'']
   \<and> filter (\<lambda>c. c \<in> set file_callees) (callees nb_0012) = []"
  by code_simp

lemma packages_0012:
  "remdups (map package (imported_modules nb_0012)) = [''qiskit_aer'', ''qiskit_algorithms'',
   ''qiskit'', ''numpy'', ''matplotlib'']"
  by code_simp

lemma classified_0012:
  "unclassified nb_0012 = []"
  by code_simp

lemma marks_0012:
  "statement_marks nb_0012 = [([], False), ([], False), ([], False), ([], False), ([], False),
   ([], False), ([], False), ([], False), ([], False), ([], False), ([], False), ([], False),
   ([], False), ([Build], False), ([], False), ([], False), ([], False), ([], False),
   ([Build, Simulate], False), ([], False), ([], False), ([], False), ([Build], False),
   ([Plot], False), ([Plot], False)]"
  by code_simp

lemma iteration_0012:
  "\<not> backend_in_iteration nb_0012"
  by code_simp

lemma callback_0012:
  "backend_in_callback nb_0012"
  by code_simp

lemma functions_0012:
  "functions_with_backend nb_0012 = [''objective_function'']"
  by code_simp



lemma constructs_0014:
  "constructs nb_0014 = []"
  by code_simp

lemma plain_0014:
  "custom_error_types nb_0014 = [] \<and> magics nb_0014 = [''matplotlib inline'']
   \<and> filter (\<lambda>c. c \<in> set file_callees) (callees nb_0014) = []"
  by code_simp

lemma packages_0014:
  "remdups (map package (imported_modules nb_0014)) = [''qiskit_aer'', ''qiskit'', ''matplotlib'']"
  by code_simp

lemma classified_0014:
  "unclassified nb_0014 = []"
  by code_simp

lemma marks_0014:
  "statement_marks nb_0014 = [([], False), ([], False), ([], False), ([], False), ([], False),
   ([Build], False), ([Build], False), ([Build], False), ([Plot], False), ([Plot], False),
   ([], False), ([Build], False), ([Plot], False), ([Plot], False), ([Simulate], False),
   ([], False), ([Plot], True), ([Plot], False)]"
  by code_simp

lemma iteration_0014:
  "\<not> backend_in_iteration nb_0014"
  by code_simp

lemma callback_0014:
  "\<not> backend_in_callback nb_0014"
  by code_simp

lemma functions_0014:
  "functions_with_backend nb_0014 = []"
  by code_simp



lemma constructs_0018:
  "constructs nb_0018 = []"
  by code_simp

lemma plain_0018:
  "custom_error_types nb_0018 = [] \<and> magics nb_0018 = [''matplotlib inline'']
   \<and> filter (\<lambda>c. c \<in> set file_callees) (callees nb_0018) = []"
  by code_simp

lemma packages_0018:
  "remdups (map package (imported_modules nb_0018)) = [''numpy'', ''qiskit_aer'', ''qiskit'',
   ''matplotlib'']"
  by code_simp

lemma classified_0018:
  "unclassified nb_0018 = []"
  by code_simp

lemma marks_0018:
  "statement_marks nb_0018 = [([], False), ([], False), ([], False), ([], False), ([], False),
   ([], False), ([], False), ([], False), ([], False), ([], False), ([], False),
   ([Build], False), ([Build], False), ([Build], False), ([Plot], False), ([Plot], False),
   ([], False), ([Build], False), ([Simulate], False), ([], False), ([], False),
   ([Build], False), ([Build], False), ([Simulate], False), ([], False), ([Plot], True),
   ([Plot], False)]"
  by code_simp

lemma iteration_0018:
  "\<not> backend_in_iteration nb_0018"
  by code_simp

lemma callback_0018:
  "\<not> backend_in_callback nb_0018"
  by code_simp

lemma functions_0018:
  "functions_with_backend nb_0018 = []"
  by code_simp



lemma constructs_0019:
  "constructs nb_0019 = []"
  by code_simp

lemma plain_0019:
  "custom_error_types nb_0019 = [] \<and> magics nb_0019 = [''matplotlib inline'']
   \<and> filter (\<lambda>c. c \<in> set file_callees) (callees nb_0019) = []"
  by code_simp

lemma packages_0019:
  "remdups (map package (imported_modules nb_0019)) = [''numpy'', ''qiskit_aer'', ''matplotlib'',
   ''qiskit'']"
  by code_simp

lemma classified_0019:
  "unclassified nb_0019 = []"
  by code_simp

lemma marks_0019:
  "statement_marks nb_0019 = [([], False), ([], False), ([], False), ([], False), ([], False),
   ([], False), ([], False), ([], False), ([], False), ([Build], False), ([Build], False),
   ([Build], False), ([Build], False), ([Plot], False), ([Plot], False), ([], False),
   ([Build], False), ([Simulate], False), ([], False), ([], False), ([Build], False),
   ([Build], False), ([Simulate], False), ([], False), ([Plot], True), ([Plot], False)]"
  by code_simp

lemma iteration_0019:
  "\<not> backend_in_iteration nb_0019"
  by code_simp

lemma callback_0019:
  "\<not> backend_in_callback nb_0019"
  by code_simp

lemma functions_0019:
  "functions_with_backend nb_0019 = []"
  by code_simp



lemma constructs_0021:
  "constructs nb_0021 = [Function ''oracle'', Function ''diffusion_operator'']"
  by code_simp

lemma plain_0021:
  "custom_error_types nb_0021 = [] \<and> magics nb_0021 = [''matplotlib inline'']
   \<and> filter (\<lambda>c. c \<in> set file_callees) (callees nb_0021) = []"
  by code_simp

lemma packages_0021:
  "remdups (map package (imported_modules nb_0021)) = [''numpy'', ''qiskit'', ''qiskit_aer'',
   ''matplotlib'']"
  by code_simp

lemma classified_0021:
  "unclassified nb_0021 = []"
  by code_simp

lemma marks_0021:
  "statement_marks nb_0021 = [([], False), ([], False), ([], False), ([], False), ([], False),
   ([], False), ([], False), ([], False), ([], False), ([Build], False), ([Build], False),
   ([Build], False), ([Build], False), ([Build], False), ([Build], False), ([Build], False),
   ([Build], False), ([Plot], False), ([Plot], False), ([], False), ([Build], False),
   ([Simulate], False), ([], False), ([Plot], True), ([Plot], False)]"
  by code_simp

lemma iteration_0021:
  "\<not> backend_in_iteration nb_0021"
  by code_simp

lemma callback_0021:
  "\<not> backend_in_callback nb_0021"
  by code_simp

lemma functions_0021:
  "functions_with_backend nb_0021 = []"
  by code_simp



lemma constructs_0023:
  "constructs nb_0023 = [Function ''prepare_state'', Function ''measure_in_bases'',
   Function ''expectation_value'', Branch]"
  by code_simp

lemma plain_0023:
  "custom_error_types nb_0023 = [] \<and> magics nb_0023 = [''matplotlib inline'']
   \<and> filter (\<lambda>c. c \<in> set file_callees) (callees nb_0023) = []"
  by code_simp

lemma packages_0023:
  "remdups (map package (imported_modules nb_0023)) = [''numpy'', ''matplotlib'', ''qiskit'',
   ''qiskit_aer'', ''warnings'']"
  by code_simp

lemma classified_0023:
  "unclassified nb_0023 = []"
  by code_simp

lemma marks_0023:
  "statement_marks nb_0023 = [([], False), ([], False), ([], False), ([], False), ([], False),
   ([], False), ([], False), ([], False), ([], False), ([], False), ([], False), ([], False),
   ([], False), ([Build], False), ([], False), ([Plot], False), ([Plot], False),
   ([Build], False), ([], False), ([Plot], False), ([Plot], False), ([Build], False),
   ([], False), ([Simulate], False), ([], False), ([], False), ([], False), ([], False),
   ([], False), ([], False), ([], False), ([], False), ([], False), ([], False),
   ([Plot], True), ([Plot], False)]"
  by code_simp

lemma iteration_0023:
  "\<not> backend_in_iteration nb_0023"
  by code_simp

lemma callback_0023:
  "\<not> backend_in_callback nb_0023"
  by code_simp

lemma functions_0023:
  "functions_with_backend nb_0023 = []"
  by code_simp



lemma constructs_0027:
  "constructs nb_0027 = [Function ''circuit'', Function ''cost'', ForLoop, Branch, Comprehension,
   ConditionalExpr, LambdaExpr]"
  by code_simp

lemma plain_0027:
  "custom_error_types nb_0027 = [] \<and> magics nb_0027 = [''matplotlib inline'']
   \<and> filter (\<lambda>c. c \<in> set file_callees) (callees nb_0027) = []"
  by code_simp

lemma packages_0027:
  "remdups (map package (imported_modules nb_0027)) = [''pennylane'', ''qiskit_aer'',
   ''matplotlib'']"
  by code_simp

lemma classified_0027:
  "unclassified nb_0027 = []"
  by code_simp

lemma marks_0027:
  "statement_marks nb_0027 = [([], False), ([], False), ([], False), ([], False), ([], False),
   ([], False), ([], False), ([], False), ([], False), ([], False), ([], False), ([], False),
   ([], False), ([], False), ([], False), ([Build, Simulate], False), ([], False),
   ([Build, Plot], False)]"
  by code_simp

lemma iteration_0027:
  "backend_in_iteration nb_0027"
  by code_simp

lemma callback_0027:
  "backend_in_callback nb_0027"
  by code_simp

lemma functions_0027:
  "functions_with_backend nb_0027 = [''cost'']"
  by code_simp



lemma constructs_0050:
  "constructs nb_0050 = [Class ''QuantumNeuralNetwork'', Function ''__init__'',
   Function ''forward'', ForLoop, Comprehension]"
  by code_simp

lemma plain_0050:
  "custom_error_types nb_0050 = [] \<and> magics nb_0050 = [''matplotlib inline'']
   \<and> filter (\<lambda>c. c \<in> set file_callees) (callees nb_0050) = []"
  by code_simp

lemma packages_0050:
  "remdups (map package (imported_modules nb_0050)) = [''numpy'', ''torch'', ''qiskit_aer'',
   ''qiskit'', ''qiskit_machine_learning'', ''matplotlib'', ''warnings'']"
  by code_simp

lemma classified_0050:
  "unclassified nb_0050 = []"
  by code_simp

lemma marks_0050:
  "statement_marks nb_0050 = [([], False), ([], False), ([], False), ([], False), ([], False),
   ([], False), ([], False), ([], False), ([], False), ([], False), ([], False), ([], False),
   ([], False), ([], False), ([], False), ([], False), ([Build], False), ([Build], False),
   ([Plot], False), ([Plot], False), ([], False), ([], False), ([], False), ([], False),
   ([], False), ([], False), ([], False), ([], False), ([], False), ([], False),
   ([Simulate], False)]"
  by code_simp

lemma iteration_0050:
  "backend_in_iteration nb_0050"
  by code_simp

lemma callback_0050:
  "\<not> backend_in_callback nb_0050"
  by code_simp

lemma functions_0050:
  "functions_with_backend nb_0050 = [''forward'']"
  by code_simp



lemma constructs_0055:
  "constructs nb_0055 = [Comprehension]"
  by code_simp

lemma plain_0055:
  "custom_error_types nb_0055 = [] \<and> magics nb_0055 = [''matplotlib inline'']
   \<and> filter (\<lambda>c. c \<in> set file_callees) (callees nb_0055) = []"
  by code_simp

lemma packages_0055:
  "remdups (map package (imported_modules nb_0055)) = [''qiskit_aer'', ''qiskit'',
   ''qiskit_algorithms'', ''matplotlib'']"
  by code_simp

lemma classified_0055:
  "unclassified nb_0055 = []"
  by code_simp

lemma marks_0055:
  "statement_marks nb_0055 = [([], False), ([], False), ([], False), ([], False), ([], False),
   ([], False), ([], False), ([], False), ([], False), ([], False), ([], False), ([], False),
   ([Build], False), ([], False), ([], False), ([], False), ([], False), ([Simulate], False),
   ([], False), ([Build], False), ([Plot], False), ([Plot], False)]"
  by code_simp

lemma iteration_0055:
  "\<not> backend_in_iteration nb_0055"
  by code_simp

lemma callback_0055:
  "\<not> backend_in_callback nb_0055"
  by code_simp

lemma functions_0055:
  "functions_with_backend nb_0055 = []"
  by code_simp



lemma constructs_0065:
  "constructs nb_0065 = [Function ''create_symmetry_adapted_circuit'', Comprehension]"
  by code_simp

lemma plain_0065:
  "custom_error_types nb_0065 = [] \<and> magics nb_0065 = [''matplotlib inline'']
   \<and> filter (\<lambda>c. c \<in> set file_callees) (callees nb_0065) = []"
  by code_simp

lemma packages_0065:
  "remdups (map package (imported_modules nb_0065)) = [''numpy'', ''qiskit_aer'', ''qiskit'',
   ''qiskit_algorithms'', ''matplotlib'']"
  by code_simp

lemma classified_0065:
  "unclassified nb_0065 = []"
  by code_simp

lemma marks_0065:
  "statement_marks nb_0065 = [([], False), ([], False), ([], False), ([], False), ([], False),
   ([], False), ([], False), ([], False), ([], False), ([], False), ([], False), ([], False),
   ([], False), ([], False), ([], False), ([Build], False), ([Plot], False), ([Plot], False),
   ([], False), ([Build], False), ([], False), ([], False), ([Build], False), ([Build], False),
   ([Build], False), ([Simulate], False), ([], False), ([], False), ([Plot], True),
   ([Plot], False)]"
  by code_simp

lemma iteration_0065:
  "\<not> backend_in_iteration nb_0065"
  by code_simp

lemma callback_0065:
  "\<not> backend_in_callback nb_0065"
  by code_simp

lemma functions_0065:
  "functions_with_backend nb_0065 = []"
  by code_simp



lemma constructs_0065_sensing:
  "constructs nb_0065_sensing = [Function ''magnetic_field_sensor'']"
  by code_simp

lemma plain_0065_sensing:
  "custom_error_types nb_0065_sensing = [] \<and> magics nb_0065_sensing = [''matplotlib inline'']
   \<and> filter (\<lambda>c. c \<in> set file_callees) (callees nb_0065_sensing) = []"
  by code_simp

lemma packages_0065_sensing:
  "remdups (map package (imported_modules nb_0065_sensing)) = [''qiskit_aer'', ''qiskit'',
   ''matplotlib'', ''numpy'']"
  by code_simp

lemma classified_0065_sensing:
  "unclassified nb_0065_sensing = []"
  by code_simp

lemma marks_0065_sensing:
  "statement_marks nb_0065_sensing = [([], False), ([], False), ([], False), ([], False),
   ([], False), ([], False), ([], False), ([], False), ([Build], False), ([], False),
   ([Plot], False), ([Plot], False), ([], False), ([Build], False), ([], False),
   ([Plot], False), ([Plot], False), ([Simulate], False), ([], False), ([], False),
   ([], False), ([Plot], True), ([Plot], False)]"
  by code_simp

lemma iteration_0065_sensing:
  "\<not> backend_in_iteration nb_0065_sensing"
  by code_simp

lemma callback_0065_sensing:
  "\<not> backend_in_callback nb_0065_sensing"
  by code_simp

lemma functions_0065_sensing:
  "functions_with_backend nb_0065_sensing = []"
  by code_simp



lemma constructs_0065_superposition:
  "constructs nb_0065_superposition = []"
  by code_simp

lemma plain_0065_superposition:
  "custom_error_types nb_0065_superposition = [] \<and> magics nb_0065_superposition = []
   \<and> filter (\<lambda>c. c \<in> set file_callees) (callees nb_0065_superposition) = []"
  by code_simp

lemma packages_0065_superposition:
  "remdups (map package (imported_modules nb_0065_superposition)) = [''qiskit_aer'', ''qiskit'',
   ''matplotlib'']"
  by code_simp

lemma classified_0065_superposition:
  "unclassified nb_0065_superposition = []"
  by code_simp

lemma marks_0065_superposition:
  "statement_marks nb_0065_superposition = [([], False), ([], False), ([], False), ([], False),
   ([Build], False), ([Build], False), ([Build], False), ([], False), ([Build], False),
   ([Simulate], False), ([], False), ([], False), ([Plot], True), ([Plot], False),
   ([Plot], False)]"
  by code_simp

lemma iteration_0065_superposition:
  "\<not> backend_in_iteration nb_0065_superposition"
  by code_simp

lemma callback_0065_superposition:
  "\<not> backend_in_callback nb_0065_superposition"
  by code_simp

lemma functions_0065_superposition:
  "functions_with_backend nb_0065_superposition = []"
  by code_simp



lemma constructs_part_000:
  "constructs nb_part_000 = []"
  by code_simp

lemma plain_part_000:
  "custom_error_types nb_part_000 = [] \<and> magics nb_part_000 = []
   \<and> filter (\<lambda>c. c \<in> set file_callees) (callees nb_part_000) = []"
  by code_simp

lemma packages_part_000:
  "remdups (map package (imported_modules nb_part_000)) = [''qiskit_aer'', ''qiskit_algorithms'',
   ''matplotlib'', ''qiskit'', ''numpy'', ''warnings'']"
  by code_simp

lemma classified_part_000:
  "unclassified nb_part_000 = []"
  by code_simp

lemma marks_part_000:
  "statement_marks nb_part_000 = [([], False), ([], False), ([], False), ([], False), ([], False),
   ([], False), ([], False), ([], False), ([], False), ([], False), ([], False), ([], False),
   ([], False), ([], False), ([], False), ([], False), ([], False), ([], False), ([], False),
   ([], False), ([], False), ([], False), ([], False), ([Build], False), ([Build], False),
   ([Plot], False), ([], False), ([], False), ([], False), ([Build], False), ([], False),
   ([], False), ([Simulate], False), ([], False), ([], False), ([], False), ([], False)]"
  by code_simp

lemma iteration_part_000:
  "\<not> backend_in_iteration nb_part_000"
  by code_simp

lemma callback_part_000:
  "\<not> backend_in_callback nb_part_000"
  by code_simp

lemma functions_part_000:
  "functions_with_backend nb_part_000 = []"
  by code_simp



lemma constructs_part_001:
  "constructs nb_part_001 = [Function ''grover_oracle'']"
  by code_simp

lemma plain_part_001:
  "custom_error_types nb_part_001 = [] \<and> magics nb_part_001 = []
   \<and> filter (\<lambda>c. c \<in> set file_callees) (callees nb_part_001) = []"
  by code_simp

lemma packages_part_001:
  "remdups (map package (imported_modules nb_part_001)) = [''qiskit_aer'', ''qiskit'',
   ''matplotlib'']"
  by code_simp

lemma classified_part_001:
  "unclassified nb_part_001 = []"
  by code_simp

lemma marks_part_001:
  "statement_marks nb_part_001 = [([], False), ([], False), ([], False), ([], False), ([], False),
   ([Build], False), ([Build], False), ([Build], False), ([Build], False), ([Build], False),
   ([], False), ([Build], False), ([Simulate], False), ([], False), ([], False),
   ([Plot], True), ([Plot], False), ([Plot], False)]"
  by code_simp

lemma iteration_part_001:
  "\<not> backend_in_iteration nb_part_001"
  by code_simp

lemma callback_part_001:
  "\<not> backend_in_callback nb_part_001"
  by code_simp

lemma functions_part_001:
  "functions_with_backend nb_part_001 = []"
  by code_simp



lemmas constructs_all = constructs_0001 constructs_0005 constructs_0005_annealing constructs_0012
  constructs_0014 constructs_0018 constructs_0019 constructs_0021 constructs_0023 constructs_0027
  constructs_0050 constructs_0055 constructs_0065 constructs_0065_sensing
  constructs_0065_superposition constructs_part_000 constructs_part_001

lemmas plain_all = plain_0001 plain_0005 plain_0005_annealing plain_0012 plain_0014 plain_0018
  plain_0019 plain_0021 plain_0023 plain_0027 plain_0050 plain_0055 plain_0065 plain_0065_sensing
  plain_0065_superposition plain_part_000 plain_part_001

lemmas packages_all = packages_0001 packages_0005 packages_0005_annealing packages_0012
  packages_0014 packages_0018 packages_0019 packages_0021 packages_0023 packages_0027
  packages_0050 packages_0055 packages_0065 packages_0065_sensing packages_0065_superposition
  packages_part_000 packages_part_001

lemmas classified_all = classified_0001 classified_0005 classified_0005_annealing classified_0012
  classified_0014 classified_0018 classified_0019 classified_0021 classified_0023 classified_0027
  classified_0050 classified_0055 classified_0065 classified_0065_sensing
  classified_0065_superposition classified_part_000 classified_part_001

lemmas marks_all = marks_0001 marks_0005 marks_0005_annealing marks_0012 marks_0014 marks_0018
  marks_0019 marks_0021 marks_0023 marks_0027 marks_0050 marks_0055 marks_0065 marks_0065_sensing
  marks_0065_superposition marks_part_000 marks_part_001

lemmas iteration_all = iteration_0001 iteration_0005 iteration_0005_annealing iteration_0012
  iteration_0014 iteration_0018 iteration_0019 iteration_0021 iteration_0023 iteration_0027
  iteration_0050 iteration_0055 iteration_0065 iteration_0065_sensing
  iteration_0065_superposition iteration_part_000 iteration_part_001

lemmas callback_all = callback_0001 callback_0005 callback_0005_annealing callback_0012
  callback_0014 callback_0018 callback_0019 callback_0021 callback_0023 callback_0027
  callback_0050 callback_0055 callback_0065 callback_0065_sensing callback_0065_superposition
  callback_part_000 callback_part_001

lemmas functions_all = functions_0001 functions_0005 functions_0005_annealing functions_0012
  functions_0014 functions_0018 functions_0019 functions_0021 functions_0023 functions_0027
  functions_0050 functions_0055 functions_0065 functions_0065_sensing
  functions_0065_superposition functions_part_000 functions_part_001



section \<open>Properties of the notebooks: constructs and failure handling\<close>

lemma failure_free: "\<forall>nb \<in> set notebooks. \<not> handles_failures nb"
  by (simp add: notebooks_def handles_failures_def constructs_all plain_all)

text \<open>
  The notebooks are not all thin sequences of library calls: the tomography notebook
  defines three functions, one of them with \<open>if\<close> statements, and notebook 0050 defines
  a class and has a \<open>for\<close> loop.
\<close>

theorem thin_sequence_counterexample:
  "nb_0023 \<in> set notebooks \<and> \<not> thin_sequence nb_0023
   \<and> Function ''expectation_value'' \<in> set (constructs nb_0023)
   \<and> nb_0050 \<in> set notebooks
   \<and> Class ''QuantumNeuralNetwork'' \<in> set (constructs nb_0050)
   \<and> ForLoop \<in> set (constructs nb_0050)"
  by (simp add: notebooks_def thin_sequence_def constructs_0023 constructs_0050)

text \<open>
  C1, as the code has it. Seven of the seventeen notebooks are thin sequences of
  library calls, with no function, class, loop, branch, comprehension, lambda or
  conditional expression of the authors'. The other ten contain what is listed for each.
  No notebook contains failure handling: no \<open>try\<close>, \<open>raise\<close> or \<open>with\<close> statement and no
  custom error type.
\<close>

theorem notebook_constructs:
  "filter thin_sequence notebooks =
     [nb_0001, nb_0005, nb_0014, nb_0018, nb_0019, nb_0065_superposition, nb_part_000]
   \<and> constructs nb_0005_annealing = [ForLoop]
   \<and> constructs nb_0012 = [Function ''objective_function'']
   \<and> constructs nb_0021 = [Function ''oracle'', Function ''diffusion_operator'']
   \<and> constructs nb_0023 =
        [Function ''prepare_state'', Function ''measure_in_bases'',
         Function ''expectation_value'', Branch]
   \<and> constructs nb_0027 =
        [Function ''circuit'', Function ''cost'', ForLoop, Branch, Comprehension,
         ConditionalExpr, LambdaExpr]
   \<and> constructs nb_0050 =
        [Class ''QuantumNeuralNetwork'', Function ''__init__'', Function ''forward'', ForLoop,
         Comprehension]
   \<and> constructs nb_0055 = [Comprehension]
   \<and> constructs nb_0065 = [Function ''create_symmetry_adapted_circuit'', Comprehension]
   \<and> constructs nb_0065_sensing = [Function ''magnetic_field_sensor'']
   \<and> constructs nb_part_001 = [Function ''grover_oracle'']
   \<and> (\<forall>nb \<in> set notebooks. \<not> handles_failures nb)"
  by (simp add: failure_free) (simp add: notebooks_def thin_sequence_def constructs_all)

theorem notebook_constructs_witness:
  "nb_0050 \<in> set notebooks \<and> \<not> handles_failures nb_0050 \<and> \<not> thin_sequence nb_0050
   \<and> thin_sequence nb_0001"
proof -
  have m: "nb_0050 \<in> set notebooks" by (simp add: notebooks_def)
  have "\<not> handles_failures nb_0050" using notebook_constructs m by blast
  moreover have "constructs nb_0050 \<noteq> []" using notebook_constructs by simp
  moreover have "thin_sequence nb_0001" by (simp add: thin_sequence_def constructs_0001)
  ultimately show ?thesis using m by (simp add: thin_sequence_def)
qed

text \<open>A statement is among the statements inside it, so the top-level statements of a
  notebook are among all its statements.\<close>

lemma sub_stmts_self: "s \<in> set (sub_stmts s)"
  by (cases s) simp_all

lemma source_in_all_stmts: "s \<in> set (source nb) \<Longrightarrow> s \<in> set (all_stmts nb)"
  using sub_stmts_self by (auto simp: all_stmts_def)

lemma try_is_construct:
  "Try body handlers \<in> set (source nb) \<Longrightarrow> TryExcept \<in> set (constructs nb)"
proof -
  assume "Try body handlers \<in> set (source nb)"
  then have "Try body handlers \<in> set (all_stmts nb)" by (rule source_in_all_stmts)
  then have "TryExcept \<in> set (concat (map stmt_construct (all_stmts nb)))"
    by (force simp: image_iff)
  then show ?thesis by (simp add: constructs_def)
qed

text \<open>Where no statement of a sequence is a \<open>try\<close>, the first exception that escapes a
  statement is the outcome of the run.\<close>

lemma run_first_raise:
  assumes "\<forall>body handlers. Try body handlers \<notin> set ss"
    and "i < length ss" and "raises (ss ! i) = Some e"
    and "\<forall>j < i. raises (ss ! j) = None"
  shows "run raises ss = Some e"
  using assms
proof (induction ss arbitrary: i)
  case Nil
  then show ?case by simp
next
  case (Cons s ss)
  have nt: "\<forall>body handlers. s \<noteq> Try body handlers" using Cons.prems(1) by auto
  show ?case
  proof (cases i)
    case 0
    then have "raises s = Some e" using Cons.prems(3) by simp
    then show ?thesis using nt by (cases s) simp_all
  next
    case (Suc k)
    have "raises s = None" using Cons.prems(4) Suc by auto
    moreover have "run raises ss = Some e"
    proof (rule Cons.IH)
      show "\<forall>body handlers. Try body handlers \<notin> set ss" using Cons.prems(1) by auto
      show "k < length ss" using Cons.prems(2) Suc by simp
      show "raises (ss ! k) = Some e" using Cons.prems(3) Suc by simp
      show "\<forall>j < k. raises (ss ! j) = None"
      proof (intro allI impI)
        fix j assume "j < k"
        then have "Suc j < i" using Suc by simp
        then have "raises ((s # ss) ! Suc j) = None" using Cons.prems(4) by blast
        then show "raises (ss ! j) = None" by simp
      qed
    qed
    ultimately show ?thesis using nt by (cases s) simp_all
  qed
qed

text \<open>
  C5. No notebook has a \<open>try\<close>, \<open>raise\<close> or \<open>with\<close> statement or a custom error type,
  anywhere in its code; so whichever top-level statement is the first that an exception
  escapes from, that exception is the outcome of running the notebook.
\<close>

theorem no_failure_handling:
  "\<forall>nb \<in> set notebooks.
      \<not> handles_failures nb
    \<and> (\<forall>raises i e. i < length (source nb) \<and> raises (source nb ! i) = Some e
           \<and> (\<forall>j < i. raises (source nb ! j) = None)
         \<longrightarrow> run raises (source nb) = Some e)"
proof (intro ballI conjI allI impI)
  fix nb assume nb: "nb \<in> set notebooks"
  show h: "\<not> handles_failures nb" using failure_free nb by blast
  fix raises :: "stmt \<Rightarrow> py_error option" and i :: nat and e :: py_error
  assume a: "i < length (source nb) \<and> raises (source nb ! i) = Some e
    \<and> (\<forall>j < i. raises (source nb ! j) = None)"
  have "\<forall>body handlers. Try body handlers \<notin> set (source nb)"
    using h try_is_construct by (auto simp: handles_failures_def)
  then show "run raises (source nb) = Some e"
    using a run_first_raise by blast
qed

text \<open>Notebook 0001, had \<open>simulator.run\<close> raised in its fifth cell: the run ends there.\<close>

theorem no_failure_handling_witness:
  "\<not> handles_failures nb_0001
   \<and> source nb_0001 ! 10 =
        Assign ''result'' [Call ''simulator.run(...).result'' [Call ''simulator.run'' []]]
   \<and> run (\<lambda>s. if s = Assign ''result'' [Call ''simulator.run(...).result'' [Call ''simulator.run'' []]]
              then Some CircuitError else None) (source nb_0001) = Some CircuitError
   \<and> run (\<lambda>s. Some KeyError)
        [Try [Expr [Call ''f'' []]] [Expr [Call ''print'' []]], Expr [Call ''g'' []]] = Some KeyError
   \<and> run (\<lambda>s. if s = Expr [Call ''f'' []] then Some KeyError else None)
        [Try [Expr [Call ''f'' []]] [Expr [Call ''print'' []]], Expr [Call ''g'' []]] = None"
proof -
  let ?r = "\<lambda>s. if s = Assign ''result'' [Call ''simulator.run(...).result'' [Call ''simulator.run'' []]]
              then Some CircuitError else None"
  have m: "nb_0001 \<in> set notebooks" by (simp add: notebooks_def)
  have src: "source nb_0001 ! 10 =
        Assign ''result'' [Call ''simulator.run(...).result'' [Call ''simulator.run'' []]]"
    by (simp add: source_def nb_0001_def)
  have len: "10 < length (source nb_0001)" by (simp add: source_def nb_0001_def)
  have "\<forall>s \<in> set (take 10 (source nb_0001)). ?r s = None"
    by (simp add: source_def nb_0001_def)
  then have before: "\<forall>j < 10. ?r (source nb_0001 ! j) = None"
    using len by (metis in_set_conv_nth length_take min.absorb2 nth_take less_imp_le)
  have "?r (source nb_0001 ! 10) = Some CircuitError" using src by simp
  moreover have g: "\<forall>raises i e. i < length (source nb_0001) \<and> raises (source nb_0001 ! i) = Some e
           \<and> (\<forall>j < i. raises (source nb_0001 ! j) = None)
         \<longrightarrow> run raises (source nb_0001) = Some e"
    using no_failure_handling m by blast
  ultimately have "run ?r (source nb_0001) = Some CircuitError"
    using g[rule_format, where raises = "?r" and i = 10 and e = CircuitError] len before
    by blast
  moreover have "\<not> handles_failures nb_0001" using no_failure_handling m by blast
  moreover have "run (\<lambda>s. Some KeyError)
        [Try [Expr [Call ''f'' []]] [Expr [Call ''print'' []]], Expr [Call ''g'' []]] = Some KeyError"
    by simp
  moreover have "run (\<lambda>s. if s = Expr [Call ''f'' []] then Some KeyError else None)
        [Try [Expr [Call ''f'' []]] [Expr [Call ''print'' []]], Expr [Call ''g'' []]] = None"
    by simp
  ultimately show ?thesis using src by simp
qed

section \<open>Properties of the notebooks: imports and data flow\<close>

lemma repository_modules_eq:
  "repository_modules =
     [''0001-basic-quantum-circuit'', ''0005-quantum-gates'',
      ''0012-varitional-quantum-eigensolver'', ''0014-quantum-random-number-generator'',
      ''0018-quantum-image-processing'', ''0019-quantum-principal-component-analysis'',
      ''0021-quantum-amplitude-amplification'', ''0023-quantum-state-tomography'',
      ''0027-quantum-ml-with-pennylane'', ''0050-qnn-econophysics-economic-forecasting'',
      ''0055-chemistry-ccsd'', ''0065-quantum-chemistry-simulation-symmetry-adapted-circuit'',
      ''README'', ''part_000'', ''part_001'']"
  by code_simp

lemma external_not_repository:
  "\<forall>p \<in> set external_packages. p \<notin> set repository_modules"
  by (simp add: external_packages_def repository_modules_eq)

lemma packages_external:
  "\<forall>nb \<in> set notebooks. set (map package (imported_modules nb)) \<subseteq> set external_packages"
proof -
  have "list_all (\<lambda>nb. set (remdups (map package (imported_modules nb)))
                        \<subseteq> set external_packages) notebooks"
    by (simp add: notebooks_def packages_all external_packages_def del: set_remdups)
  then show ?thesis by (simp add: list_all_iff)
qed

lemma no_file_callee:
  "filter (\<lambda>c. c \<in> set fs) cs = [] \<Longrightarrow> \<forall>c \<in> set cs. c \<notin> set fs"
  by (simp add: filter_empty_conv)

text \<open>
  C7. Every import of every notebook names a module of an external package (the SDKs
  and libraries, and \<open>warnings\<close> of the standard library), never a module that a file of
  the repository could provide; no notebook calls a function that reads or writes a file,
  and the only magic used is \<open>%matplotlib inline\<close>: nothing passes from one notebook to
  another.
\<close>

theorem imports_external:
  "\<forall>nb \<in> set notebooks.
      (\<forall>m \<in> set (imported_modules nb).
          package m \<in> set external_packages \<and> package m \<notin> set repository_modules)
    \<and> (\<forall>c \<in> set (callees nb). c \<notin> set file_callees)
    \<and> set (magics nb) \<subseteq> {''matplotlib inline''}"
proof
  fix nb assume nb: "nb \<in> set notebooks"
  {
    fix m assume "m \<in> set (imported_modules nb)"
    then have "package m \<in> set (map package (imported_modules nb))" by simp
    then have e: "package m \<in> set external_packages" using packages_external nb by blast
    then have "package m \<notin> set repository_modules" using external_not_repository by blast
    with e have "package m \<in> set external_packages \<and> package m \<notin> set repository_modules" ..
  }
  then have modules: "\<forall>m \<in> set (imported_modules nb).
      package m \<in> set external_packages \<and> package m \<notin> set repository_modules"
    by blast
  have "filter (\<lambda>c. c \<in> set file_callees) (callees nb) = []"
    using nb by (auto simp: notebooks_def plain_all)
  then have files: "\<forall>c \<in> set (callees nb). c \<notin> set file_callees"
    by (rule no_file_callee)
  have "set (magics nb) \<subseteq> {''matplotlib inline''}"
    using nb by (auto simp: notebooks_def plain_all)
  with modules files show "(\<forall>m \<in> set (imported_modules nb).
          package m \<in> set external_packages \<and> package m \<notin> set repository_modules)
    \<and> (\<forall>c \<in> set (callees nb). c \<notin> set file_callees)
    \<and> set (magics nb) \<subseteq> {''matplotlib inline''}"
    by blast
qed

theorem imports_external_witness:
  "imported_modules nb_0023 =
     [''qiskit'', ''qiskit.visualization'', ''numpy'', ''matplotlib.pyplot'',
      ''qiskit.quantum_info'', ''qiskit.result'', ''qiskit.quantum_info'', ''qiskit_aer'',
      ''warnings'']
   \<and> package ''warnings'' \<in> set external_packages
   \<and> package ''qiskit.quantum_info'' = ''qiskit''
   \<and> package ''qiskit.quantum_info'' \<notin> set repository_modules
   \<and> ''warnings.filterwarnings'' \<in> set (callees nb_0023)
   \<and> ''warnings.filterwarnings'' \<notin> set file_callees"
proof -
  have m: "nb_0023 \<in> set notebooks" by (simp add: notebooks_def)
  have i: "imported_modules nb_0023 =
     [''qiskit'', ''qiskit.visualization'', ''numpy'', ''matplotlib.pyplot'',
      ''qiskit.quantum_info'', ''qiskit.result'', ''qiskit.quantum_info'', ''qiskit_aer'',
      ''warnings'']"
    by code_simp
  have c: "''warnings.filterwarnings'' \<in> set (callees nb_0023)"
    by code_simp
  have "package ''warnings'' \<in> set external_packages"
    using imports_external m i by simp
  moreover have "package ''qiskit.quantum_info'' \<notin> set repository_modules"
    using imports_external m i by simp
  moreover have "''warnings.filterwarnings'' \<notin> set file_callees"
    using imports_external m c by blast
  moreover have "package ''qiskit.quantum_info'' = ''qiskit''"
    by (simp add: package_def)
  ultimately show ?thesis using i c by simp
qed

section \<open>Properties of the notebooks: phases\<close>

lemmas position_defs = histogram_after_backend_def backend_positions_def histogram_positions_def

lemma histograms_last: "\<forall>nb \<in> set notebooks. histogram_after_backend nb"
proof -
  have "histogram_after_backend nb_0001" unfolding position_defs marks_0001 by code_simp
  moreover have "histogram_after_backend nb_0005" unfolding position_defs marks_0005 by code_simp
  moreover have "histogram_after_backend nb_0005_annealing"
    unfolding position_defs marks_0005_annealing by code_simp
  moreover have "histogram_after_backend nb_0012" unfolding position_defs marks_0012 by code_simp
  moreover have "histogram_after_backend nb_0014" unfolding position_defs marks_0014 by code_simp
  moreover have "histogram_after_backend nb_0018" unfolding position_defs marks_0018 by code_simp
  moreover have "histogram_after_backend nb_0019" unfolding position_defs marks_0019 by code_simp
  moreover have "histogram_after_backend nb_0021" unfolding position_defs marks_0021 by code_simp
  moreover have "histogram_after_backend nb_0023" unfolding position_defs marks_0023 by code_simp
  moreover have "histogram_after_backend nb_0027" unfolding position_defs marks_0027 by code_simp
  moreover have "histogram_after_backend nb_0050" unfolding position_defs marks_0050 by code_simp
  moreover have "histogram_after_backend nb_0055" unfolding position_defs marks_0055 by code_simp
  moreover have "histogram_after_backend nb_0065" unfolding position_defs marks_0065 by code_simp
  moreover have "histogram_after_backend nb_0065_sensing"
    unfolding position_defs marks_0065_sensing by code_simp
  moreover have "histogram_after_backend nb_0065_superposition"
    unfolding position_defs marks_0065_superposition by code_simp
  moreover have "histogram_after_backend nb_part_000"
    unfolding position_defs marks_part_000 by code_simp
  moreover have "histogram_after_backend nb_part_001"
    unfolding position_defs marks_part_001 by code_simp
  ultimately show ?thesis by (simp add: notebooks_def)
qed

lemma traces:
  "phase_trace nb_0001 = [Build, Simulate, Plot]"
  "phase_trace nb_0005 = [Build, Simulate, Plot]"
  "phase_trace nb_0005_annealing = [Simulate, Build, Plot]"
  "phase_trace nb_0012 = [Build, Simulate, Build, Plot]"
  "phase_trace nb_0014 = [Build, Plot, Build, Plot, Simulate, Plot]"
  "phase_trace nb_0018 = [Build, Plot, Build, Simulate, Build, Simulate, Plot]"
  "phase_trace nb_0019 = [Build, Plot, Build, Simulate, Build, Simulate, Plot]"
  "phase_trace nb_0021 = [Build, Plot, Build, Simulate, Plot]"
  "phase_trace nb_0023 = [Build, Plot, Build, Plot, Build, Simulate, Plot]"
  "phase_trace nb_0027 = [Build, Simulate, Build, Plot]"
  "phase_trace nb_0050 = [Build, Plot, Simulate]"
  "phase_trace nb_0055 = [Build, Simulate, Build, Plot]"
  "phase_trace nb_0065 = [Build, Plot, Build, Simulate, Plot]"
  "phase_trace nb_0065_sensing = [Build, Plot, Build, Plot, Simulate, Plot]"
  "phase_trace nb_0065_superposition = [Build, Simulate, Plot]"
  "phase_trace nb_part_000 = [Build, Plot, Build, Simulate]"
  "phase_trace nb_part_001 = [Build, Simulate, Plot]"
  by (simp_all add: phase_trace_def marks_all)

text \<open>Every call of every notebook is in one of the lists, and in one only.\<close>

lemma calls_classified: "\<forall>nb \<in> set notebooks. unclassified nb = []"
  by (simp add: notebooks_def classified_all)

lemma sdk_callees_distinct: "distinct sdk_callees"
  by code_simp

text \<open>
  The notebooks are not all three phases in order: the PennyLane notebook reaches its
  backend, the QNode, from inside a \<open>for\<close> loop and a comprehension, and draws its
  circuit afterwards; notebook 0014 draws its circuit before it simulates; notebook 0012
  calls the backend inside a function that it hands to the SDK's optimizer, and derives
  a circuit again after the simulation; notebook 0055 transpiles its circuit after the
  simulation.
\<close>

theorem three_phases_counterexample:
  "nb_0027 \<in> set notebooks \<and> \<not> three_phases nb_0027 \<and> backend_in_iteration nb_0027
   \<and> phase_trace nb_0027 = [Build, Simulate, Build, Plot]
   \<and> nb_0014 \<in> set notebooks \<and> \<not> three_phases nb_0014
   \<and> phase_trace nb_0014 = [Build, Plot, Build, Plot, Simulate, Plot]
   \<and> nb_0012 \<in> set notebooks \<and> \<not> three_phases nb_0012 \<and> backend_in_callback nb_0012
   \<and> functions_with_backend nb_0012 = [''objective_function'']
   \<and> phase_trace nb_0012 = [Build, Simulate, Build, Plot]
   \<and> nb_0055 \<in> set notebooks \<and> \<not> three_phases nb_0055
   \<and> phase_trace nb_0055 = [Build, Simulate, Build, Plot]"
  by (simp add: notebooks_def three_phases_def traces iteration_0027 callback_0012
      functions_0012)

text \<open>
  C3, as the code has it. Four of the seventeen notebooks run as building, then
  simulating, then plotting, with no backend call reached from inside an author-written
  loop or comprehension or from a callback. The other thirteen run as listed: drawings
  come before the simulation, or a circuit is built or derived again after a simulation,
  or the backend runs before the circuit is built, or no plot follows the simulation.
  Two notebooks reach a backend call from inside author-written iteration, two from a
  callback handed to the SDK; three have a function whose body calls a backend. In every
  notebook each histogram is plotted after every backend call. The phases are those of
  the lists of SDK calls, which hold every call of every notebook once.
\<close>

theorem notebook_phases:
  "filter three_phases notebooks = [nb_0001, nb_0005, nb_0065_superposition, nb_part_001]
   \<and> phase_trace nb_0005_annealing = [Simulate, Build, Plot]
   \<and> phase_trace nb_0012 = [Build, Simulate, Build, Plot]
   \<and> phase_trace nb_0014 = [Build, Plot, Build, Plot, Simulate, Plot]
   \<and> phase_trace nb_0018 = [Build, Plot, Build, Simulate, Build, Simulate, Plot]
   \<and> phase_trace nb_0019 = [Build, Plot, Build, Simulate, Build, Simulate, Plot]
   \<and> phase_trace nb_0021 = [Build, Plot, Build, Simulate, Plot]
   \<and> phase_trace nb_0023 = [Build, Plot, Build, Plot, Build, Simulate, Plot]
   \<and> phase_trace nb_0027 = [Build, Simulate, Build, Plot]
   \<and> phase_trace nb_0050 = [Build, Plot, Simulate]
   \<and> phase_trace nb_0055 = [Build, Simulate, Build, Plot]
   \<and> phase_trace nb_0065 = [Build, Plot, Build, Simulate, Plot]
   \<and> phase_trace nb_0065_sensing = [Build, Plot, Build, Plot, Simulate, Plot]
   \<and> phase_trace nb_part_000 = [Build, Plot, Build, Simulate]
   \<and> filter backend_in_iteration notebooks = [nb_0027, nb_0050]
   \<and> filter backend_in_callback notebooks = [nb_0012, nb_0027]
   \<and> filter (\<lambda>nb. functions_with_backend nb \<noteq> []) notebooks = [nb_0012, nb_0027, nb_0050]
   \<and> functions_with_backend nb_0012 = [''objective_function'']
   \<and> functions_with_backend nb_0027 = [''cost'']
   \<and> functions_with_backend nb_0050 = [''forward'']
   \<and> (\<forall>nb \<in> set notebooks. histogram_after_backend nb \<and> unclassified nb = [])
   \<and> distinct sdk_callees"
  by (simp add: histograms_last calls_classified sdk_callees_distinct)
     (simp add: notebooks_def three_phases_def traces iteration_all callback_all functions_all)

theorem notebook_phases_witness:
  "nb_0023 \<in> set notebooks \<and> histogram_after_backend nb_0023 \<and> unclassified nb_0023 = []
   \<and> backend_positions nb_0023 = [23] \<and> histogram_positions nb_0023 = [34]
   \<and> three_phases nb_0001 \<and> \<not> three_phases nb_0050"
proof -
  have m: "nb_0023 \<in> set notebooks" by (simp add: notebooks_def)
  have "histogram_after_backend nb_0023 \<and> unclassified nb_0023 = []"
    using notebook_phases m by blast
  moreover have "backend_positions nb_0023 = [23]"
    unfolding position_defs marks_0023 by code_simp
  moreover have "histogram_positions nb_0023 = [34]"
    unfolding position_defs marks_0023 by code_simp
  moreover have "three_phases nb_0001"
    by (simp add: three_phases_def traces iteration_0001 callback_0001)
  moreover have "\<not> three_phases nb_0050"
    by (simp add: three_phases_def traces)
  ultimately show ?thesis using m by simp
qed

section \<open>Properties of the notebooks: simulation calls\<close>







end
